theory Spec2Isabelle
  imports Complex_Main "HOL-Library.AList"
begin

section \<open>JavaScript values\<close>

text \<open>
  JavaScript numbers are read as reals: rounding, NaN, the infinities and the signed zero
  are outside this development. A property that may be absent (\<open>undefined\<close>) is an
  \<open>option\<close>. The operator \<open>a || b\<close> yields \<open>b\<close> when \<open>a\<close> is falsy: for a number that
  is \<open>undefined\<close> or \<open>0\<close>, for a string \<open>undefined\<close> or the empty string, for a boolean
  \<open>undefined\<close> or \<open>false\<close>.
\<close>

definition falsy_num :: "real option \<Rightarrow> bool" where
  "falsy_num v = (case v of None \<Rightarrow> True | Some n \<Rightarrow> n = 0)"

definition falsy_str :: "string option \<Rightarrow> bool" where
  "falsy_str v = (case v of None \<Rightarrow> True | Some s \<Rightarrow> s = [])"

definition falsy_bool :: "bool option \<Rightarrow> bool" where
  "falsy_bool v = (case v of None \<Rightarrow> True | Some b \<Rightarrow> \<not> b)"

definition or_num :: "real option \<Rightarrow> real \<Rightarrow> real" where
  "or_num v d = (case v of None \<Rightarrow> d | Some n \<Rightarrow> if n = 0 then d else n)"

definition or_str :: "string option \<Rightarrow> string \<Rightarrow> string" where
  "or_str v d = (case v of None \<Rightarrow> d | Some s \<Rightarrow> if s = [] then d else s)"

definition or_bool :: "bool option \<Rightarrow> bool \<Rightarrow> bool" where
  "or_bool v d = (case v of None \<Rightarrow> d | Some b \<Rightarrow> if b then True else d)"

datatype vec3 = Vec3 (vx: real) (vy: real) (vz: real)

text \<open>A reference to a Three.js object: its index in the store of objects of its class.\<close>

type_synonym ref = nat

section \<open>Components\<close>

text \<open>\<open>components/TransformComponent.ts\<close>: the constructor's default parameters apply
  to an absent argument only.\<close>

record TransformComponent =
  t_position :: vec3
  t_rotation :: vec3
  t_scale :: vec3

definition TransformComponent_new ::
  "vec3 option \<Rightarrow> vec3 option \<Rightarrow> vec3 option \<Rightarrow> TransformComponent" where
  "TransformComponent_new p r s =
     \<lparr> t_position = (case p of None \<Rightarrow> Vec3 0 0 0 | Some v \<Rightarrow> v),
       t_rotation = (case r of None \<Rightarrow> Vec3 0 0 0 | Some v \<Rightarrow> v),
       t_scale = (case s of None \<Rightarrow> Vec3 1 1 1 | Some v \<Rightarrow> v) \<rparr>"

text \<open>\<open>components/ThreeMeshComponent.ts\<close>\<close>

record ThreeMeshComponent =
  mesh :: "ref option"
  mesh_needsUpdate :: bool

definition ThreeMeshComponent_new :: "ref option \<Rightarrow> ThreeMeshComponent" where
  "ThreeMeshComponent_new m = \<lparr> mesh = m, mesh_needsUpdate = False \<rparr>"

text \<open>\<open>components/ThreeMaterialComponent.ts\<close>: the constructor reads a
  \<open>Partial<ThreeMaterialComponent>\<close>, every property of which may be absent.\<close>

record ThreeMaterialComponent =
  materialType :: string
  mat_color :: string
  metalness :: real
  roughness :: real
  emissive :: string
  emissiveIntensity :: real
  transparent :: bool
  opacity :: real
  wireframe :: bool
  texture :: "string option"
  mat_needsUpdate :: bool

record ThreeMaterialConfig =
  cfg_materialType :: "string option"
  cfg_mat_color :: "string option"
  cfg_metalness :: "real option"
  cfg_roughness :: "real option"
  cfg_emissive :: "string option"
  cfg_emissiveIntensity :: "real option"
  cfg_transparent :: "bool option"
  cfg_opacity :: "real option"
  cfg_wireframe :: "bool option"
  cfg_texture :: "string option"

definition ThreeMaterialComponent_new :: "ThreeMaterialConfig \<Rightarrow> ThreeMaterialComponent" where
  "ThreeMaterialComponent_new config =
     \<lparr> materialType = or_str (cfg_materialType config) ''standard'',
       mat_color = or_str (cfg_mat_color config) ''#ffffff'',
       metalness = or_num (cfg_metalness config) 0.0,
       roughness = or_num (cfg_roughness config) 1.0,
       emissive = or_str (cfg_emissive config) ''#000000'',
       emissiveIntensity = or_num (cfg_emissiveIntensity config) 0.0,
       transparent = or_bool (cfg_transparent config) False,
       opacity = or_num (cfg_opacity config) 1.0,
       wireframe = or_bool (cfg_wireframe config) False,
       texture = cfg_texture config,
       mat_needsUpdate = False \<rparr>"

text \<open>\<open>components/ThreeGeometryComponent.ts\<close>: \<open>parameters\<close> is a
  \<open>Record<string, number>\<close>; the type tag is any string (the constructor casts it).\<close>

record ThreeGeometryComponent =
  geometryType :: string
  parameters :: "string \<rightharpoonup> real"
  geo_needsUpdate :: bool

definition ThreeGeometryComponent_new ::
  "string option \<Rightarrow> (string \<rightharpoonup> real) option \<Rightarrow> ThreeGeometryComponent" where
  "ThreeGeometryComponent_new ty ps =
     \<lparr> geometryType = (case ty of None \<Rightarrow> ''box'' | Some t \<Rightarrow> t),
       parameters = (case ps of None \<Rightarrow> Map.empty | Some p \<Rightarrow> p),
       geo_needsUpdate = False \<rparr>"

text \<open>\<open>components/ThreeLightComponent.ts\<close>\<close>

record ThreeLightComponent =
  lightType :: string
  light_color :: string
  intensity :: real
  castShadow :: bool
  light :: "ref option"
  light_needsUpdate :: bool

record ThreeLightConfig =
  cfg_lightType :: "string option"
  cfg_light_color :: "string option"
  cfg_intensity :: "real option"
  cfg_castShadow :: "bool option"

definition ThreeLightComponent_new :: "ThreeLightConfig \<Rightarrow> ThreeLightComponent" where
  "ThreeLightComponent_new config =
     \<lparr> lightType = or_str (cfg_lightType config) ''directional'',
       light_color = or_str (cfg_light_color config) ''#ffffff'',
       intensity = or_num (cfg_intensity config) 1.0,
       castShadow = or_bool (cfg_castShadow config) False,
       light = None,
       light_needsUpdate = False \<rparr>"

text \<open>\<open>components/ThreeCameraComponent.ts\<close>\<close>

record ThreeCameraComponent =
  cameraType :: string
  fov :: real
  aspect :: real
  near :: real
  far :: real
  camera :: "ref option"
  cam_needsUpdate :: bool

record ThreeCameraConfig =
  cfg_cameraType :: "string option"
  cfg_fov :: "real option"
  cfg_aspect :: "real option"
  cfg_near :: "real option"
  cfg_far :: "real option"

definition ThreeCameraComponent_new :: "ThreeCameraConfig \<Rightarrow> ThreeCameraComponent" where
  "ThreeCameraComponent_new config =
     \<lparr> cameraType = or_str (cfg_cameraType config) ''perspective'',
       fov = or_num (cfg_fov config) 75,
       aspect = or_num (cfg_aspect config) 1,
       near = or_num (cfg_near config) 0.1,
       far = or_num (cfg_far config) 1000,
       camera = None,
       cam_needsUpdate = False \<rparr>"

section \<open>Three.js objects\<close>

text \<open>
  A geometry or a material is the constructor call that made it. A material's argument is
  the object literal of the call, as the list of its properties in order.
\<close>

datatype geometry =
    BoxGeometry real real real
  | SphereGeometry real real real
  | PlaneGeometry real real
  | CylinderGeometry real real real real
  | ConeGeometry real real real
  | TorusGeometry real real real real

datatype jsval =
    Num real
  | Str string
  | Bool bool
  | Color string
  | ParseInt string

datatype material =
    MeshStandardMaterial "(string \<times> jsval) list"
  | MeshBasicMaterial "(string \<times> jsval) list"
  | MeshPhongMaterial "(string \<times> jsval) list"
  | MeshPhysicalMaterial "(string \<times> jsval) list"

text \<open>\<open>mesh.material\<close> is a material or an array of materials; the system also tests
  it for being falsy. \<open>mesh.geometry\<close> is read without such a test.\<close>

datatype mesh_material = NoMaterial | Single material | Multi "material list"

record Mesh =
  mesh_geometry :: "geometry option"
  mesh_material :: mesh_material
  mesh_position :: vec3
  mesh_rotation :: vec3
  mesh_scale :: vec3
  mesh_castShadow :: bool
  mesh_receiveShadow :: bool
  userData :: "nat option"

definition new_Mesh :: "geometry \<Rightarrow> material \<Rightarrow> Mesh" where
  "new_Mesh g m =
     \<lparr> mesh_geometry = Some g, mesh_material = Single m,
       mesh_position = Vec3 0 0 0, mesh_rotation = Vec3 0 0 0, mesh_scale = Vec3 1 1 1,
       mesh_castShadow = False, mesh_receiveShadow = False, userData = None \<rparr>"

datatype light_ctor =
    AmbientLight string real
  | DirectionalLight string real
  | PointLight string real
  | SpotLight string real
  | HemisphereLight string string real

record Light =
  light_ctor :: light_ctor
  l_color :: jsval
  l_intensity :: real
  l_castShadow :: bool
  l_position :: vec3

fun ctor_color :: "light_ctor \<Rightarrow> string" where
  "ctor_color (AmbientLight c i) = c"
| "ctor_color (DirectionalLight c i) = c"
| "ctor_color (PointLight c i) = c"
| "ctor_color (SpotLight c i) = c"
| "ctor_color (HemisphereLight c g i) = c"

fun ctor_intensity :: "light_ctor \<Rightarrow> real" where
  "ctor_intensity (AmbientLight c i) = i"
| "ctor_intensity (DirectionalLight c i) = i"
| "ctor_intensity (PointLight c i) = i"
| "ctor_intensity (SpotLight c i) = i"
| "ctor_intensity (HemisphereLight c g i) = i"

text \<open>Three.js places a directional, a spot and a hemisphere light at its default up
  vector \<open>(0, 1, 0)\<close>, the other lights at the origin.\<close>

fun ctor_position :: "light_ctor \<Rightarrow> vec3" where
  "ctor_position (AmbientLight c i) = Vec3 0 0 0"
| "ctor_position (DirectionalLight c i) = Vec3 0 1 0"
| "ctor_position (PointLight c i) = Vec3 0 0 0"
| "ctor_position (SpotLight c i) = Vec3 0 1 0"
| "ctor_position (HemisphereLight c g i) = Vec3 0 1 0"

definition new_Light :: "light_ctor \<Rightarrow> Light" where
  "new_Light k =
     \<lparr> light_ctor = k, l_color = Color (ctor_color k), l_intensity = ctor_intensity k,
       l_castShadow = False, l_position = ctor_position k \<rparr>"

datatype camera_ctor =
    PerspectiveCamera real real real real
  | OrthographicCamera real real real real real real

text \<open>A camera's orientation is the Euler angles last given to \<open>rotation.set\<close>, or the
  target last given to \<open>lookAt\<close>.\<close>

datatype orientation = Euler vec3 | LookAt vec3

record Camera =
  camera_ctor :: camera_ctor
  cam_position :: vec3
  cam_rotation :: orientation

definition new_Camera :: "camera_ctor \<Rightarrow> Camera" where
  "new_Camera k = \<lparr> camera_ctor = k, cam_position = Vec3 0 0 0, cam_rotation = Euler (Vec3 0 0 0) \<rparr>"

datatype object3d = MeshObj ref | LightObj ref | CameraObj ref

subsection \<open>\<open>ThreeRenderSystem._createGeometry\<close>\<close>

definition createGeometry :: "ThreeGeometryComponent option \<Rightarrow> geometry" where
  "createGeometry geometryComp =
     (case geometryComp of
        None \<Rightarrow> BoxGeometry 1 1 1
      | Some gc \<Rightarrow>
          let ty = geometryType gc; p = parameters gc in
          if ty = ''box'' then
            BoxGeometry (or_num (p ''width'') 1) (or_num (p ''height'') 1) (or_num (p ''depth'') 1)
          else if ty = ''sphere'' then
            SphereGeometry (or_num (p ''radius'') 0.5) (or_num (p ''widthSegments'') 16)
              (or_num (p ''heightSegments'') 12)
          else if ty = ''plane'' then
            PlaneGeometry (or_num (p ''width'') 1) (or_num (p ''height'') 1)
          else if ty = ''cylinder'' then
            CylinderGeometry (or_num (p ''radiusTop'') 0.5) (or_num (p ''radiusBottom'') 0.5)
              (or_num (p ''height'') 1) (or_num (p ''radialSegments'') 8)
          else if ty = ''cone'' then
            ConeGeometry (or_num (p ''radius'') 0.5) (or_num (p ''height'') 1)
              (or_num (p ''radialSegments'') 8)
          else if ty = ''torus'' then
            TorusGeometry (or_num (p ''radius'') 0.4) (or_num (p ''tube'') 0.2)
              (or_num (p ''radialSegments'') 8) (or_num (p ''tubularSegments'') 6)
          else BoxGeometry 1 1 1)"

subsection \<open>\<open>ThreeRenderSystem._createMaterial\<close>\<close>

text \<open>The colour \<open>0x4CAF50\<close> of the fallback material is 5025616.\<close>

definition material_config :: "ThreeMaterialComponent \<Rightarrow> (string \<times> jsval) list" where
  "material_config mc =
     [ (''color'', Color (mat_color mc)),
       (''transparent'', Bool (transparent mc)),
       (''opacity'', Num (opacity mc)),
       (''wireframe'', Bool (wireframe mc)) ]"

definition createMaterial :: "ThreeMaterialComponent option \<Rightarrow> material" where
  "createMaterial materialComp =
     (case materialComp of
        None \<Rightarrow> MeshStandardMaterial [(''color'', Num 5025616)]
      | Some mc \<Rightarrow>
          let config = material_config mc; ty = materialType mc in
          if ty = ''standard'' then
            MeshStandardMaterial (config @
              [ (''metalness'', Num (metalness mc)), (''roughness'', Num (roughness mc)),
                (''emissive'', Color (emissive mc)),
                (''emissiveIntensity'', Num (emissiveIntensity mc)) ])
          else if ty = ''basic'' then MeshBasicMaterial config
          else if ty = ''phong'' then
            MeshPhongMaterial (config @ [(''shininess'', Num ((1.0 - roughness mc) * 100))])
          else if ty = ''physical'' then
            MeshPhysicalMaterial (config @
              [ (''metalness'', Num (metalness mc)), (''roughness'', Num (roughness mc)),
                (''emissive'', Color (emissive mc)),
                (''emissiveIntensity'', Num (emissiveIntensity mc)) ])
          else if ty = ''wireframe'' then
            MeshBasicMaterial (AList.update ''wireframe'' (Bool True) config)
          else MeshStandardMaterial config)"

section \<open>The world and the state of the render system\<close>

text \<open>
  An entity of the host ECS: its identifier, its \<open>active\<close> flag and the component it holds
  of each class (\<open>getComponent\<close> yields \<open>undefined\<close>, \<open>hasComponent\<close> yields \<open>false\<close>, for a
  class that is \<open>None\<close>). Each entity owns its component objects.
\<close>

record Entity =
  ent_id :: nat
  active :: bool
  c_transform :: "TransformComponent option"
  c_mesh :: "ThreeMeshComponent option"
  c_material :: "ThreeMaterialComponent option"
  c_geometry :: "ThreeGeometryComponent option"
  c_light :: "ThreeLightComponent option"
  c_camera :: "ThreeCameraComponent option"

record World =
  entities :: "Entity list"

text \<open>
  Every call into Three.js is recorded in the order it is made. Such a call may throw:
  whether it does is a parameter \<open>T\<close> of the model, a predicate on the calls made so far
  and the call at hand.
\<close>

datatype three_call =
    New_Geometry geometry
  | New_Material material
  | New_Mesh geometry material
  | New_Light light_ctor
  | New_Camera camera_ctor
  | Scene_add object3d
  | Scene_remove object3d
  | Position_set object3d vec3
  | Rotation_set object3d vec3
  | Scale_set object3d vec3
  | Geometry_dispose geometry
  | Material_dispose material
  | Color_setHex ref string
  | Renderer_render "object3d list" ref
  | Renderer_dispose

type_synonym throwing = "three_call list \<Rightarrow> three_call \<Rightarrow> bool"

datatype error = TypeError | Thrown three_call

datatype console_entry =
    Error_mesh nat error
  | Error_light nat error
  | Error_camera nat error
  | Error_update error
  | Log string

text \<open>
  The state: the Three.js objects by class (\<open>object3DId\<close> is the next reference to be
  given out), the children of the scene, the fields of the system, the console and the
  record of the calls into Three.js.
\<close>

record state =
  meshes :: "ref \<Rightarrow> Mesh"
  lights :: "ref \<Rightarrow> Light"
  cameras :: "ref \<Rightarrow> Camera"
  object3DId :: nat
  scene :: "object3d list"
  sys_camera :: ref
  enableShadows :: bool
  isInitialized :: bool
  frameCount :: nat
  world :: "World option"
  console :: "console_entry list"
  trace :: "three_call list"

subsection \<open>Statements that may throw\<close>

text \<open>A statement maps a state to the error it threw, if any, and the state it left.\<close>

type_synonym 's stmt = "'s \<Rightarrow> error option \<times> 's"

definition skip :: "'s stmt" where
  "skip s = (None, s)"

definition throw :: "error \<Rightarrow> 's stmt" where
  "throw err s = (Some err, s)"

definition assign :: "('s \<Rightarrow> 's) \<Rightarrow> 's stmt" where
  "assign f s = (None, f s)"

definition seq :: "'s stmt \<Rightarrow> 's stmt \<Rightarrow> 's stmt" where
  "seq a b s = (case a s of (None, s') \<Rightarrow> b s' | (Some err, s') \<Rightarrow> (Some err, s'))"

fun block :: "'s stmt list \<Rightarrow> 's stmt" where
  "block [] = skip"
| "block (a # as) = seq a (block as)"

definition try_catch :: "'s stmt \<Rightarrow> (error \<Rightarrow> 's stmt) \<Rightarrow> 's stmt" where
  "try_catch a h s = (case a s of (None, s') \<Rightarrow> (None, s') | (Some err, s') \<Rightarrow> h err s')"

definition three :: "throwing \<Rightarrow> three_call \<Rightarrow> state stmt" where
  "three T c s =
     ((if T (trace s) c then Some (Thrown c) else None), s\<lparr>trace := trace s @ [c]\<rparr>)"

text \<open>While one entity is processed the state is that entity and the state of the system.\<close>

type_synonym local = "Entity \<times> state"

definition call :: "throwing \<Rightarrow> three_call \<Rightarrow> local stmt" where
  "call T c = (\<lambda>(e, s). case three T c s of (r, s') \<Rightarrow> (r, (e, s')))"

definition on_state :: "(state \<Rightarrow> state) \<Rightarrow> local stmt" where
  "on_state f = assign (\<lambda>(e, s). (e, f s))"

definition on_entity :: "(Entity \<Rightarrow> Entity) \<Rightarrow> local stmt" where
  "on_entity f = assign (\<lambda>(e, s). (f e, s))"

definition the_mesh :: "Entity \<Rightarrow> ref option" where
  "the_mesh e = (case c_mesh e of None \<Rightarrow> None | Some mc \<Rightarrow> mesh mc)"

definition the_light :: "Entity \<Rightarrow> ref option" where
  "the_light e = (case c_light e of None \<Rightarrow> None | Some lc \<Rightarrow> light lc)"

definition the_camera :: "Entity \<Rightarrow> ref option" where
  "the_camera e = (case c_camera e of None \<Rightarrow> None | Some cc \<Rightarrow> camera cc)"

definition upd_mesh :: "ref \<Rightarrow> (Mesh \<Rightarrow> Mesh) \<Rightarrow> state \<Rightarrow> state" where
  "upd_mesh m f s = s\<lparr>meshes := (meshes s)(m := f (meshes s m))\<rparr>"

definition upd_light :: "ref \<Rightarrow> (Light \<Rightarrow> Light) \<Rightarrow> state \<Rightarrow> state" where
  "upd_light l f s = s\<lparr>lights := (lights s)(l := f (lights s l))\<rparr>"

definition upd_camera :: "ref \<Rightarrow> (Camera \<Rightarrow> Camera) \<Rightarrow> state \<Rightarrow> state" where
  "upd_camera c f s = s\<lparr>cameras := (cameras s)(c := f (cameras s c))\<rparr>"

text \<open>\<open>scene.add\<close> takes the object from its parent, if it has one, and appends it.\<close>

definition scene_add :: "object3d \<Rightarrow> state \<Rightarrow> state" where
  "scene_add obj s = s\<lparr>scene := removeAll obj (scene s) @ [obj]\<rparr>"

definition radians :: "vec3 \<Rightarrow> vec3" where
  "radians r = Vec3 (vx r * pi / 180) (vy r * pi / 180) (vz r * pi / 180)"

subsection \<open>Meshes\<close>

definition createMesh :: "throwing \<Rightarrow> local stmt" where
  "createMesh T = (\<lambda>(e, s).
     let g = createGeometry (c_geometry e);
         mat = createMaterial (c_material e);
         m = object3DId s
     in block
       [ call T (New_Geometry g),
         call T (New_Material mat),
         call T (New_Mesh g mat),
         on_entity (\<lambda>e. e\<lparr>c_mesh := map_option (\<lambda>mc. mc\<lparr>mesh := Some m\<rparr>) (c_mesh e)\<rparr>),
         on_state (\<lambda>s. s\<lparr>meshes := (meshes s)(m := (new_Mesh g mat)
                     \<lparr>mesh_castShadow := True, mesh_receiveShadow := True,
                      userData := Some (ent_id e)\<rparr>),
                   object3DId := Suc m\<rparr>),
         call T (Scene_add (MeshObj m)),
         on_state (scene_add (MeshObj m)) ] (e, s))"

definition updateMeshTransform :: "throwing \<Rightarrow> ref \<Rightarrow> TransformComponent \<Rightarrow> local stmt" where
  "updateMeshTransform T m transform =
     block
       [ call T (Position_set (MeshObj m) (t_position transform)),
         on_state (upd_mesh m (\<lambda>obj. obj\<lparr>mesh_position := t_position transform\<rparr>)),
         call T (Rotation_set (MeshObj m) (radians (t_rotation transform))),
         on_state (upd_mesh m (\<lambda>obj. obj\<lparr>mesh_rotation := radians (t_rotation transform)\<rparr>)),
         call T (Scale_set (MeshObj m) (t_scale transform)),
         on_state (upd_mesh m (\<lambda>obj. obj\<lparr>mesh_scale := t_scale transform\<rparr>)) ]"

definition dispose_material :: "throwing \<Rightarrow> ref \<Rightarrow> local stmt" where
  "dispose_material T m = (\<lambda>(e, s).
     (case mesh_material (meshes s m) of
        NoMaterial \<Rightarrow> skip
      | Single mat \<Rightarrow> call T (Material_dispose mat)
      | Multi mats \<Rightarrow> block (map (\<lambda>mat. call T (Material_dispose mat)) mats)) (e, s))"

definition updateMeshMaterial :: "throwing \<Rightarrow> ref \<Rightarrow> ThreeMaterialComponent \<Rightarrow> local stmt" where
  "updateMeshMaterial T m materialComp =
     (let newMaterial = createMaterial (Some materialComp)
      in block
        [ call T (New_Material newMaterial),
          dispose_material T m,
          on_state (upd_mesh m (\<lambda>obj. obj\<lparr>mesh_material := Single newMaterial\<rparr>)) ])"

definition dispose_geometry :: "throwing \<Rightarrow> ref \<Rightarrow> local stmt" where
  "dispose_geometry T m = (\<lambda>(e, s).
     (case mesh_geometry (meshes s m) of
        None \<Rightarrow> throw TypeError
      | Some g \<Rightarrow> call T (Geometry_dispose g)) (e, s))"

definition updateMeshGeometry :: "throwing \<Rightarrow> ref \<Rightarrow> ThreeGeometryComponent \<Rightarrow> local stmt" where
  "updateMeshGeometry T m geometryComp =
     (let newGeometry = createGeometry (Some geometryComp)
      in block
        [ call T (New_Geometry newGeometry),
          dispose_geometry T m,
          on_state (upd_mesh m (\<lambda>obj. obj\<lparr>mesh_geometry := Some newGeometry\<rparr>)) ])"

definition update_material_if_needed :: "throwing \<Rightarrow> ref \<Rightarrow> local stmt" where
  "update_material_if_needed T m = (\<lambda>(e, s).
     (case c_material e of
        None \<Rightarrow> skip
      | Some materialComp \<Rightarrow>
          if mat_needsUpdate materialComp then
            block
              [ updateMeshMaterial T m materialComp,
                on_entity (\<lambda>e. e\<lparr>c_material :=
                  map_option (\<lambda>c. c\<lparr>mat_needsUpdate := False\<rparr>) (c_material e)\<rparr>) ]
          else skip) (e, s))"

definition update_geometry_if_needed :: "throwing \<Rightarrow> ref \<Rightarrow> local stmt" where
  "update_geometry_if_needed T m = (\<lambda>(e, s).
     (case c_geometry e of
        None \<Rightarrow> skip
      | Some geometryComp \<Rightarrow>
          if geo_needsUpdate geometryComp then
            block
              [ updateMeshGeometry T m geometryComp,
                on_entity (\<lambda>e. e\<lparr>c_geometry :=
                  map_option (\<lambda>c. c\<lparr>geo_needsUpdate := False\<rparr>) (c_geometry e)\<rparr>) ]
          else skip) (e, s))"

text \<open>The body of the \<open>try\<close> of \<open>_processMeshEntity\<close>.\<close>

definition processMeshEntity_try :: "throwing \<Rightarrow> TransformComponent \<Rightarrow> local stmt" where
  "processMeshEntity_try T transform =
     block
       [ (\<lambda>(e, s). (if the_mesh e = None then createMesh T else skip) (e, s)),
         (\<lambda>(e, s).
            (case the_mesh e of
               None \<Rightarrow> skip
             | Some m \<Rightarrow>
                 block
                   [ updateMeshTransform T m transform,
                     update_material_if_needed T m,
                     update_geometry_if_needed T m ]) (e, s)) ]"

definition console_error :: "console_entry \<Rightarrow> local stmt" where
  "console_error entry = on_state (\<lambda>s. s\<lparr>console := console s @ [entry]\<rparr>)"

definition processMeshEntity :: "throwing \<Rightarrow> local stmt" where
  "processMeshEntity T = (\<lambda>(e, s).
     (case (c_transform e, c_mesh e) of
        (Some transform, Some meshComp) \<Rightarrow>
          try_catch (processMeshEntity_try T transform)
            (\<lambda>err. console_error (Error_mesh (ent_id e) err))
      | _ \<Rightarrow> skip) (e, s))"

subsection \<open>Lights\<close>

definition light_ctor_of :: "ThreeLightComponent \<Rightarrow> light_ctor" where
  "light_ctor_of lc =
     (let ty = lightType lc; c = light_color lc; i = intensity lc in
      if ty = ''ambient'' then AmbientLight c i
      else if ty = ''directional'' then DirectionalLight c i
      else if ty = ''point'' then PointLight c i
      else if ty = ''spot'' then SpotLight c i
      else if ty = ''hemisphere'' then HemisphereLight c ''#404040'' i
      else DirectionalLight c i)"

definition shadow_light :: "string \<Rightarrow> bool" where
  "shadow_light ty = (ty = ''directional'' \<or> ty = ''point'' \<or> ty = ''spot'')"

definition createLight :: "throwing \<Rightarrow> ThreeLightComponent \<Rightarrow> local stmt" where
  "createLight T lightComp = (\<lambda>(e, s).
     let k = light_ctor_of lightComp;
         l = object3DId s;
         obj = (if shadow_light (lightType lightComp) \<and> enableShadows s
                then (new_Light k)\<lparr>l_castShadow := castShadow lightComp\<rparr>
                else new_Light k)
     in block
       [ call T (New_Light k),
         on_entity (\<lambda>e. e\<lparr>c_light := map_option (\<lambda>lc. lc\<lparr>light := Some l\<rparr>) (c_light e)\<rparr>),
         on_state (\<lambda>s. s\<lparr>lights := (lights s)(l := obj), object3DId := Suc l\<rparr>),
         call T (Scene_add (LightObj l)),
         on_state (scene_add (LightObj l)) ] (e, s))"

definition updateLightTransform :: "throwing \<Rightarrow> ref \<Rightarrow> TransformComponent \<Rightarrow> local stmt" where
  "updateLightTransform T l transform =
     block
       [ call T (Position_set (LightObj l) (t_position transform)),
         on_state (upd_light l (\<lambda>obj. obj\<lparr>l_position := t_position transform\<rparr>)) ]"

text \<open>\<open>color.replace('#', '0x')\<close> replaces the first \<open>#\<close>.\<close>

fun replace_hash :: "string \<Rightarrow> string" where
  "replace_hash [] = []"
| "replace_hash (c # cs) = (if c = CHR ''#'' then ''0x'' @ cs else c # replace_hash cs)"

text \<open>Every Three.js object has the property \<open>castShadow\<close>, so the test
  \<open>'castShadow' in lightComp.light\<close> succeeds.\<close>

definition updateLightProperties :: "throwing \<Rightarrow> ThreeLightComponent \<Rightarrow> local stmt" where
  "updateLightProperties T lightComp =
     (case light lightComp of
        None \<Rightarrow> skip
      | Some l \<Rightarrow>
          block
            [ call T (Color_setHex l (replace_hash (light_color lightComp))),
              on_state (upd_light l (\<lambda>obj. obj
                \<lparr>l_color := ParseInt (replace_hash (light_color lightComp)),
                 l_intensity := intensity lightComp,
                 l_castShadow := castShadow lightComp\<rparr>)) ])"

definition update_light_if_needed :: "throwing \<Rightarrow> local stmt" where
  "update_light_if_needed T = (\<lambda>(e, s).
     (case c_light e of
        None \<Rightarrow> skip
      | Some lightComp \<Rightarrow>
          if light_needsUpdate lightComp then
            block
              [ updateLightProperties T lightComp,
                on_entity (\<lambda>e. e\<lparr>c_light :=
                  map_option (\<lambda>c. c\<lparr>light_needsUpdate := False\<rparr>) (c_light e)\<rparr>) ]
          else skip) (e, s))"

definition processLightEntity_try :: "throwing \<Rightarrow> TransformComponent \<Rightarrow> local stmt" where
  "processLightEntity_try T transform =
     block
       [ (\<lambda>(e, s).
            (case c_light e of
               None \<Rightarrow> skip
             | Some lightComp \<Rightarrow> if light lightComp = None then createLight T lightComp else skip)
            (e, s)),
         (\<lambda>(e, s).
            (case the_light e of
               None \<Rightarrow> skip
             | Some l \<Rightarrow>
                 block
                   [ updateLightTransform T l transform,
                     update_light_if_needed T ]) (e, s)) ]"

definition processLightEntity :: "throwing \<Rightarrow> local stmt" where
  "processLightEntity T = (\<lambda>(e, s).
     (case (c_transform e, c_light e) of
        (Some transform, Some lightComp) \<Rightarrow>
          try_catch (processLightEntity_try T transform)
            (\<lambda>err. console_error (Error_light (ent_id e) err))
      | _ \<Rightarrow> skip) (e, s))"

subsection \<open>Cameras\<close>

definition camera_ctor_of :: "ThreeCameraComponent \<Rightarrow> camera_ctor" where
  "camera_ctor_of cc =
     (if cameraType cc = ''perspective'' then
        PerspectiveCamera (fov cc) (aspect cc) (near cc) (far cc)
      else
        OrthographicCamera (- 10 * aspect cc) (10 * aspect cc) 10 (- 10) (near cc) (far cc))"

definition createCamera :: "throwing \<Rightarrow> ThreeCameraComponent \<Rightarrow> local stmt" where
  "createCamera T cameraComp = (\<lambda>(e, s).
     let k = camera_ctor_of cameraComp; c = object3DId s
     in block
       [ call T (New_Camera k),
         on_entity (\<lambda>e. e\<lparr>c_camera := map_option (\<lambda>cc. cc\<lparr>camera := Some c\<rparr>) (c_camera e)\<rparr>),
         on_state (\<lambda>s. s\<lparr>cameras := (cameras s)(c := new_Camera k), object3DId := Suc c\<rparr>) ]
       (e, s))"

definition updateCameraTransform :: "throwing \<Rightarrow> ref \<Rightarrow> TransformComponent \<Rightarrow> local stmt" where
  "updateCameraTransform T c transform =
     block
       [ call T (Position_set (CameraObj c) (t_position transform)),
         on_state (upd_camera c (\<lambda>obj. obj\<lparr>cam_position := t_position transform\<rparr>)),
         call T (Rotation_set (CameraObj c) (radians (t_rotation transform))),
         on_state (upd_camera c
           (\<lambda>obj. obj\<lparr>cam_rotation := Euler (radians (t_rotation transform))\<rparr>)) ]"

definition processCameraEntity_try :: "throwing \<Rightarrow> TransformComponent \<Rightarrow> local stmt" where
  "processCameraEntity_try T transform =
     block
       [ (\<lambda>(e, s).
            (case c_camera e of
               None \<Rightarrow> skip
             | Some cameraComp \<Rightarrow>
                 if camera cameraComp = None then createCamera T cameraComp else skip) (e, s)),
         (\<lambda>(e, s).
            (case the_camera e of
               None \<Rightarrow> skip
             | Some c \<Rightarrow>
                 block
                   [ updateCameraTransform T c transform,
                     on_state (\<lambda>s. s\<lparr>sys_camera := c\<rparr>) ]) (e, s)) ]"

definition processCameraEntity :: "throwing \<Rightarrow> local stmt" where
  "processCameraEntity T = (\<lambda>(e, s).
     (case (c_transform e, c_camera e) of
        (Some transform, Some cameraComp) \<Rightarrow>
          try_catch (processCameraEntity_try T transform)
            (\<lambda>err. console_error (Error_camera (ent_id e) err))
      | _ \<Rightarrow> skip) (e, s))"

subsection \<open>The frame\<close>

text \<open>
  The entities a pass selects, as their positions in \<open>world.entities\<close>, in order. The
  \<open>for\<close> loop over them hands each entity to the step and puts back what the step made of
  it; an error the step lets out ends the loop.
\<close>

definition is_mesh_entity :: "Entity \<Rightarrow> bool" where
  "is_mesh_entity e = (active e \<and> c_transform e \<noteq> None \<and> c_mesh e \<noteq> None)"

definition is_light_entity :: "Entity \<Rightarrow> bool" where
  "is_light_entity e = (active e \<and> c_transform e \<noteq> None \<and> c_light e \<noteq> None)"

definition is_camera_entity :: "Entity \<Rightarrow> bool" where
  "is_camera_entity e = (active e \<and> c_transform e \<noteq> None \<and> c_camera e \<noteq> None)"

definition select :: "(Entity \<Rightarrow> bool) \<Rightarrow> Entity list \<Rightarrow> nat list" where
  "select p es = filter (\<lambda>i. p (es ! i)) [0..<length es]"

fun walk :: "local stmt \<Rightarrow> nat list \<Rightarrow> (Entity list \<times> state) stmt" where
  "walk f [] (es, s) = (None, (es, s))"
| "walk f (i # is) (es, s) =
     (case f (es ! i, s) of
        (None, (e', s')) \<Rightarrow> walk f is (es[i := e'], s')
      | (Some err, (e', s')) \<Rightarrow> (Some err, (es[i := e'], s')))"

definition in_world :: "(Entity list \<times> state) stmt \<Rightarrow> state stmt" where
  "in_world f s =
     (case world s of
        None \<Rightarrow> (None, s)
      | Some w \<Rightarrow>
          (case f (entities w, s) of
             (r, (es', s')) \<Rightarrow> (r, s'\<lparr>world := Some (w\<lparr>entities := es'\<rparr>)\<rparr>)))"

definition processMeshEntities :: "throwing \<Rightarrow> state stmt" where
  "processMeshEntities T =
     in_world (\<lambda>(es, s). walk (processMeshEntity T) (select is_mesh_entity es) (es, s))"

definition processLightEntities :: "throwing \<Rightarrow> state stmt" where
  "processLightEntities T =
     in_world (\<lambda>(es, s). walk (processLightEntity T) (select is_light_entity es) (es, s))"

definition processCameraEntities :: "throwing \<Rightarrow> state stmt" where
  "processCameraEntities T =
     in_world (\<lambda>(es, s).
       (case select is_camera_entity es of
          [] \<Rightarrow> (None, (es, s))
        | i # _ \<Rightarrow> walk (processCameraEntity T) [i] (es, s)))"

definition render :: "throwing \<Rightarrow> state stmt" where
  "render T s = three T (Renderer_render (scene s) (sys_camera s)) s"

definition update_try :: "throwing \<Rightarrow> state stmt" where
  "update_try T =
     block
       [ assign (\<lambda>s. s\<lparr>frameCount := frameCount s + 1\<rparr>),
         processMeshEntities T,
         processLightEntities T,
         processCameraEntities T,
         render T ]"

definition update :: "throwing \<Rightarrow> state stmt" where
  "update T s =
     (if \<not> isInitialized s \<or> world s = None then (None, s)
      else try_catch (update_try T)
             (\<lambda>err. seq (assign (\<lambda>s. s\<lparr>console := console s @ [Error_update err]\<rparr>))
                         (throw err)) s)"

subsection \<open>Construction and life cycle\<close>

text \<open>
  The constructor leaves an empty scene and the default camera, a perspective camera at
  \<open>(5, 5, 5)\<close> looking at the origin. The base class \<open>System\<close> of the host ECS keeps the
  world the system is added to and forgets it on removal.
\<close>

definition blank_Mesh :: Mesh where
  "blank_Mesh =
     \<lparr> mesh_geometry = None, mesh_material = NoMaterial,
       mesh_position = Vec3 0 0 0, mesh_rotation = Vec3 0 0 0, mesh_scale = Vec3 1 1 1,
       mesh_castShadow = False, mesh_receiveShadow = False, userData = None \<rparr>"

definition defaultCamera :: Camera where
  "defaultCamera =
     (new_Camera (PerspectiveCamera 75 (800 / 600) 0.1 1000))
       \<lparr>cam_position := Vec3 5 5 5, cam_rotation := LookAt (Vec3 0 0 0)\<rparr>"

definition ThreeRenderSystem_new :: "bool option \<Rightarrow> state" where
  "ThreeRenderSystem_new opt_enableShadows =
     \<lparr> meshes = (\<lambda>_. blank_Mesh),
       lights = (\<lambda>_. new_Light (AmbientLight [] 0)),
       cameras = (\<lambda>_. defaultCamera),
       object3DId = 1,
       scene = [],
       sys_camera = 0,
       enableShadows = (case opt_enableShadows of None \<Rightarrow> True | Some b \<Rightarrow> b),
       isInitialized = False,
       frameCount = 0,
       world = None,
       console = [],
       trace = [] \<rparr>"

definition onAddedToWorld :: "World \<Rightarrow> state \<Rightarrow> state" where
  "onAddedToWorld w s =
     s\<lparr> world := Some w, isInitialized := True,
        console := console s @ [Log ''ThreeRenderSystem: Added to world and initialized''] \<rparr>"

definition dispose_mesh :: "throwing \<Rightarrow> object3d \<Rightarrow> state stmt" where
  "dispose_mesh T obj s =
     (case obj of
        MeshObj m \<Rightarrow>
          block
            [ (case mesh_geometry (meshes s m) of
                 None \<Rightarrow> skip
               | Some g \<Rightarrow> three T (Geometry_dispose g)),
              (case mesh_material (meshes s m) of
                 NoMaterial \<Rightarrow> skip
               | Single mat \<Rightarrow> three T (Material_dispose mat)
               | Multi mats \<Rightarrow> block (map (\<lambda>mat. three T (Material_dispose mat)) mats)) ]
      | _ \<Rightarrow> skip) s"

definition cleanup :: "throwing \<Rightarrow> state stmt" where
  "cleanup T s =
     block
       [ block (map (dispose_mesh T) (scene s)),
         block (map (\<lambda>obj. seq (three T (Scene_remove obj))
                              (assign (\<lambda>s. s\<lparr>scene := tl (scene s)\<rparr>))) (scene s)),
         three T Renderer_dispose ] s"

definition onRemovedFromWorld :: "throwing \<Rightarrow> state stmt" where
  "onRemovedFromWorld T =
     block
       [ cleanup T,
         assign (\<lambda>s. s\<lparr> isInitialized := False, world := None,
           console := console s @ [Log ''ThreeRenderSystem: Removed from world and cleaned up''] \<rparr>) ]"

subsection \<open>The declared members of the component classes\<close>

text \<open>
  Each component class as its declaration lists it: the name of every member, and for a
  field its declared type, in the order of the source. \<open>TransformComponent\<close> declares
  its fields as constructor parameter properties. A union of string literals is
  \<open>Literals\<close>, \<open>T | null\<close> is \<open>Nullable\<close>, and a field declared with \<open>?\<close> is
  \<open>Optional\<close>.
\<close>

datatype ts_type =
    TBoolean
  | TNumber
  | TString
  | Literals "string list"
  | TObject "(string \<times> ts_type) list"
  | TRecord ts_type ts_type
  | Nullable string
  | Optional ts_type

datatype member = Field ts_type | Method

definition xyz :: ts_type where
  "xyz = TObject [(''x'', TNumber), (''y'', TNumber), (''z'', TNumber)]"

definition TransformComponent_members :: "(string \<times> member) list" where
  "TransformComponent_members =
     [ (''position'', Field xyz),
       (''rotation'', Field xyz),
       (''scale'', Field xyz) ]"

definition ThreeMeshComponent_members :: "(string \<times> member) list" where
  "ThreeMeshComponent_members =
     [ (''mesh'', Field (Nullable ''THREE.Mesh'')),
       (''needsUpdate'', Field TBoolean),
       (''dispose'', Method) ]"

definition ThreeMaterialComponent_members :: "(string \<times> member) list" where
  "ThreeMaterialComponent_members =
     [ (''materialType'',
          Field (Literals [''standard'', ''basic'', ''phong'', ''physical'', ''wireframe''])),
       (''color'', Field TString),
       (''metalness'', Field TNumber),
       (''roughness'', Field TNumber),
       (''emissive'', Field TString),
       (''emissiveIntensity'', Field TNumber),
       (''transparent'', Field TBoolean),
       (''opacity'', Field TNumber),
       (''wireframe'', Field TBoolean),
       (''texture'', Field (Optional TString)),
       (''needsUpdate'', Field TBoolean) ]"

definition ThreeGeometryComponent_members :: "(string \<times> member) list" where
  "ThreeGeometryComponent_members =
     [ (''geometryType'',
          Field (Literals [''box'', ''sphere'', ''plane'', ''cylinder'', ''cone'', ''torus'',
            ''custom''])),
       (''parameters'', Field (TRecord TString TNumber)),
       (''needsUpdate'', Field TBoolean) ]"

definition ThreeLightComponent_members :: "(string \<times> member) list" where
  "ThreeLightComponent_members =
     [ (''lightType'',
          Field (Literals [''ambient'', ''directional'', ''point'', ''spot'', ''hemisphere''])),
       (''color'', Field TString),
       (''intensity'', Field TNumber),
       (''castShadow'', Field TBoolean),
       (''light'', Field (Nullable ''THREE.Light'')),
       (''needsUpdate'', Field TBoolean) ]"

definition ThreeCameraComponent_members :: "(string \<times> member) list" where
  "ThreeCameraComponent_members =
     [ (''cameraType'', Field (Literals [''perspective'', ''orthographic''])),
       (''fov'', Field TNumber),
       (''aspect'', Field TNumber),
       (''near'', Field TNumber),
       (''far'', Field TNumber),
       (''camera'', Field (Nullable ''THREE.Camera'')),
       (''needsUpdate'', Field TBoolean) ]"

text \<open>
  A class has a dirty flag when it declares a field \<open>needsUpdate\<close> of type \<open>boolean\<close>;
  it holds only data when none of its members is a method.
\<close>

definition has_dirty_flag :: "(string \<times> member) list \<Rightarrow> bool" where
  "has_dirty_flag ms = (map_of ms ''needsUpdate'' = Some (Field TBoolean))"

definition methods :: "(string \<times> member) list \<Rightarrow> string list" where
  "methods ms = map fst (filter (\<lambda>(name, m). m = Method) ms)"

definition only_data_fields :: "(string \<times> member) list \<Rightarrow> bool" where
  "only_data_fields ms = (methods ms = [])"

subsection \<open>What one step, and one frame, may change\<close>

text \<open>
  \<open>establishes R a\<close>: whatever the statement \<open>a\<close> does, and whether it throws or not, the
  state it leaves is related by \<open>R\<close> to the state it started in.
\<close>

definition establishes :: "('s \<Rightarrow> 's \<Rightarrow> bool) \<Rightarrow> 's stmt \<Rightarrow> bool" where
  "establishes R a = (\<forall>s r s'. a s = (r, s') \<longrightarrow> R s s')"

definition never_throws :: "'s stmt \<Rightarrow> bool" where
  "never_throws a = (\<forall>s. fst (a s) = None)"

text \<open>
  A component's reference to its Three.js object, before and after: one that was set stays
  the same; one that was null stays null or is set to an object made in between, that is
  to a reference from \<open>n\<close> up to, not including, \<open>n'\<close>.
\<close>

definition created :: "nat \<Rightarrow> nat \<Rightarrow> ref option \<Rightarrow> ref option \<Rightarrow> bool" where
  "created n n' r r' =
     (case r of
        Some m \<Rightarrow> r' = Some m
      | None \<Rightarrow> (case r' of None \<Rightarrow> True | Some m \<Rightarrow> n \<le> m \<and> m < n'))"

definition ent_rel :: "nat \<Rightarrow> nat \<Rightarrow> Entity \<Rightarrow> Entity \<Rightarrow> bool" where
  "ent_rel n n' e e' =
     (ent_id e' = ent_id e \<and> active e' = active e \<and> c_transform e' = c_transform e
      \<and> (c_mesh e' = None \<longleftrightarrow> c_mesh e = None)
      \<and> (c_material e' = None \<longleftrightarrow> c_material e = None)
      \<and> (c_geometry e' = None \<longleftrightarrow> c_geometry e = None)
      \<and> (c_light e' = None \<longleftrightarrow> c_light e = None)
      \<and> (c_camera e' = None \<longleftrightarrow> c_camera e = None)
      \<and> created n n' (the_mesh e) (the_mesh e')
      \<and> created n n' (the_light e) (the_light e')
      \<and> created n n' (the_camera e) (the_camera e'))"

text \<open>The objects handed to \<open>scene.add\<close> by a sequence of calls, in order.\<close>

fun added :: "three_call list \<Rightarrow> object3d list" where
  "added [] = []"
| "added (Scene_add obj # cs) = obj # added cs"
| "added (c # cs) = added cs"

fun obj_ref :: "object3d \<Rightarrow> ref" where
  "obj_ref (MeshObj m) = m"
| "obj_ref (LightObj l) = l"
| "obj_ref (CameraObj c) = c"

definition fresh_adds :: "nat \<Rightarrow> nat \<Rightarrow> three_call list \<Rightarrow> bool" where
  "fresh_adds n n' tr =
     (distinct (added tr) \<and> (\<forall>obj \<in> set (added tr). n \<le> obj_ref obj \<and> obj_ref obj < n'))"

definition sys_rel :: "state \<Rightarrow> state \<Rightarrow> bool" where
  "sys_rel s s' =
     (object3DId s \<le> object3DId s'
      \<and> isInitialized s' = isInitialized s \<and> enableShadows s' = enableShadows s
      \<and> (\<exists>tr. trace s' = trace s @ tr \<and> fresh_adds (object3DId s) (object3DId s') tr)
      \<and> (\<exists>cs. console s' = console s @ cs))"

definition local_rel :: "local \<Rightarrow> local \<Rightarrow> bool" where
  "local_rel l l' =
     (ent_rel (object3DId (snd l)) (object3DId (snd l')) (fst l) (fst l')
      \<and> sys_rel (snd l) (snd l') \<and> world (snd l') = world (snd l))"

text \<open>The calls and the console entries one run added.\<close>

definition new_trace :: "state \<Rightarrow> state \<Rightarrow> three_call list" where
  "new_trace s s' = drop (length (trace s)) (trace s')"

definition new_console :: "state \<Rightarrow> state \<Rightarrow> console_entry list" where
  "new_console s s' = drop (length (console s)) (console s')"

text \<open>What a pass over the world, and a whole frame, may change: the entities stay in
  place, and each of them is related to what it was by \<open>ent_rel\<close>.\<close>

definition frame_rel :: "state \<Rightarrow> state \<Rightarrow> bool" where
  "frame_rel s s' =
     (sys_rel s s'
      \<and> (case world s of
            None \<Rightarrow> world s' = None
          | Some w \<Rightarrow>
              (\<exists>w'. world s' = Some w' \<and> length (entities w') = length (entities w)
                 \<and> (\<forall>j. ent_rel (object3DId s) (object3DId s')
                           (entities w ! j) (entities w' ! j)))))"


text \<open>\<open>keeps sel\<close>: the step leaves the part \<open>sel\<close> of the state as it was.\<close>

definition keeps :: "('s \<Rightarrow> 'a) \<Rightarrow> 's \<Rightarrow> 's \<Rightarrow> bool" where
  "keeps sel s s' = (sel s' = sel s)"

text \<open>\<open>only_calls P\<close>: the step makes no object, leaves the scene as it is, and makes only
  calls that satisfy \<open>P\<close>.\<close>

definition only_calls :: "(three_call \<Rightarrow> bool) \<Rightarrow> local \<Rightarrow> local \<Rightarrow> bool" where
  "only_calls P l l' =
     (object3DId (snd l') = object3DId (snd l) \<and> scene (snd l') = scene (snd l)
      \<and> (\<exists>tr. trace (snd l') = trace (snd l) @ tr \<and> list_all P tr))"


fun materials_of :: "mesh_material \<Rightarrow> material list" where
  "materials_of NoMaterial = []"
| "materials_of (Single mat) = [mat]"
| "materials_of (Multi mats) = mats"

definition nothrow :: throwing where
  "nothrow tr c = False"

definition empty_world :: World where
  "empty_world = \<lparr> entities = [] \<rparr>"

definition mesh_entity :: "nat \<Rightarrow> vec3 \<Rightarrow> Entity" where
  "mesh_entity i p =
     \<lparr> ent_id = i, active = True,
       c_transform = Some (TransformComponent_new (Some p) None None),
       c_mesh = Some (ThreeMeshComponent_new None),
       c_material = None, c_geometry = None, c_light = None, c_camera = None \<rparr>"


definition mesh_transform_of :: "ref \<Rightarrow> local \<Rightarrow> vec3 \<times> vec3 \<times> vec3" where
  "mesh_transform_of m l =
     (mesh_position (meshes (snd l) m), mesh_rotation (meshes (snd l) m),
      mesh_scale (meshes (snd l) m))"

definition light_entity :: "nat \<Rightarrow> vec3 \<Rightarrow> Entity" where
  "light_entity i p =
     \<lparr> ent_id = i, active = True,
       c_transform = Some (TransformComponent_new (Some p) None None),
       c_mesh = None, c_material = None, c_geometry = None,
       c_light = Some (ThreeLightComponent_new
         \<lparr> cfg_lightType = Some ''point'', cfg_light_color = None, cfg_intensity = None,
           cfg_castShadow = None \<rparr>),
       c_camera = None \<rparr>"

definition camera_entity :: "nat \<Rightarrow> vec3 \<Rightarrow> vec3 \<Rightarrow> Entity" where
  "camera_entity i p r =
     \<lparr> ent_id = i, active = True,
       c_transform = Some (TransformComponent_new (Some p) (Some r) None),
       c_mesh = None, c_material = None, c_geometry = None, c_light = None,
       c_camera = Some (ThreeCameraComponent_new
         \<lparr> cfg_cameraType = None, cfg_fov = None, cfg_aspect = None, cfg_near = None,
           cfg_far = None \<rparr>) \<rparr>"

definition attached_material :: "Entity \<Rightarrow> state \<Rightarrow> mesh_material" where
  "attached_material e s =
     (case the_mesh e of
        Some m \<Rightarrow> mesh_material (meshes s m)
      | None \<Rightarrow> Single (createMaterial (c_material e)))"

definition attached_geometry :: "Entity \<Rightarrow> state \<Rightarrow> geometry option" where
  "attached_geometry e s =
     (case the_mesh e of
        Some m \<Rightarrow> mesh_geometry (meshes s m)
      | None \<Rightarrow> Some (createGeometry (c_geometry e)))"




text \<open>
  What a frame leaves behind for an entity it dealt with: an error logged under the
  identifier of the entity, or, among the calls of the frame, the calls that push the
  transform of the entity into its object.
\<close>

fun is_mesh_error :: "nat \<Rightarrow> console_entry \<Rightarrow> bool" where
  "is_mesh_error i (Error_mesh j err) = (j = i)"
| "is_mesh_error i entry = False"

fun is_light_error :: "nat \<Rightarrow> console_entry \<Rightarrow> bool" where
  "is_light_error i (Error_light j err) = (j = i)"
| "is_light_error i entry = False"

fun is_camera_error :: "nat \<Rightarrow> console_entry \<Rightarrow> bool" where
  "is_camera_error i (Error_camera j err) = (j = i)"
| "is_camera_error i entry = False"

definition mesh_calls :: "ref \<Rightarrow> TransformComponent \<Rightarrow> three_call list" where
  "mesh_calls m t =
     [ Position_set (MeshObj m) (t_position t),
       Rotation_set (MeshObj m) (radians (t_rotation t)),
       Scale_set (MeshObj m) (t_scale t) ]"

definition light_calls :: "ref \<Rightarrow> TransformComponent \<Rightarrow> three_call list" where
  "light_calls l t = [ Position_set (LightObj l) (t_position t) ]"

definition camera_calls :: "ref \<Rightarrow> TransformComponent \<Rightarrow> three_call list" where
  "camera_calls c t =
     [ Position_set (CameraObj c) (t_position t),
       Rotation_set (CameraObj c) (radians (t_rotation t)) ]"

definition synced :: "ref option \<Rightarrow> TransformComponent option \<Rightarrow>
    (ref \<Rightarrow> TransformComponent \<Rightarrow> three_call list) \<Rightarrow> three_call list \<Rightarrow> bool" where
  "synced r t calls tr =
     (case (r, t) of
        (Some m, Some tc) \<Rightarrow> list_all (\<lambda>c. c \<in> set tr) (calls m tc)
      | _ \<Rightarrow> False)"

definition mesh_handled :: "Entity \<Rightarrow> console_entry list \<Rightarrow> three_call list \<Rightarrow> bool" where
  "mesh_handled e cs tr =
     (list_ex (is_mesh_error (ent_id e)) cs \<or> synced (the_mesh e) (c_transform e) mesh_calls tr)"

definition light_handled :: "Entity \<Rightarrow> console_entry list \<Rightarrow> three_call list \<Rightarrow> bool" where
  "light_handled e cs tr =
     (list_ex (is_light_error (ent_id e)) cs \<or> synced (the_light e) (c_transform e) light_calls tr)"

definition camera_handled :: "Entity \<Rightarrow> console_entry list \<Rightarrow> three_call list \<Rightarrow> bool" where
  "camera_handled e cs tr =
     (list_ex (is_camera_error (ent_id e)) cs
      \<or> synced (the_camera e) (c_transform e) camera_calls tr)"

text \<open>The entity the camera pass takes: the first camera entity in the order of the
  world, if there is one.\<close>

definition first_camera :: "Entity list \<Rightarrow> nat option" where
  "first_camera es = (case select is_camera_entity es of [] \<Rightarrow> None | i # _ \<Rightarrow> Some i)"

text \<open>
  Worlds to run a frame on: two camera entities; two camera entities the second of which
  holds a light as well; two mesh entities, with a Three.js in which setting the position
  of the first mesh throws; and a mesh entity, an inactive light entity and two camera
  entities.
\<close>

definition two_camera_world :: World where
  "two_camera_world =
     \<lparr> entities = [camera_entity 1 (Vec3 0 0 5) (Vec3 0 0 0),
                   camera_entity 2 (Vec3 9 9 9) (Vec3 0 90 0)] \<rparr>"

definition two_camera_start :: state where
  "two_camera_start = onAddedToWorld two_camera_world (ThreeRenderSystem_new None)"

definition camera_light_world :: World where
  "camera_light_world =
     \<lparr> entities = [camera_entity 1 (Vec3 0 0 5) (Vec3 0 0 0),
                   (camera_entity 2 (Vec3 9 9 9) (Vec3 0 90 0))
                     \<lparr>c_light := c_light (light_entity 2 (Vec3 0 4 0))\<rparr>] \<rparr>"

definition camera_light_start :: state where
  "camera_light_start = onAddedToWorld camera_light_world (ThreeRenderSystem_new None)"

definition two_mesh_world :: World where
  "two_mesh_world =
     \<lparr> entities = [mesh_entity 7 (Vec3 1 2 3), mesh_entity 8 (Vec3 4 5 6)] \<rparr>"

definition two_mesh_start :: state where
  "two_mesh_start = onAddedToWorld two_mesh_world (ThreeRenderSystem_new None)"

definition first_mesh_fails :: throwing where
  "first_mesh_fails tr c = (c = Position_set (MeshObj 1) (Vec3 1 2 3))"

definition mixed_world :: World where
  "mixed_world =
     \<lparr> entities = [mesh_entity 7 (Vec3 1 2 3),
                   (light_entity 9 (Vec3 0 4 0))\<lparr>active := False\<rparr>,
                   camera_entity 1 (Vec3 0 0 5) (Vec3 0 0 0),
                   camera_entity 2 (Vec3 9 9 9) (Vec3 0 90 0)] \<rparr>"

definition mixed_start :: state where
  "mixed_start = onAddedToWorld mixed_world (ThreeRenderSystem_new None)"

subsection \<open>\<open>GeometryFactory.createGeometry\<close>\<close>














section \<open>Component constructors\<close>

lemma or_num_falsy: "or_num v d = (if falsy_num v then d else the v)"
  by (simp add: or_num_def falsy_num_def split: option.splits)

lemma or_str_falsy: "or_str v d = (if falsy_str v then d else the v)"
  by (simp add: or_str_def falsy_str_def split: option.splits)

lemma or_bool_falsy: "or_bool v d = (if falsy_bool v then d else the v)"
  by (simp add: or_bool_def falsy_bool_def split: option.splits)

text \<open>
  C9. The constructors of the material, light and camera components put the default in
  the place of every falsy configuration value, an absent one or a present one alike: a
  number that is 0, an empty string, the boolean \<open>false\<close>. So opacity 0 becomes 1 and
  fov 0 becomes 75. The numeric fields where an explicit 0 comes out as 0 are those whose
  default is 0, metalness and emissiveIntensity; for every other numeric field an explicit
  0 comes out as a default that is not 0.
\<close>

theorem falsy_config_values_replaced_by_defaults:
  "(let m = ThreeMaterialComponent_new mc;
        l = ThreeLightComponent_new lc;
        c = ThreeCameraComponent_new cc
    in
     materialType m = (if falsy_str (cfg_materialType mc) then ''standard'' else the (cfg_materialType mc))
   \<and> mat_color m = (if falsy_str (cfg_mat_color mc) then ''#ffffff'' else the (cfg_mat_color mc))
   \<and> metalness m = (if falsy_num (cfg_metalness mc) then 0 else the (cfg_metalness mc))
   \<and> roughness m = (if falsy_num (cfg_roughness mc) then 1 else the (cfg_roughness mc))
   \<and> emissive m = (if falsy_str (cfg_emissive mc) then ''#000000'' else the (cfg_emissive mc))
   \<and> emissiveIntensity m =
       (if falsy_num (cfg_emissiveIntensity mc) then 0 else the (cfg_emissiveIntensity mc))
   \<and> transparent m = (if falsy_bool (cfg_transparent mc) then False else the (cfg_transparent mc))
   \<and> opacity m = (if falsy_num (cfg_opacity mc) then 1 else the (cfg_opacity mc))
   \<and> wireframe m = (if falsy_bool (cfg_wireframe mc) then False else the (cfg_wireframe mc))
   \<and> lightType l = (if falsy_str (cfg_lightType lc) then ''directional'' else the (cfg_lightType lc))
   \<and> light_color l = (if falsy_str (cfg_light_color lc) then ''#ffffff'' else the (cfg_light_color lc))
   \<and> intensity l = (if falsy_num (cfg_intensity lc) then 1 else the (cfg_intensity lc))
   \<and> castShadow l = (if falsy_bool (cfg_castShadow lc) then False else the (cfg_castShadow lc))
   \<and> cameraType c = (if falsy_str (cfg_cameraType cc) then ''perspective'' else the (cfg_cameraType cc))
   \<and> fov c = (if falsy_num (cfg_fov cc) then 75 else the (cfg_fov cc))
   \<and> aspect c = (if falsy_num (cfg_aspect cc) then 1 else the (cfg_aspect cc))
   \<and> near c = (if falsy_num (cfg_near cc) then 0.1 else the (cfg_near cc))
   \<and> far c = (if falsy_num (cfg_far cc) then 1000 else the (cfg_far cc))
   \<and> opacity (ThreeMaterialComponent_new (mc\<lparr>cfg_opacity := Some 0\<rparr>)) = 1
   \<and> fov (ThreeCameraComponent_new (cc\<lparr>cfg_fov := Some 0\<rparr>)) = 75
   \<and> metalness (ThreeMaterialComponent_new (mc\<lparr>cfg_metalness := Some 0\<rparr>)) = 0
   \<and> emissiveIntensity (ThreeMaterialComponent_new (mc\<lparr>cfg_emissiveIntensity := Some 0\<rparr>)) = 0
   \<and> roughness (ThreeMaterialComponent_new (mc\<lparr>cfg_roughness := Some 0\<rparr>)) = 1
   \<and> intensity (ThreeLightComponent_new (lc\<lparr>cfg_intensity := Some 0\<rparr>)) = 1
   \<and> aspect (ThreeCameraComponent_new (cc\<lparr>cfg_aspect := Some 0\<rparr>)) = 1
   \<and> near (ThreeCameraComponent_new (cc\<lparr>cfg_near := Some 0\<rparr>)) = 0.1
   \<and> far (ThreeCameraComponent_new (cc\<lparr>cfg_far := Some 0\<rparr>)) = 1000)"
  by (simp add: Let_def ThreeMaterialComponent_new_def ThreeLightComponent_new_def
        ThreeCameraComponent_new_def or_num_falsy or_str_falsy or_bool_falsy falsy_num_def)

lemma establishesI: "(\<And>s r s'. a s = (r, s') \<Longrightarrow> R s s') \<Longrightarrow> establishes R a"
  by (simp add: establishes_def)

lemma establishesD: "establishes R a \<Longrightarrow> a s = (r, s') \<Longrightarrow> R s s'"
  by (simp add: establishes_def)

lemma establishes_skip: "reflp R \<Longrightarrow> establishes R skip"
  by (auto simp: establishes_def skip_def reflp_def)

lemma establishes_throw: "reflp R \<Longrightarrow> establishes R (throw err)"
  by (auto simp: establishes_def throw_def reflp_def)

lemma establishes_seq:
  "transp R \<Longrightarrow> establishes R a \<Longrightarrow> establishes R b \<Longrightarrow> establishes R (seq a b)"
  unfolding establishes_def seq_def
  by (auto split: prod.splits option.splits) (meson transpD)

lemma establishes_block:
  "reflp R \<Longrightarrow> transp R \<Longrightarrow> (\<And>a. a \<in> set as \<Longrightarrow> establishes R a) \<Longrightarrow> establishes R (block as)"
  by (induction as) (auto intro: establishes_skip establishes_seq)

lemma establishes_try_catch:
  "transp R \<Longrightarrow> establishes R a \<Longrightarrow> (\<And>err. establishes R (h err)) \<Longrightarrow>
   establishes R (try_catch a h)"
  unfolding establishes_def try_catch_def
  by (auto split: prod.splits option.splits) (meson transpD)

lemma establishes_choice:
  "(\<And>s. establishes R (F s)) \<Longrightarrow> establishes R (\<lambda>s. F s s)"
  by (auto simp: establishes_def)

lemma added_append: "added (xs @ ys) = added xs @ added ys"
  by (induction xs rule: added.induct) auto

lemma created_refl: "n \<le> n' \<Longrightarrow> created n n' r r"
  by (simp add: created_def split: option.splits)

lemma created_trans:
  "created n0 n1 r r' \<Longrightarrow> created n1' n2 r' r'' \<Longrightarrow> n0 \<le> n1 \<Longrightarrow> n1 \<le> n1' \<Longrightarrow> n1' \<le> n2 \<Longrightarrow>
   created n0 n2 r r''"
  by (auto simp: created_def split: option.splits)

lemma ent_rel_refl: "n \<le> n' \<Longrightarrow> ent_rel n n' e e"
  by (simp add: ent_rel_def created_refl)

lemma ent_rel_trans:
  "ent_rel n0 n1 e e' \<Longrightarrow> ent_rel n1' n2 e' e'' \<Longrightarrow> n0 \<le> n1 \<Longrightarrow> n1 \<le> n1' \<Longrightarrow> n1' \<le> n2 \<Longrightarrow>
   ent_rel n0 n2 e e''"
  unfolding ent_rel_def
  by (intro conjI; (elim conjE)?; (simp; fail | (rule created_trans; assumption)))

lemma fresh_adds_Nil: "fresh_adds n n' []"
  by (simp add: fresh_adds_def)

lemma fresh_adds_append:
  "fresh_adds n0 n1 tr \<Longrightarrow> fresh_adds n1 n2 tr' \<Longrightarrow> n0 \<le> n1 \<Longrightarrow> n1 \<le> n2 \<Longrightarrow>
   fresh_adds n0 n2 (tr @ tr')"
  unfolding fresh_adds_def
  by (fastforce simp: added_append)

lemma sys_rel_refl: "sys_rel s s"
  by (simp add: sys_rel_def fresh_adds_Nil)

lemma sys_rel_trans: "sys_rel s s' \<Longrightarrow> sys_rel s' s'' \<Longrightarrow> sys_rel s s''"
  unfolding sys_rel_def
  by (auto intro: fresh_adds_append)

lemma sys_rel_mono: "sys_rel s s' \<Longrightarrow> object3DId s \<le> object3DId s'"
  by (simp add: sys_rel_def)

lemma reflp_local_rel: "reflp local_rel"
  by (simp add: reflp_def local_rel_def ent_rel_refl sys_rel_refl)

lemma transp_local_rel: "transp local_rel"
  unfolding transp_def local_rel_def
  by (auto intro: sys_rel_trans dest: sys_rel_mono elim: ent_rel_trans)

lemma call_apply:
  "call T c (e, s) =
     ((if T (trace s) c then Some (Thrown c) else None), (e, s\<lparr>trace := trace s @ [c]\<rparr>))"
  by (simp add: call_def three_def)

lemma on_state_apply: "on_state f (e, s) = (None, (e, f s))"
  by (simp add: on_state_def assign_def)

lemma on_entity_apply: "on_entity f (e, s) = (None, (f e, s))"
  by (simp add: on_entity_def assign_def)

lemma seq_apply:
  "seq a b s = (case a s of (None, s') \<Rightarrow> b s' | (Some err, s') \<Rightarrow> (Some err, s'))"
  by (simp add: seq_def)

lemmas stmt_apply = call_apply on_state_apply on_entity_apply seq_apply skip_def throw_def

lemma added_single: "added [c] = (case c of Scene_add obj \<Rightarrow> [obj] | _ \<Rightarrow> [])"
  by (cases c) auto

lemma local_rel_call:
  "(\<And>obj. c \<noteq> Scene_add obj) \<Longrightarrow> establishes local_rel (call T c)"
  by (cases c)
     (auto simp: establishes_def call_apply local_rel_def ent_rel_refl sys_rel_def fresh_adds_def)

lemma local_rel_on_mesh:
  "establishes local_rel (on_state (upd_mesh m f))"
  by (auto simp: establishes_def on_state_apply local_rel_def ent_rel_refl sys_rel_def
        fresh_adds_def upd_mesh_def)

lemma local_rel_on_light:
  "establishes local_rel (on_state (upd_light m f))"
  by (auto simp: establishes_def on_state_apply local_rel_def ent_rel_refl sys_rel_def
        fresh_adds_def upd_light_def)

lemma local_rel_on_camera:
  "establishes local_rel (on_state (upd_camera m f))"
  by (auto simp: establishes_def on_state_apply local_rel_def ent_rel_refl sys_rel_def
        fresh_adds_def upd_camera_def)

lemma local_rel_console:
  "establishes local_rel (console_error entry)"
  by (auto simp: establishes_def console_error_def on_state_apply local_rel_def ent_rel_refl
        sys_rel_def fresh_adds_def)

lemma local_rel_sys_camera:
  "establishes local_rel (on_state (\<lambda>s. s\<lparr>sys_camera := c\<rparr>))"
  by (auto simp: establishes_def on_state_apply local_rel_def ent_rel_refl sys_rel_def
        fresh_adds_def)

lemmas local_rel_block = establishes_block [OF reflp_local_rel transp_local_rel]
lemmas local_rel_seq = establishes_seq [OF transp_local_rel]
lemmas local_rel_try_catch = establishes_try_catch [OF transp_local_rel]
lemmas local_rel_skip = establishes_skip [OF reflp_local_rel]
lemmas local_rel_throw = establishes_throw [OF reflp_local_rel]

lemma local_rel_updateMeshTransform: "establishes local_rel (updateMeshTransform T m t)"
  unfolding updateMeshTransform_def
  by (rule local_rel_block) (auto intro: local_rel_call local_rel_on_mesh)

lemma local_rel_createMesh:
  "the_mesh e = None \<Longrightarrow> createMesh T (e, s) = (r, l') \<Longrightarrow> local_rel (e, s) l'"
  unfolding createMesh_def
  apply (clarsimp simp: Let_def stmt_apply split: if_splits)
  apply (simp_all add: local_rel_def sys_rel_def fresh_adds_def ent_rel_def created_def
      the_mesh_def the_light_def the_camera_def scene_add_def split: option.splits)
  done

lemma local_rel_createLight:
  "light lc = None \<Longrightarrow> c_light e = Some lc \<Longrightarrow> createLight T lc (e, s) = (r, l') \<Longrightarrow>
   local_rel (e, s) l'"
  unfolding createLight_def
  apply (clarsimp simp: Let_def stmt_apply split: if_splits)
  apply (simp_all add: local_rel_def sys_rel_def fresh_adds_def ent_rel_def created_def
      the_mesh_def the_light_def the_camera_def scene_add_def split: option.splits)
  done

lemma local_rel_createCamera:
  "camera cc = None \<Longrightarrow> c_camera e = Some cc \<Longrightarrow> createCamera T cc (e, s) = (r, l') \<Longrightarrow>
   local_rel (e, s) l'"
  unfolding createCamera_def
  apply (clarsimp simp: Let_def stmt_apply split: if_splits)
  apply (simp_all add: local_rel_def sys_rel_def fresh_adds_def ent_rel_def created_def
      the_mesh_def the_light_def the_camera_def scene_add_def split: option.splits)
  done

lemma establishes_choice2:
  "(\<And>e s. establishes R (F e s)) \<Longrightarrow> establishes R (\<lambda>(e, s). F e s (e, s))"
  by (auto simp: establishes_def)

lemma local_rel_reset_material:
  "establishes local_rel (on_entity (\<lambda>e. e\<lparr>c_material :=
      map_option (\<lambda>c. c\<lparr>mat_needsUpdate := False\<rparr>) (c_material e)\<rparr>))"
  by (auto simp: establishes_def on_entity_apply local_rel_def sys_rel_refl ent_rel_def
        created_def the_mesh_def the_light_def the_camera_def split: option.splits)

lemma local_rel_reset_geometry:
  "establishes local_rel (on_entity (\<lambda>e. e\<lparr>c_geometry :=
      map_option (\<lambda>c. c\<lparr>geo_needsUpdate := False\<rparr>) (c_geometry e)\<rparr>))"
  by (auto simp: establishes_def on_entity_apply local_rel_def sys_rel_refl ent_rel_def
        created_def the_mesh_def the_light_def the_camera_def split: option.splits)

lemma local_rel_reset_light:
  "establishes local_rel (on_entity (\<lambda>e. e\<lparr>c_light :=
      map_option (\<lambda>c. c\<lparr>light_needsUpdate := False\<rparr>) (c_light e)\<rparr>))"
  by (auto simp: establishes_def on_entity_apply local_rel_def sys_rel_refl ent_rel_def
        created_def the_mesh_def the_light_def the_camera_def split: option.splits)

lemma local_rel_dispose_material: "establishes local_rel (dispose_material T m)"
  unfolding dispose_material_def
  by (rule establishes_choice2)
     (auto split: mesh_material.splits intro!: local_rel_skip local_rel_call local_rel_block)

lemma local_rel_dispose_geometry: "establishes local_rel (dispose_geometry T m)"
  unfolding dispose_geometry_def
  by (rule establishes_choice2)
     (auto split: option.splits intro!: local_rel_throw local_rel_call)

lemma local_rel_updateMeshMaterial: "establishes local_rel (updateMeshMaterial T m mc)"
  unfolding updateMeshMaterial_def Let_def
  by (rule local_rel_block)
     (auto intro: local_rel_call local_rel_on_mesh local_rel_dispose_material)

lemma local_rel_updateMeshGeometry: "establishes local_rel (updateMeshGeometry T m gc)"
  unfolding updateMeshGeometry_def Let_def
  by (rule local_rel_block)
     (auto intro: local_rel_call local_rel_on_mesh local_rel_dispose_geometry)

lemma local_rel_update_material_if_needed:
  "establishes local_rel (update_material_if_needed T m)"
  unfolding update_material_if_needed_def
  by (rule establishes_choice2)
     (auto split: option.splits
        intro!: local_rel_skip local_rel_seq local_rel_updateMeshMaterial
          local_rel_reset_material)

lemma local_rel_update_geometry_if_needed:
  "establishes local_rel (update_geometry_if_needed T m)"
  unfolding update_geometry_if_needed_def
  by (rule establishes_choice2)
     (auto split: option.splits
        intro!: local_rel_skip local_rel_seq local_rel_updateMeshGeometry
          local_rel_reset_geometry)

lemma local_rel_create_mesh_if_null:
  "establishes local_rel (\<lambda>(e, s). (if the_mesh e = None then createMesh T else skip) (e, s))"
  by (auto simp: establishes_def skip_def reflpD [OF reflp_local_rel]
        dest: local_rel_createMesh split: if_splits)

lemma local_rel_processMeshEntity_try:
  "establishes local_rel (processMeshEntity_try T t)"
  unfolding processMeshEntity_try_def
  apply (rule local_rel_block)
  apply simp
  apply (erule disjE)
   apply (simp add: local_rel_create_mesh_if_null)
  apply simp
  apply (rule establishes_choice2)
  apply (auto split: option.splits
      intro!: local_rel_skip local_rel_seq local_rel_updateMeshTransform
        local_rel_update_material_if_needed local_rel_update_geometry_if_needed)
  done

lemma local_rel_processMeshEntity: "establishes local_rel (processMeshEntity T)"
  unfolding processMeshEntity_def
  by (rule establishes_choice2)
     (auto split: option.splits
        intro!: local_rel_skip local_rel_try_catch local_rel_processMeshEntity_try
          local_rel_console)

lemma never_throws_try_catch:
  "(\<And>err. never_throws (h err)) \<Longrightarrow> never_throws (try_catch a h)"
  by (auto simp: never_throws_def try_catch_def split: prod.splits option.splits)

lemma never_throws_console_error: "never_throws (console_error entry)"
  by (auto simp: never_throws_def console_error_def on_state_def assign_def)

lemma never_throws_skip: "never_throws skip"
  by (simp add: never_throws_def skip_def)

lemma never_throws_choice2:
  "(\<And>e s. never_throws (F e s)) \<Longrightarrow> never_throws (\<lambda>(e, s). F e s (e, s))"
  by (auto simp: never_throws_def)

lemma never_throws_processMeshEntity: "never_throws (processMeshEntity T)"
  unfolding processMeshEntity_def
  by (rule never_throws_choice2)
     (auto split: option.splits
        intro!: never_throws_skip never_throws_try_catch never_throws_console_error)

lemma local_rel_updateLightTransform: "establishes local_rel (updateLightTransform T l t)"
  unfolding updateLightTransform_def
  by (rule local_rel_block) (auto intro: local_rel_call local_rel_on_light)

lemma local_rel_updateLightProperties: "establishes local_rel (updateLightProperties T lc)"
  unfolding updateLightProperties_def
  by (auto split: option.splits
        intro!: local_rel_skip local_rel_seq local_rel_call local_rel_on_light)

lemma local_rel_update_light_if_needed: "establishes local_rel (update_light_if_needed T)"
  unfolding update_light_if_needed_def
  by (rule establishes_choice2)
     (auto split: option.splits
        intro!: local_rel_skip local_rel_seq local_rel_updateLightProperties
          local_rel_reset_light)

lemma local_rel_create_light_if_null:
  "establishes local_rel (\<lambda>(e, s).
     (case c_light e of
        None \<Rightarrow> skip
      | Some lightComp \<Rightarrow> if light lightComp = None then createLight T lightComp else skip)
     (e, s))"
  by (auto simp: establishes_def skip_def reflpD [OF reflp_local_rel]
        dest: local_rel_createLight split: if_splits option.splits)

lemma local_rel_processLightEntity_try:
  "establishes local_rel (processLightEntity_try T t)"
  unfolding processLightEntity_try_def
  apply (rule local_rel_block)
  apply simp
  apply (erule disjE)
   apply (simp add: local_rel_create_light_if_null)
  apply simp
  apply (rule establishes_choice2)
  apply (auto split: option.splits
      intro!: local_rel_skip local_rel_seq local_rel_updateLightTransform
        local_rel_update_light_if_needed)
  done

lemma local_rel_processLightEntity: "establishes local_rel (processLightEntity T)"
  unfolding processLightEntity_def
  by (rule establishes_choice2)
     (auto split: option.splits
        intro!: local_rel_skip local_rel_try_catch local_rel_processLightEntity_try
          local_rel_console)

lemma never_throws_processLightEntity: "never_throws (processLightEntity T)"
  unfolding processLightEntity_def
  by (rule never_throws_choice2)
     (auto split: option.splits
        intro!: never_throws_skip never_throws_try_catch never_throws_console_error)

lemma local_rel_updateCameraTransform: "establishes local_rel (updateCameraTransform T c t)"
  unfolding updateCameraTransform_def
  by (rule local_rel_block) (auto intro: local_rel_call local_rel_on_camera)

lemma local_rel_create_camera_if_null:
  "establishes local_rel (\<lambda>(e, s).
     (case c_camera e of
        None \<Rightarrow> skip
      | Some cameraComp \<Rightarrow>
          if camera cameraComp = None then createCamera T cameraComp else skip) (e, s))"
  by (auto simp: establishes_def skip_def reflpD [OF reflp_local_rel]
        dest: local_rel_createCamera split: if_splits option.splits)

lemma local_rel_processCameraEntity_try:
  "establishes local_rel (processCameraEntity_try T t)"
  unfolding processCameraEntity_try_def
  apply (rule local_rel_block)
  apply simp
  apply (erule disjE)
   apply (simp add: local_rel_create_camera_if_null)
  apply simp
  apply (rule establishes_choice2)
  apply (auto split: option.splits
      intro!: local_rel_skip local_rel_seq local_rel_updateCameraTransform
        local_rel_sys_camera)
  done

lemma local_rel_processCameraEntity: "establishes local_rel (processCameraEntity T)"
  unfolding processCameraEntity_def
  by (rule establishes_choice2)
     (auto split: option.splits
        intro!: local_rel_skip local_rel_try_catch local_rel_processCameraEntity_try
          local_rel_console)

lemma never_throws_processCameraEntity: "never_throws (processCameraEntity T)"
  unfolding processCameraEntity_def
  by (rule never_throws_choice2)
     (auto split: option.splits
        intro!: never_throws_skip never_throws_try_catch never_throws_console_error)

lemma select_bound: "i \<in> set (select p es) \<Longrightarrow> i < length es"
  by (simp add: select_def)

lemma select_iff: "i \<in> set (select p es) \<longleftrightarrow> i < length es \<and> p (es ! i)"
  by (auto simp: select_def)

lemma distinct_select: "distinct (select p es)"
  by (simp add: select_def)

lemma walk_never_throws:
  "never_throws f \<Longrightarrow> fst (walk f is (es, s)) = None"
proof (induction "is" arbitrary: es s)
  case Nil
  then show ?case by simp
next
  case (Cons i "is")
  obtain r e' s' where f: "f (es ! i, s) = (r, (e', s'))"
    by (metis prod.exhaust)
  with Cons.prems have "r = None"
    by (metis fst_conv never_throws_def)
  with f Cons show ?case by simp
qed

lemma walk_length: "walk f is (es, s) = (r, (es', s')) \<Longrightarrow> length es' = length es"
proof (induction "is" arbitrary: es s)
  case Nil
  then show ?case by simp
next
  case (Cons i "is")
  obtain r1 e1 s1 where f: "f (es ! i, s) = (r1, (e1, s1))"
    by (metis prod.exhaust)
  show ?case
  proof (cases r1)
    case None
    with f Cons.prems have "walk f is (es[i := e1], s1) = (r, (es', s'))" by simp
    from Cons.IH [OF this] show ?thesis by simp
  next
    case (Some err)
    with f Cons.prems show ?thesis by auto
  qed
qed

lemma walk_untouched:
  "walk f is (es, s) = (r, (es', s')) \<Longrightarrow> j \<notin> set is \<Longrightarrow> es' ! j = es ! j"
proof (induction "is" arbitrary: es s)
  case Nil
  then show ?case by simp
next
  case (Cons i "is")
  obtain r1 e1 s1 where f: "f (es ! i, s) = (r1, (e1, s1))"
    by (metis prod.exhaust)
  from Cons.prems have ji: "j \<noteq> i" and jis: "j \<notin> set is" by auto
  show ?case
  proof (cases r1)
    case None
    with f Cons.prems have "walk f is (es[i := e1], s1) = (r, (es', s'))" by simp
    from Cons.IH [OF this jis] ji show ?thesis by simp
  next
    case (Some err)
    with f Cons.prems ji show ?thesis by auto
  qed
qed

text \<open>The relation a walk establishes between the entities and state before and after.\<close>

lemma walk_rel:
  assumes "establishes local_rel f"
  shows "walk f is (es, s) = (r, (es', s')) \<Longrightarrow>
         sys_rel s s' \<and> world s' = world s
         \<and> (\<forall>j. ent_rel (object3DId s) (object3DId s') (es ! j) (es' ! j))"
proof (induction "is" arbitrary: es s)
  case Nil
  then show ?case by (simp add: sys_rel_refl ent_rel_refl)
next
  case (Cons i "is")
  obtain r1 e1 s1 where f: "f (es ! i, s) = (r1, (e1, s1))"
    by (metis prod.exhaust)
  from establishesD [OF assms f]
  have step: "ent_rel (object3DId s) (object3DId s1) (es ! i) e1" "sys_rel s s1"
    "world s1 = world s"
    by (simp_all add: local_rel_def)
  have le1: "object3DId s \<le> object3DId s1" using step(2) by (rule sys_rel_mono)
  have one: "ent_rel (object3DId s) (object3DId s1) (es ! j) (es[i := e1] ! j)" for j
  proof (cases "j = i \<and> i < length es")
    case True
    then show ?thesis using step(1) by simp
  next
    case False
    then have "es[i := e1] ! j = es ! j" by (cases "j = i") (auto simp: list_update_beyond)
    then show ?thesis by (simp add: ent_rel_refl le1)
  qed
  show ?case
  proof (cases r1)
    case None
    with f Cons.prems have w: "walk f is (es[i := e1], s1) = (r, (es', s'))" by simp
    from Cons.IH [OF w]
    have rest: "sys_rel s1 s'" "world s' = world s1"
      "\<And>j. ent_rel (object3DId s1) (object3DId s') (es[i := e1] ! j) (es' ! j)"
      by simp_all
    have le2: "object3DId s1 \<le> object3DId s'" using rest(1) by (rule sys_rel_mono)
    have "ent_rel (object3DId s) (object3DId s') (es ! j) (es' ! j)" for j
      using ent_rel_trans [OF one rest(3) le1 order_refl le2] .
    then show ?thesis
      using sys_rel_trans [OF step(2) rest(1)] rest(2) step(3) by simp
  next
    case (Some err)
    with f Cons.prems have "es' = es[i := e1]" "s' = s1" by auto
    then show ?thesis using one step by simp
  qed
qed

lemma frame_rel_refl: "frame_rel s s"
  by (simp add: frame_rel_def sys_rel_refl ent_rel_refl split: option.splits)

lemma frame_rel_trans:
  assumes "frame_rel s s'" "frame_rel s' s''"
  shows "frame_rel s s''"
proof -
  have sys: "sys_rel s s'" "sys_rel s' s''"
    using assms by (simp_all add: frame_rel_def)
  note le = sys_rel_mono [OF sys(1)] sys_rel_mono [OF sys(2)]
  show ?thesis
  proof (cases "world s")
    case None
    with assms show ?thesis
      by (auto simp: frame_rel_def intro: sys_rel_trans)
  next
    case (Some w)
    with assms(1) obtain w' where w': "world s' = Some w'"
      "length (entities w') = length (entities w)"
      "\<And>j. ent_rel (object3DId s) (object3DId s') (entities w ! j) (entities w' ! j)"
      by (auto simp: frame_rel_def)
    with assms(2) obtain w'' where w'': "world s'' = Some w''"
      "length (entities w'') = length (entities w')"
      "\<And>j. ent_rel (object3DId s') (object3DId s'') (entities w' ! j) (entities w'' ! j)"
      by (auto simp: frame_rel_def)
    have "ent_rel (object3DId s) (object3DId s'') (entities w ! j) (entities w'' ! j)" for j
      using ent_rel_trans [OF w'(3) w''(3) le(1) order_refl le(2)] .
    with Some w' w'' sys show ?thesis
      by (auto simp: frame_rel_def intro: sys_rel_trans)
  qed
qed

lemma reflp_frame_rel: "reflp frame_rel"
  by (simp add: reflp_def frame_rel_refl)

lemma transp_frame_rel: "transp frame_rel"
  by (meson transpI frame_rel_trans)

lemma sys_rel_world_update: "sys_rel s s' \<Longrightarrow> sys_rel s (s'\<lparr>world := w\<rparr>)"
  by (simp add: sys_rel_def)

lemma frame_rel_in_world:
  assumes "\<And>es s r es' s'. f (es, s) = (r, (es', s')) \<Longrightarrow>
             length es' = length es \<and> sys_rel s s'
             \<and> (\<forall>j. ent_rel (object3DId s) (object3DId s') (es ! j) (es' ! j))"
  shows "establishes frame_rel (in_world f)"
proof (rule establishesI)
  fix s r s'
  assume run: "in_world f s = (r, s')"
  show "frame_rel s s'"
  proof (cases "world s")
    case None
    with run show ?thesis by (simp add: in_world_def frame_rel_refl)
  next
    case (Some w)
    obtain r1 es1 s1 where f: "f (entities w, s) = (r1, (es1, s1))"
      by (metis prod.exhaust)
    with run Some have s': "s' = s1\<lparr>world := Some (w\<lparr>entities := es1\<rparr>)\<rparr>"
      by (simp add: in_world_def)
    from assms [OF f] Some show ?thesis
      unfolding s' frame_rel_def
      by (auto intro: sys_rel_world_update)
  qed
qed

lemma walk_frame:
  "establishes local_rel f \<Longrightarrow> walk f is (es, s) = (r, (es', s')) \<Longrightarrow>
   length es' = length es \<and> sys_rel s s'
   \<and> (\<forall>j. ent_rel (object3DId s) (object3DId s') (es ! j) (es' ! j))"
  using walk_rel walk_length by blast

lemma frame_rel_processMeshEntities: "establishes frame_rel (processMeshEntities T)"
  unfolding processMeshEntities_def
  by (rule frame_rel_in_world) (simp add: walk_frame [OF local_rel_processMeshEntity])

lemma frame_rel_processLightEntities: "establishes frame_rel (processLightEntities T)"
  unfolding processLightEntities_def
  by (rule frame_rel_in_world) (simp add: walk_frame [OF local_rel_processLightEntity])

lemma frame_rel_processCameraEntities: "establishes frame_rel (processCameraEntities T)"
  unfolding processCameraEntities_def
proof (rule frame_rel_in_world)
  fix es s r es' s'
  assume run: "(case (es, s) of (es, s) \<Rightarrow>
      (case select is_camera_entity es of
         [] \<Rightarrow> (None, (es, s))
       | i # _ \<Rightarrow> walk (processCameraEntity T) [i] (es, s))) = (r, (es', s'))"
  show "length es' = length es \<and> sys_rel s s'
        \<and> (\<forall>j. ent_rel (object3DId s) (object3DId s') (es ! j) (es' ! j))"
  proof (cases "select is_camera_entity es")
    case Nil
    with run show ?thesis by (auto simp: sys_rel_refl ent_rel_refl)
  next
    case (Cons i "is")
    with run have "walk (processCameraEntity T) [i] (es, s) = (r, (es', s'))" by simp
    then show ?thesis by (rule walk_frame [OF local_rel_processCameraEntity])
  qed
qed

lemma frame_rel_render: "establishes frame_rel (render T)"
  by (auto simp: establishes_def render_def three_def frame_rel_def sys_rel_def fresh_adds_def
        ent_rel_refl split: option.splits)

lemma frame_rel_frameCount:
  "establishes frame_rel (assign (\<lambda>s. s\<lparr>frameCount := g s\<rparr>))"
  unfolding establishes_def assign_def
  by (auto simp: frame_rel_def sys_rel_def fresh_adds_def ent_rel_refl split: option.splits)

lemma frame_rel_log:
  "establishes frame_rel (assign (\<lambda>s. s\<lparr>console := console s @ [entry]\<rparr>))"
  by (auto simp: establishes_def assign_def frame_rel_def sys_rel_def fresh_adds_def
        ent_rel_refl split: option.splits)

lemma frame_rel_update_try: "establishes frame_rel (update_try T)"
  unfolding update_try_def
  by (rule establishes_block [OF reflp_frame_rel transp_frame_rel])
     (auto intro: frame_rel_frameCount frame_rel_processMeshEntities
        frame_rel_processLightEntities frame_rel_processCameraEntities frame_rel_render)

lemma frame_rel_update: "establishes frame_rel (update T)"
proof (rule establishesI)
  fix s r s'
  assume run: "update T s = (r, s')"
  show "frame_rel s s'"
  proof (cases "\<not> isInitialized s \<or> world s = None")
    case True
    with run show ?thesis by (auto simp: update_def frame_rel_refl)
  next
    case False
    have "establishes frame_rel
            (try_catch (update_try T)
               (\<lambda>err. seq (assign (\<lambda>s. s\<lparr>console := console s @ [Error_update err]\<rparr>))
                          (throw err)))"
      by (intro establishes_try_catch establishes_seq transp_frame_rel frame_rel_update_try
            frame_rel_log establishes_throw reflp_frame_rel)
    with run False show ?thesis
      by (auto simp: update_def dest: establishesD)
  qed
qed



lemma new_console_append: "console s' = console s @ cs \<Longrightarrow> new_console s s' = cs"
  by (simp add: new_console_def)

text \<open>
  C10. While the system is not initialised, or has no world, \<open>update\<close> returns at once and
  leaves the whole state as it is: no entity is processed, nothing is rendered (no call
  into Three.js is made), the frame counter keeps its value. That is so for a system just
  constructed, and for a system after \<open>onRemovedFromWorld\<close> has returned.
\<close>

theorem update_without_world_is_noop:
  "(\<not> isInitialized s \<or> world s = None \<longrightarrow> update T s = (None, s))
   \<and> update T (ThreeRenderSystem_new opts) = (None, ThreeRenderSystem_new opts)
   \<and> (onRemovedFromWorld T' s = (None, s') \<longrightarrow> update T s' = (None, s'))"
proof -
  have removed: "\<not> isInitialized s'" if "onRemovedFromWorld T' s = (None, s')"
    using that
    by (auto simp: onRemovedFromWorld_def seq_def assign_def skip_def
          split: prod.splits option.splits)
  show ?thesis
    using removed by (auto simp: update_def ThreeRenderSystem_new_def)
qed

theorem update_without_world_is_noop_witness:
  "\<not> isInitialized (ThreeRenderSystem_new None)
   \<and> update nothrow (ThreeRenderSystem_new None) = (None, ThreeRenderSystem_new None)
   \<and> fst (onRemovedFromWorld nothrow (onAddedToWorld empty_world (ThreeRenderSystem_new None)))
       = None
   \<and> update nothrow
        (snd (onRemovedFromWorld nothrow (onAddedToWorld empty_world (ThreeRenderSystem_new None))))
       = (None,
          snd (onRemovedFromWorld nothrow (onAddedToWorld empty_world (ThreeRenderSystem_new None))))"
proof -
  let ?s = "onAddedToWorld empty_world (ThreeRenderSystem_new None)"
  have init: "\<not> isInitialized (ThreeRenderSystem_new None)"
    by (simp add: ThreeRenderSystem_new_def)
  have ok: "fst (onRemovedFromWorld nothrow ?s) = None"
    by (simp add: onRemovedFromWorld_def cleanup_def onAddedToWorld_def
          ThreeRenderSystem_new_def seq_def assign_def skip_def three_def nothrow_def)
  then have run: "onRemovedFromWorld nothrow ?s = (None, snd (onRemovedFromWorld nothrow ?s))"
    by (metis prod.collapse)
  from update_without_world_is_noop
         [of "ThreeRenderSystem_new None" nothrow None nothrow]
       update_without_world_is_noop
         [of ?s nothrow None nothrow "snd (onRemovedFromWorld nothrow ?s)"]
       init ok run
  show ?thesis by simp
qed

subsection \<open>Following one run\<close>

lemma seq_cases:
  assumes "seq a b l = (r, l'')"
  obtains (threw) err where "a l = (Some err, l'')" "r = Some err"
        | (went_on) l' where "a l = (None, l')" "b l' = (r, l'')"
  using assms by (auto simp: seq_def split: prod.splits option.splits)

lemma seq_None:
  "seq a b l = (None, l'') \<longleftrightarrow> (\<exists>l'. a l = (None, l') \<and> b l' = (None, l''))"
  by (auto simp: seq_def split: prod.splits option.splits)

lemma try_catch_cases:
  assumes "try_catch a h l = (r, l'')"
  obtains (normal) "a l = (None, l'')" "r = None"
        | (caught) err l' where "a l = (Some err, l')" "h err l' = (r, l'')"
  using assms by (auto simp: try_catch_def split: prod.splits option.splits)

lemma block_single: "block [a] = a"
  by (rule ext) (simp add: seq_def skip_def split: prod.splits option.splits)

subsection \<open>Steps that leave a part of the state alone\<close>

lemma reflp_keeps: "reflp (keeps sel)"
  by (simp add: reflp_def keeps_def)

lemma transp_keeps: "transp (keeps sel)"
  by (auto simp: transp_def keeps_def)

lemmas keeps_skip = establishes_skip [OF reflp_keeps]
lemmas keeps_throw = establishes_throw [OF reflp_keeps]
lemmas keeps_seq = establishes_seq [OF transp_keeps]
lemmas keeps_block = establishes_block [OF reflp_keeps transp_keeps]
lemmas keeps_try_catch = establishes_try_catch [OF transp_keeps]

lemma keeps_call:
  "(\<And>e s. sel (e, s\<lparr>trace := trace s @ [c]\<rparr>) = sel (e, s)) \<Longrightarrow> establishes (keeps sel) (call T c)"
  by (auto simp: establishes_def keeps_def call_apply)

lemma keeps_on_state:
  "(\<And>e s. sel (e, f s) = sel (e, s)) \<Longrightarrow> establishes (keeps sel) (on_state f)"
  by (auto simp: establishes_def keeps_def on_state_apply)

lemma keeps_on_entity:
  "(\<And>e s. sel (f e, s) = sel (e, s)) \<Longrightarrow> establishes (keeps sel) (on_entity f)"
  by (auto simp: establishes_def keeps_def on_entity_apply)

lemma keeps_console_error:
  "(\<And>e s. sel (e, s\<lparr>console := console s @ [entry]\<rparr>) = sel (e, s)) \<Longrightarrow>
   establishes (keeps sel) (console_error entry)"
  unfolding console_error_def by (rule keeps_on_state) simp

lemma keepsD: "establishes (keeps sel) a \<Longrightarrow> a l = (r, l') \<Longrightarrow> sel l' = sel l"
  by (auto simp: establishes_def keeps_def)

subsection \<open>Steps that make no object\<close>


lemma transp_only_calls: "transp (only_calls P)"
  unfolding transp_def only_calls_def by auto

lemmas only_calls_try_catch = establishes_try_catch [OF transp_only_calls]


lemma only_calls_on_state:
  "(\<And>s. object3DId (f s) = object3DId s \<and> scene (f s) = scene s \<and> trace (f s) = trace s) \<Longrightarrow>
   establishes (only_calls P) (on_state f)"
  by (auto simp: establishes_def only_calls_def on_state_apply)


lemma only_calls_console_error: "establishes (only_calls P) (console_error entry)"
  unfolding console_error_def by (rule only_calls_on_state) simp

subsection \<open>An entity whose object exists\<close>

lemma upd_mesh_frame [simp]:
  "object3DId (upd_mesh m f s) = object3DId s" "scene (upd_mesh m f s) = scene s"
  "trace (upd_mesh m f s) = trace s" "console (upd_mesh m f s) = console s"
  "lights (upd_mesh m f s) = lights s" "cameras (upd_mesh m f s) = cameras s"
  "sys_camera (upd_mesh m f s) = sys_camera s" "world (upd_mesh m f s) = world s"
  by (simp_all add: upd_mesh_def)

lemma upd_light_frame [simp]:
  "object3DId (upd_light m f s) = object3DId s" "scene (upd_light m f s) = scene s"
  "trace (upd_light m f s) = trace s" "console (upd_light m f s) = console s"
  "meshes (upd_light m f s) = meshes s" "cameras (upd_light m f s) = cameras s"
  "sys_camera (upd_light m f s) = sys_camera s" "world (upd_light m f s) = world s"
  by (simp_all add: upd_light_def)

lemma upd_camera_frame [simp]:
  "object3DId (upd_camera m f s) = object3DId s" "scene (upd_camera m f s) = scene s"
  "trace (upd_camera m f s) = trace s" "console (upd_camera m f s) = console s"
  "meshes (upd_camera m f s) = meshes s" "lights (upd_camera m f s) = lights s"
  "sys_camera (upd_camera m f s) = sys_camera s" "world (upd_camera m f s) = world s"
  by (simp_all add: upd_camera_def)






lemma processMeshEntity_try_existing:
  "the_mesh e = Some m \<Longrightarrow>
   processMeshEntity_try T t (e, s) =
     block [updateMeshTransform T m t, update_material_if_needed T m,
            update_geometry_if_needed T m] (e, s)"
  by (simp add: processMeshEntity_try_def seq_def skip_def split: prod.splits option.splits)


lemma processMeshEntity_apply:
  "processMeshEntity T (e, s) =
     (case c_transform e of
        None \<Rightarrow> (None, (e, s))
      | Some t \<Rightarrow>
          (case c_mesh e of
             None \<Rightarrow> (None, (e, s))
           | Some mc \<Rightarrow>
               try_catch (processMeshEntity_try T t)
                 (\<lambda>err. console_error (Error_mesh (ent_id e) err)) (e, s)))"
  by (simp add: processMeshEntity_def skip_def split: option.splits)

lemma console_error_apply:
  "console_error entry (e, s) = (None, (e, s\<lparr>console := console s @ [entry]\<rparr>))"
  by (simp add: console_error_def on_state_apply)

lemma processMeshEntity_cases:
  assumes "processMeshEntity T (e, s) = (r, l')"
  obtains (skipped) "c_transform e = None \<or> c_mesh e = None" "r = None" "l' = (e, s)"
        | (finished) t where "c_transform e = Some t" "c_mesh e \<noteq> None"
            "processMeshEntity_try T t (e, s) = (None, l')" "r = None"
        | (caught) t err e1 s1 where "c_transform e = Some t" "c_mesh e \<noteq> None"
            "processMeshEntity_try T t (e, s) = (Some err, (e1, s1))" "r = None"
            "l' = (e1, s1\<lparr>console := console s1 @ [Error_mesh (ent_id e) err]\<rparr>)"
proof (cases "c_transform e")
  case None
  with assms have "r = None" "l' = (e, s)" by (simp_all add: processMeshEntity_apply)
  with None skipped show ?thesis by simp
next
  case (Some t)
  show ?thesis
  proof (cases "c_mesh e")
    case None
    with assms Some have "r = None" "l' = (e, s)" by (simp_all add: processMeshEntity_apply)
    with None skipped show ?thesis by simp
  next
    case mc: (Some mc)
    with assms Some have tc: "try_catch (processMeshEntity_try T t)
        (\<lambda>err. console_error (Error_mesh (ent_id e) err)) (e, s) = (r, l')"
      by (simp add: processMeshEntity_apply)
    then show ?thesis
    proof (cases rule: try_catch_cases)
      case normal
      with Some mc finished show ?thesis by simp
    next
      case (caught err l1)
      obtain e1 s1 where l1: "l1 = (e1, s1)" by (cases l1)
      with caught have "r = None"
        "l' = (e1, s1\<lparr>console := console s1 @ [Error_mesh (ent_id e) err]\<rparr>)"
        by (simp_all add: console_error_apply)
      with Some mc caught(1) l1 that(3) show ?thesis by simp
    qed
  qed
qed


lemma seq_skip: "seq a skip = a"
  by (rule ext) (simp add: seq_def skip_def split: prod.splits option.splits)

lemma seq_first_skip: "a l = (None, l) \<Longrightarrow> seq a b l = b l"
  by (simp add: seq_def)

subsection \<open>Lights\<close>



lemma processLightEntity_try_existing:
  "the_light e = Some l \<Longrightarrow>
   processLightEntity_try T t (e, s) =
     block [updateLightTransform T l t, update_light_if_needed T] (e, s)"
proof -
  assume "the_light e = Some l"
  then obtain lc where "c_light e = Some lc" "light lc = Some l"
    by (auto simp: the_light_def split: option.splits)
  then show ?thesis
    by (simp add: processLightEntity_try_def the_light_def seq_skip seq_first_skip skip_def)
qed



lemma processLightEntity_apply:
  "processLightEntity T (e, s) =
     (case c_transform e of
        None \<Rightarrow> (None, (e, s))
      | Some t \<Rightarrow>
          (case c_light e of
             None \<Rightarrow> (None, (e, s))
           | Some lc \<Rightarrow>
               try_catch (processLightEntity_try T t)
                 (\<lambda>err. console_error (Error_light (ent_id e) err)) (e, s)))"
  by (simp add: processLightEntity_def skip_def split: option.splits)

lemma processLightEntity_cases:
  assumes "processLightEntity T (e, s) = (r, l')"
  obtains (skipped) "c_transform e = None \<or> c_light e = None" "r = None" "l' = (e, s)"
        | (finished) t where "c_transform e = Some t" "c_light e \<noteq> None"
            "processLightEntity_try T t (e, s) = (None, l')" "r = None"
        | (caught) t err e1 s1 where "c_transform e = Some t" "c_light e \<noteq> None"
            "processLightEntity_try T t (e, s) = (Some err, (e1, s1))" "r = None"
            "l' = (e1, s1\<lparr>console := console s1 @ [Error_light (ent_id e) err]\<rparr>)"
proof (cases "c_transform e")
  case None
  with assms have "r = None" "l' = (e, s)" by (simp_all add: processLightEntity_apply)
  with None skipped show ?thesis by simp
next
  case (Some t)
  show ?thesis
  proof (cases "c_light e")
    case None
    with assms Some have "r = None" "l' = (e, s)" by (simp_all add: processLightEntity_apply)
    with None skipped show ?thesis by simp
  next
    case lc: (Some lc)
    with assms Some have tc: "try_catch (processLightEntity_try T t)
        (\<lambda>err. console_error (Error_light (ent_id e) err)) (e, s) = (r, l')"
      by (simp add: processLightEntity_apply)
    then show ?thesis
    proof (cases rule: try_catch_cases)
      case normal
      with Some lc finished show ?thesis by simp
    next
      case (caught err l1)
      obtain e1 s1 where l1: "l1 = (e1, s1)" by (cases l1)
      with caught have "r = None"
        "l' = (e1, s1\<lparr>console := console s1 @ [Error_light (ent_id e) err]\<rparr>)"
        by (simp_all add: console_error_apply)
      with Some lc caught(1) l1 that(3) show ?thesis by simp
    qed
  qed
qed


subsection \<open>Cameras\<close>


lemma processCameraEntity_try_existing:
  "the_camera e = Some c \<Longrightarrow>
   processCameraEntity_try T t (e, s) =
     block [updateCameraTransform T c t, on_state (\<lambda>s. s\<lparr>sys_camera := c\<rparr>)] (e, s)"
proof -
  assume "the_camera e = Some c"
  then obtain cc where "c_camera e = Some cc" "camera cc = Some c"
    by (auto simp: the_camera_def split: option.splits)
  then show ?thesis
    by (simp add: processCameraEntity_try_def the_camera_def seq_skip seq_first_skip skip_def)
qed


lemma processCameraEntity_apply:
  "processCameraEntity T (e, s) =
     (case c_transform e of
        None \<Rightarrow> (None, (e, s))
      | Some t \<Rightarrow>
          (case c_camera e of
             None \<Rightarrow> (None, (e, s))
           | Some cc \<Rightarrow>
               try_catch (processCameraEntity_try T t)
                 (\<lambda>err. console_error (Error_camera (ent_id e) err)) (e, s)))"
  by (simp add: processCameraEntity_def skip_def split: option.splits)

lemma processCameraEntity_cases:
  assumes "processCameraEntity T (e, s) = (r, l')"
  obtains (skipped) "c_transform e = None \<or> c_camera e = None" "r = None" "l' = (e, s)"
        | (finished) t where "c_transform e = Some t" "c_camera e \<noteq> None"
            "processCameraEntity_try T t (e, s) = (None, l')" "r = None"
        | (caught) t err e1 s1 where "c_transform e = Some t" "c_camera e \<noteq> None"
            "processCameraEntity_try T t (e, s) = (Some err, (e1, s1))" "r = None"
            "l' = (e1, s1\<lparr>console := console s1 @ [Error_camera (ent_id e) err]\<rparr>)"
proof (cases "c_transform e")
  case None
  with assms have "r = None" "l' = (e, s)" by (simp_all add: processCameraEntity_apply)
  with None skipped show ?thesis by simp
next
  case (Some t)
  show ?thesis
  proof (cases "c_camera e")
    case None
    with assms Some have "r = None" "l' = (e, s)" by (simp_all add: processCameraEntity_apply)
    with None skipped show ?thesis by simp
  next
    case cc: (Some cc)
    with assms Some have tc: "try_catch (processCameraEntity_try T t)
        (\<lambda>err. console_error (Error_camera (ent_id e) err)) (e, s) = (r, l')"
      by (simp add: processCameraEntity_apply)
    then show ?thesis
    proof (cases rule: try_catch_cases)
      case normal
      with Some cc finished show ?thesis by simp
    next
      case (caught err l1)
      obtain e1 s1 where l1: "l1 = (e1, s1)" by (cases l1)
      with caught have "r = None"
        "l' = (e1, s1\<lparr>console := console s1 @ [Error_camera (ent_id e) err]\<rparr>)"
        by (simp_all add: console_error_apply)
      with Some cc caught(1) l1 that(3) show ?thesis by simp
    qed
  qed
qed




subsection \<open>A run of the mesh step that completes\<close>

lemma updateMeshTransform_success:
  "updateMeshTransform T m t (e, s) = (None, (e', s')) \<Longrightarrow>
   e' = e \<and> mesh_position (meshes s' m) = t_position t
   \<and> mesh_rotation (meshes s' m) = radians (t_rotation t)
   \<and> mesh_scale (meshes s' m) = t_scale t
   \<and> mesh_material (meshes s' m) = mesh_material (meshes s m)
   \<and> mesh_geometry (meshes s' m) = mesh_geometry (meshes s m)
   \<and> trace s' = trace s @ [Position_set (MeshObj m) (t_position t),
        Rotation_set (MeshObj m) (radians (t_rotation t)), Scale_set (MeshObj m) (t_scale t)]"
  by (auto simp: updateMeshTransform_def stmt_apply upd_mesh_def split: if_splits)

lemma keeps_transform_dispose_material:
  "establishes (keeps (\<lambda>l. (fst l, mesh_transform_of m l))) (dispose_material T m')"
  unfolding dispose_material_def
  by (rule establishes_choice2)
     (auto split: mesh_material.splits simp: mesh_transform_of_def
        intro!: keeps_skip keeps_call keeps_block)

lemma keeps_transform_material:
  "establishes (keeps (\<lambda>l. (the_mesh (fst l), mesh_transform_of m l)))
     (update_material_if_needed T m')"
  unfolding update_material_if_needed_def updateMeshMaterial_def dispose_material_def Let_def
  by (rule establishes_choice2)
     (auto split: option.splits mesh_material.splits
        simp: mesh_transform_of_def upd_mesh_def the_mesh_def
        intro!: keeps_skip keeps_seq keeps_call keeps_on_state keeps_on_entity keeps_block
          establishes_choice2)

lemma keeps_transform_geometry:
  "establishes (keeps (\<lambda>l. (the_mesh (fst l), mesh_transform_of m l)))
     (update_geometry_if_needed T m')"
  unfolding update_geometry_if_needed_def updateMeshGeometry_def dispose_geometry_def Let_def
  by (rule establishes_choice2)
     (auto split: option.splits
        simp: mesh_transform_of_def upd_mesh_def the_mesh_def
        intro!: keeps_skip keeps_throw keeps_seq keeps_call keeps_on_state keeps_on_entity
          establishes_choice2)

lemma existing_mesh_block_success:
  assumes "block [updateMeshTransform T m t, update_material_if_needed T m,
             update_geometry_if_needed T m] (e, s) = (None, (e', s'))"
    and "the_mesh e = Some m"
  shows "the_mesh e' = Some m \<and> mesh_position (meshes s' m) = t_position t
     \<and> mesh_rotation (meshes s' m) = radians (t_rotation t)
     \<and> mesh_scale (meshes s' m) = t_scale t"
proof -
  from assms(1) obtain l1 l2 where
    a: "updateMeshTransform T m t (e, s) = (None, l1)" and
    b: "update_material_if_needed T m l1 = (None, l2)" and
    c: "update_geometry_if_needed T m l2 = (None, (e', s'))"
    by (auto simp: seq_None seq_skip)
  obtain e1 s1 where l1: "l1 = (e1, s1)" by (cases l1)
  from updateMeshTransform_success [OF a [unfolded l1]]
  have t1: "e1 = e" "mesh_position (meshes s1 m) = t_position t"
    "mesh_rotation (meshes s1 m) = radians (t_rotation t)"
    "mesh_scale (meshes s1 m) = t_scale t" by simp_all
  from keepsD [OF keeps_transform_material b] keepsD [OF keeps_transform_geometry c]
  have "the_mesh e' = the_mesh e1" "mesh_transform_of m (e', s') = mesh_transform_of m (e1, s1)"
    by (simp_all add: l1)
  with t1 assms(2) show ?thesis by (simp add: mesh_transform_of_def)
qed

lemma createMesh_success:
  "createMesh T (e, s) = (None, (e', s')) \<Longrightarrow> c_mesh e \<noteq> None \<Longrightarrow>
   the_mesh e' = Some (object3DId s) \<and> c_transform e' = c_transform e
   \<and> c_material e' = c_material e \<and> c_geometry e' = c_geometry e
   \<and> ent_id e' = ent_id e
   \<and> mesh_material (meshes s' (object3DId s)) = Single (createMaterial (c_material e))
   \<and> mesh_geometry (meshes s' (object3DId s)) = Some (createGeometry (c_geometry e))
   \<and> console s' = console s"
  by (auto simp: createMesh_def Let_def stmt_apply the_mesh_def scene_add_def new_Mesh_def
        split: if_splits)

lemma processMeshEntity_try_null:
  "the_mesh e = None \<Longrightarrow>
   processMeshEntity_try T t (e, s) =
     seq (createMesh T)
       (\<lambda>(e, s). (case the_mesh e of
           None \<Rightarrow> skip
         | Some m \<Rightarrow> block [updateMeshTransform T m t, update_material_if_needed T m,
                            update_geometry_if_needed T m]) (e, s)) (e, s)"
  by (simp add: processMeshEntity_try_def seq_skip) (simp add: seq_def)

text \<open>A completed run of the \<open>try\<close> body: the mesh it worked on, and the state in which
  the updates of that mesh began.\<close>

lemma processMeshEntity_try_success:
  assumes "processMeshEntity_try T t (e, s) = (None, l')" and "c_mesh e \<noteq> None"
  obtains m e1 s1 where
    "block [updateMeshTransform T m t, update_material_if_needed T m,
            update_geometry_if_needed T m] (e1, s1) = (None, l')"
    "the_mesh e1 = Some m" "c_material e1 = c_material e" "c_geometry e1 = c_geometry e"
    "console s1 = console s"
    "(the_mesh e = Some m \<and> e1 = e \<and> s1 = s)
     \<or> (the_mesh e = None \<and> createMesh T (e, s) = (None, (e1, s1)) \<and> m = object3DId s)"
proof (cases "the_mesh e")
  case (Some m)
  with assms(1) that [of m e s] show ?thesis
    by (simp add: processMeshEntity_try_existing)
next
  case None
  with assms(1) obtain l1 where
    a: "createMesh T (e, s) = (None, l1)" and
    b: "(\<lambda>(e, s). (case the_mesh e of
           None \<Rightarrow> skip
         | Some m \<Rightarrow> block [updateMeshTransform T m t, update_material_if_needed T m,
                            update_geometry_if_needed T m]) (e, s)) l1 = (None, l')"
    by (auto simp: processMeshEntity_try_null seq_None)
  obtain e1 s1 where l1: "l1 = (e1, s1)" by (cases l1)
  from createMesh_success [OF a [unfolded l1] assms(2)]
  have c: "the_mesh e1 = Some (object3DId s)" "c_material e1 = c_material e"
    "c_geometry e1 = c_geometry e" "console s1 = console s" by simp_all
  from b l1 c(1) have "block [updateMeshTransform T (object3DId s) t,
      update_material_if_needed T (object3DId s),
      update_geometry_if_needed T (object3DId s)] (e1, s1) = (None, l')" by simp
  from that [OF this c] None a l1 show ?thesis by simp
qed

subsection \<open>The console is written by the \<open>catch\<close> only\<close>

lemma keeps_console_createMesh:
  "establishes (keeps (\<lambda>l. console (snd l))) (createMesh T)"
  unfolding createMesh_def Let_def
  by (rule establishes_choice2)
     (auto simp: scene_add_def
        intro!: keeps_seq keeps_skip keeps_call keeps_on_state keeps_on_entity)

lemma keeps_console_processMeshEntity_try:
  "establishes (keeps (\<lambda>l. console (snd l))) (processMeshEntity_try T t)"
  unfolding processMeshEntity_try_def updateMeshTransform_def update_material_if_needed_def
    update_geometry_if_needed_def updateMeshMaterial_def updateMeshGeometry_def
    dispose_material_def dispose_geometry_def Let_def
  by (auto split: option.splits mesh_material.splits
        intro!: keeps_seq keeps_skip keeps_throw keeps_call keeps_on_state keeps_on_entity
          keeps_block establishes_choice2 keeps_console_createMesh)

lemma keeps_console_createLight:
  "establishes (keeps (\<lambda>l. console (snd l))) (createLight T lc)"
  unfolding createLight_def Let_def
  by (rule establishes_choice2)
     (auto simp: scene_add_def
        intro!: keeps_seq keeps_skip keeps_call keeps_on_state keeps_on_entity)

lemma keeps_console_processLightEntity_try:
  "establishes (keeps (\<lambda>l. console (snd l))) (processLightEntity_try T t)"
  unfolding processLightEntity_try_def updateLightTransform_def update_light_if_needed_def
    updateLightProperties_def Let_def
  by (auto split: option.splits
        intro!: keeps_seq keeps_skip keeps_call keeps_on_state keeps_on_entity
          establishes_choice2 keeps_console_createLight)

lemma keeps_console_createCamera:
  "establishes (keeps (\<lambda>l. console (snd l))) (createCamera T cc)"
  unfolding createCamera_def Let_def
  by (rule establishes_choice2)
     (auto intro!: keeps_seq keeps_skip keeps_call keeps_on_state keeps_on_entity)

lemma keeps_console_processCameraEntity_try:
  "establishes (keeps (\<lambda>l. console (snd l))) (processCameraEntity_try T t)"
  unfolding processCameraEntity_try_def updateCameraTransform_def Let_def
  by (auto split: option.splits
        intro!: keeps_seq keeps_skip keeps_call keeps_on_state keeps_on_entity
          establishes_choice2 keeps_console_createCamera)

text \<open>The two outcomes of processing an entity that has the components: the \<open>try\<close> body
  completed and the console is as it was, or it threw and the error was logged.\<close>

lemma processMeshEntity_outcome:
  assumes "processMeshEntity T (e, s) = (r, (e', s'))" "c_transform e = Some t" "c_mesh e \<noteq> None"
  shows "r = None \<and>
     ((console s' = console s \<and> processMeshEntity_try T t (e, s) = (None, (e', s')))
      \<or> (\<exists>err s1. processMeshEntity_try T t (e, s) = (Some err, (e', s1))
            \<and> console s' = console s @ [Error_mesh (ent_id e) err]))"
  using assms(1)
proof (cases rule: processMeshEntity_cases)
  case skipped
  with assms show ?thesis by simp
next
  case (finished t')
  with assms(2) keepsD [OF keeps_console_processMeshEntity_try finished(3)]
  show ?thesis by simp
next
  case (caught t' err e1 s1)
  with assms(2) keepsD [OF keeps_console_processMeshEntity_try caught(3)]
  show ?thesis by auto
qed

lemma processLightEntity_outcome:
  assumes "processLightEntity T (e, s) = (r, (e', s'))" "c_transform e = Some t" "c_light e \<noteq> None"
  shows "r = None \<and>
     ((console s' = console s \<and> processLightEntity_try T t (e, s) = (None, (e', s')))
      \<or> (\<exists>err s1. processLightEntity_try T t (e, s) = (Some err, (e', s1))
            \<and> console s' = console s @ [Error_light (ent_id e) err]))"
  using assms(1)
proof (cases rule: processLightEntity_cases)
  case skipped
  with assms show ?thesis by simp
next
  case (finished t')
  with assms(2) keepsD [OF keeps_console_processLightEntity_try finished(3)]
  show ?thesis by simp
next
  case (caught t' err e1 s1)
  with assms(2) keepsD [OF keeps_console_processLightEntity_try caught(3)]
  show ?thesis by auto
qed

lemma processCameraEntity_outcome:
  assumes "processCameraEntity T (e, s) = (r, (e', s'))" "c_transform e = Some t"
    "c_camera e \<noteq> None"
  shows "r = None \<and>
     ((console s' = console s \<and> processCameraEntity_try T t (e, s) = (None, (e', s')))
      \<or> (\<exists>err s1. processCameraEntity_try T t (e, s) = (Some err, (e', s1))
            \<and> console s' = console s @ [Error_camera (ent_id e) err]))"
  using assms(1)
proof (cases rule: processCameraEntity_cases)
  case skipped
  with assms show ?thesis by simp
next
  case (finished t')
  with assms(2) keepsD [OF keeps_console_processCameraEntity_try finished(3)]
  show ?thesis by simp
next
  case (caught t' err e1 s1)
  with assms(2) keepsD [OF keeps_console_processCameraEntity_try caught(3)]
  show ?thesis by auto
qed

subsection \<open>Runs of the light and camera steps that complete\<close>

lemma updateLightTransform_success:
  "updateLightTransform T l t (e, s) = (None, (e', s')) \<Longrightarrow>
   e' = e \<and> l_position (lights s' l) = t_position t
   \<and> trace s' = trace s @ [Position_set (LightObj l) (t_position t)]"
  by (auto simp: updateLightTransform_def stmt_apply upd_light_def split: if_splits)

lemma keeps_position_light_properties:
  "establishes (keeps (\<lambda>l. (the_light (fst l), l_position (lights (snd l) k))))
     (update_light_if_needed T)"
  unfolding update_light_if_needed_def updateLightProperties_def
  by (rule establishes_choice2)
     (auto split: option.splits simp: upd_light_def the_light_def
        intro!: keeps_skip keeps_seq keeps_call keeps_on_state keeps_on_entity)

lemma existing_light_block_success:
  assumes "block [updateLightTransform T l t, update_light_if_needed T] (e, s) = (None, (e', s'))"
    and "the_light e = Some l"
  shows "the_light e' = Some l \<and> l_position (lights s' l) = t_position t"
proof -
  from assms(1) obtain l1 where
    a: "updateLightTransform T l t (e, s) = (None, l1)" and
    b: "update_light_if_needed T l1 = (None, (e', s'))"
    by (auto simp: seq_None seq_skip)
  obtain e1 s1 where l1: "l1 = (e1, s1)" by (cases l1)
  from updateLightTransform_success [OF a [unfolded l1]]
  have t1: "e1 = e" "l_position (lights s1 l) = t_position t" by simp_all
  from keepsD [OF keeps_position_light_properties b, of l] l1
  have "the_light e' = the_light e1" "l_position (lights s' l) = l_position (lights s1 l)"
    by simp_all
  with t1 assms(2) show ?thesis by simp
qed

lemma createLight_success:
  "createLight T lc (e, s) = (None, (e', s')) \<Longrightarrow> c_light e \<noteq> None \<Longrightarrow>
   the_light e' = Some (object3DId s) \<and> c_transform e' = c_transform e \<and> ent_id e' = ent_id e"
  by (auto simp: createLight_def Let_def stmt_apply the_light_def scene_add_def
        split: if_splits)

lemma processLightEntity_try_null:
  "c_light e = Some lc \<Longrightarrow> light lc = None \<Longrightarrow>
   processLightEntity_try T t (e, s) =
     seq (createLight T lc)
       (\<lambda>(e, s). (case the_light e of
           None \<Rightarrow> skip
         | Some l \<Rightarrow> block [updateLightTransform T l t, update_light_if_needed T]) (e, s))
       (e, s)"
  by (simp add: processLightEntity_try_def seq_skip) (simp add: seq_def)


lemma updateCameraTransform_success:
  "updateCameraTransform T c t (e, s) = (None, (e', s')) \<Longrightarrow>
   e' = e \<and> cam_position (cameras s' c) = t_position t
   \<and> cam_rotation (cameras s' c) = Euler (radians (t_rotation t))
   \<and> trace s' = trace s @ [Position_set (CameraObj c) (t_position t),
        Rotation_set (CameraObj c) (radians (t_rotation t))]"
  by (auto simp: updateCameraTransform_def stmt_apply upd_camera_def split: if_splits)


lemma createCamera_success:
  "createCamera T cc (e, s) = (None, (e', s')) \<Longrightarrow> c_camera e \<noteq> None \<Longrightarrow>
   the_camera e' = Some (object3DId s) \<and> c_transform e' = c_transform e \<and> ent_id e' = ent_id e"
  by (auto simp: createCamera_def Let_def stmt_apply the_camera_def split: if_splits)

lemma processCameraEntity_try_null:
  "c_camera e = Some cc \<Longrightarrow> camera cc = None \<Longrightarrow>
   processCameraEntity_try T t (e, s) =
     seq (createCamera T cc)
       (\<lambda>(e, s). (case the_camera e of
           None \<Rightarrow> skip
         | Some c \<Rightarrow> block [updateCameraTransform T c t, on_state (\<lambda>s. s\<lparr>sys_camera := c\<rparr>)])
          (e, s))
       (e, s)"
  by (simp add: processCameraEntity_try_def seq_skip) (simp add: seq_def)



lemmas stmt_eval = Let_def skip_def throw_def assign_def seq_def try_catch_def three_def
  call_def on_state_def on_entity_def nothrow_def

lemmas entity_eval = mesh_entity_def light_entity_def camera_entity_def
  TransformComponent_new_def ThreeMeshComponent_new_def ThreeLightComponent_new_def
  ThreeCameraComponent_new_def or_num_def or_str_def or_bool_def
  ThreeRenderSystem_new_def onAddedToWorld_def

lemmas mesh_eval = processMeshEntity_def processMeshEntity_try_def createMesh_def
  updateMeshTransform_def update_material_if_needed_def update_geometry_if_needed_def
  updateMeshMaterial_def updateMeshGeometry_def dispose_material_def dispose_geometry_def
  console_error_def the_mesh_def upd_mesh_def scene_add_def new_Mesh_def

lemmas light_eval = processLightEntity_def processLightEntity_try_def createLight_def
  updateLightTransform_def update_light_if_needed_def updateLightProperties_def
  light_ctor_of_def shadow_light_def console_error_def the_light_def upd_light_def
  scene_add_def new_Light_def

lemmas camera_eval = processCameraEntity_def processCameraEntity_try_def createCamera_def
  updateCameraTransform_def camera_ctor_of_def console_error_def the_camera_def
  upd_camera_def new_Camera_def






subsection \<open>Replacing the material and the geometry of a mesh\<close>

lemma dispose_all_success:
  "block (map (\<lambda>mat. call T (Material_dispose mat)) mats) (e, s) = (None, (e', s')) \<Longrightarrow>
   e' = e \<and> s' = s\<lparr>trace := trace s @ map Material_dispose mats\<rparr>"
proof (induction mats arbitrary: s)
  case Nil
  then show ?case by (simp add: skip_def)
next
  case (Cons mat mats)
  from Cons.prems obtain l1 where
    a: "call T (Material_dispose mat) (e, s) = (None, l1)" and
    b: "block (map (\<lambda>mat. call T (Material_dispose mat)) mats) l1 = (None, (e', s'))"
    by (auto simp: seq_None)
  from a have l1: "l1 = (e, s\<lparr>trace := trace s @ [Material_dispose mat]\<rparr>)"
    by (auto simp: call_apply split: if_splits)
  from Cons.IH [OF b [unfolded l1]] show ?case by simp
qed

lemma dispose_all_state:
  "block (map (\<lambda>mat. call T (Material_dispose mat)) mats) (e, s) = (r, (e', s')) \<Longrightarrow>
   e' = e \<and> (\<exists>tr. s' = s\<lparr>trace := trace s @ tr\<rparr>)"
proof (induction mats arbitrary: s)
  case Nil
  then have "s' = s\<lparr>trace := trace s @ []\<rparr>" "e' = e" by (simp_all add: skip_def)
  then show ?case by blast
next
  case (Cons mat mats)
  from Cons.prems
  have "seq (call T (Material_dispose mat))
          (block (map (\<lambda>mat. call T (Material_dispose mat)) mats)) (e, s) = (r, (e', s'))"
    by simp
  then show ?case
  proof (cases rule: seq_cases)
    case (threw err)
    then show ?thesis by (auto simp: call_apply split: if_splits)
  next
    case (went_on l1)
    from went_on(1) have l1: "l1 = (e, s\<lparr>trace := trace s @ [Material_dispose mat]\<rparr>)"
      by (auto simp: call_apply split: if_splits)
    from Cons.IH [OF went_on(2) [unfolded l1]] obtain tr where
      "e' = e" "s' = s\<lparr>trace := trace s @ Material_dispose mat # tr\<rparr>" by auto
    then show ?thesis by blast
  qed
qed

lemma dispose_material_success:
  "dispose_material T m (e, s) = (None, (e', s')) \<Longrightarrow>
   e' = e \<and> s' = s\<lparr>trace := trace s @ map Material_dispose (materials_of (mesh_material (meshes s m)))\<rparr>"
  unfolding dispose_material_def
  by (cases "mesh_material (meshes s m)")
     (auto simp: skip_def call_apply dest: dispose_all_success split: if_splits)

lemma dispose_material_state:
  "dispose_material T m (e, s) = (r, (e', s')) \<Longrightarrow> e' = e \<and> (\<exists>tr. s' = s\<lparr>trace := trace s @ tr\<rparr>)"
  unfolding dispose_material_def
proof (cases "mesh_material (meshes s m)")
  case NoMaterial
  assume "(case (e, s) of (e, s) \<Rightarrow>
      (case mesh_material (meshes s m) of
         NoMaterial \<Rightarrow> skip
       | Single mat \<Rightarrow> call T (Material_dispose mat)
       | Multi mats \<Rightarrow> block (map (\<lambda>mat. call T (Material_dispose mat)) mats)) (e, s))
     = (r, (e', s'))"
  with NoMaterial have "e' = e" "s' = s\<lparr>trace := trace s @ []\<rparr>" by (simp_all add: skip_def)
  then show ?thesis by blast
next
  case (Single mat)
  assume "(case (e, s) of (e, s) \<Rightarrow>
      (case mesh_material (meshes s m) of
         NoMaterial \<Rightarrow> skip
       | Single mat \<Rightarrow> call T (Material_dispose mat)
       | Multi mats \<Rightarrow> block (map (\<lambda>mat. call T (Material_dispose mat)) mats)) (e, s))
     = (r, (e', s'))"
  with Single show ?thesis by (auto simp: call_apply)
next
  case (Multi mats)
  assume "(case (e, s) of (e, s) \<Rightarrow>
      (case mesh_material (meshes s m) of
         NoMaterial \<Rightarrow> skip
       | Single mat \<Rightarrow> call T (Material_dispose mat)
       | Multi mats \<Rightarrow> block (map (\<lambda>mat. call T (Material_dispose mat)) mats)) (e, s))
     = (r, (e', s'))"
  with Multi show ?thesis by (auto dest: dispose_all_state)
qed

text \<open>\<open>_updateMeshMaterial\<close>: the new material is attached once every disposal has
  returned; if a call throws, the mesh keeps the material it had.\<close>

lemma updateMeshMaterial_result:
  assumes "updateMeshMaterial T m mc (e, s) = (r, (e', s'))"
  shows "e' = e \<and> mesh_geometry (meshes s' m) = mesh_geometry (meshes s m)
     \<and> (r = None \<longrightarrow>
          mesh_material (meshes s' m) = Single (createMaterial (Some mc))
          \<and> trace s' = trace s @ New_Material (createMaterial (Some mc))
               # map Material_dispose (materials_of (mesh_material (meshes s m))))
     \<and> (r \<noteq> None \<longrightarrow> mesh_material (meshes s' m) = mesh_material (meshes s m))"
proof -
  let ?new = "createMaterial (Some mc)"
  let ?s1 = "s\<lparr>trace := trace s @ [New_Material ?new]\<rparr>"
  from assms have run: "seq (call T (New_Material ?new))
      (seq (dispose_material T m)
         (on_state (upd_mesh m (\<lambda>obj. obj\<lparr>mesh_material := Single ?new\<rparr>)))) (e, s)
      = (r, (e', s'))"
    by (simp add: updateMeshMaterial_def Let_def seq_skip)
  then show ?thesis
  proof (cases rule: seq_cases)
    case (threw err)
    then show ?thesis by (auto simp: call_apply split: if_splits)
  next
    case (went_on l1)
    from went_on(1) have l1: "l1 = (e, ?s1)" by (auto simp: call_apply split: if_splits)
    from went_on(2) show ?thesis
    proof (cases rule: seq_cases)
      case (threw err)
      from dispose_material_state [OF threw(1) [unfolded l1]] threw(2)
      show ?thesis by auto
    next
      case (went_on l2)
      obtain e2 s2 where p: "l2 = (e2, s2)" by (cases l2)
      from dispose_material_success [OF went_on(1) [unfolded l1 p]]
      have l2: "l2 = (e, ?s1\<lparr>trace := trace ?s1
          @ map Material_dispose (materials_of (mesh_material (meshes ?s1 m)))\<rparr>)"
        by (simp add: p)
      from went_on(2) show ?thesis
        unfolding l2 by (auto simp: on_state_apply upd_mesh_def)
    qed
  qed
qed

text \<open>\<open>_updateMeshGeometry\<close>, likewise; a mesh without a geometry makes
  \<open>mesh.geometry.dispose()\<close> throw.\<close>

lemma updateMeshGeometry_result:
  assumes "updateMeshGeometry T m gc (e, s) = (r, (e', s'))"
  shows "e' = e \<and> mesh_material (meshes s' m) = mesh_material (meshes s m)
     \<and> (r = None \<longrightarrow>
          (\<exists>old. mesh_geometry (meshes s m) = Some old
             \<and> mesh_geometry (meshes s' m) = Some (createGeometry (Some gc))
             \<and> trace s' = trace s @ [New_Geometry (createGeometry (Some gc)),
                  Geometry_dispose old]))
     \<and> (r \<noteq> None \<longrightarrow> mesh_geometry (meshes s' m) = mesh_geometry (meshes s m))"
  using assms
  by (cases "mesh_geometry (meshes s m)")
     (auto simp: updateMeshGeometry_def dispose_geometry_def Let_def stmt_apply upd_mesh_def
        split: if_splits)

lemma update_material_if_needed_result:
  assumes "update_material_if_needed T m (e, s) = (r, (e', s'))"
  shows "c_geometry e' = c_geometry e \<and> the_mesh e' = the_mesh e
     \<and> mesh_geometry (meshes s' m) = mesh_geometry (meshes s m)
     \<and> (\<exists>tr. trace s' = trace s @ tr)
     \<and> (case c_material e of
           None \<Rightarrow> e' = e \<and> s' = s
         | Some mc \<Rightarrow>
             if mat_needsUpdate mc then
               (r = None \<longrightarrow>
                  c_material e' = Some (mc\<lparr>mat_needsUpdate := False\<rparr>)
                  \<and> mesh_material (meshes s' m) = Single (createMaterial (Some mc))
                  \<and> trace s' = trace s @ New_Material (createMaterial (Some mc))
                       # map Material_dispose (materials_of (mesh_material (meshes s m))))
               \<and> (r \<noteq> None \<longrightarrow>
                  c_material e' = c_material e
                  \<and> mesh_material (meshes s' m) = mesh_material (meshes s m))
             else e' = e \<and> s' = s)"
proof (cases "c_material e")
  case None
  with assms show ?thesis by (simp add: update_material_if_needed_def skip_def)
next
  case (Some mc)
  show ?thesis
  proof (cases "mat_needsUpdate mc")
    case False
    with assms Some show ?thesis by (simp add: update_material_if_needed_def skip_def)
  next
    case True
    let ?reset = "on_entity (\<lambda>e. e\<lparr>c_material :=
        map_option (\<lambda>c. c\<lparr>mat_needsUpdate := False\<rparr>) (c_material e)\<rparr>)"
    from assms Some True
    have "seq (updateMeshMaterial T m mc) ?reset (e, s) = (r, (e', s'))"
      by (simp add: update_material_if_needed_def seq_skip)
    then show ?thesis
    proof (cases rule: seq_cases)
      case (threw err)
      from updateMeshMaterial_result [OF threw(1)] threw(2) Some True
      have "e' = e" "mesh_geometry (meshes s' m) = mesh_geometry (meshes s m)"
        "mesh_material (meshes s' m) = mesh_material (meshes s m)" by simp_all
      moreover from establishesD [OF local_rel_updateMeshMaterial threw(1)]
      have "\<exists>tr. trace s' = trace s @ tr" by (auto simp: local_rel_def sys_rel_def)
      ultimately show ?thesis using Some True threw(2) by simp
    next
      case (went_on l1)
      obtain e1 s1 where l1: "l1 = (e1, s1)" by (cases l1)
      from updateMeshMaterial_result [OF went_on(1) [unfolded l1]]
      have u: "e1 = e" "mesh_geometry (meshes s1 m) = mesh_geometry (meshes s m)"
        "mesh_material (meshes s1 m) = Single (createMaterial (Some mc))"
        "trace s1 = trace s @ New_Material (createMaterial (Some mc))
           # map Material_dispose (materials_of (mesh_material (meshes s m)))" by simp_all
      from went_on(2) l1 u(1) Some
      have fin: "r = None" "s' = s1"
        "e' = e\<lparr>c_material := Some (mc\<lparr>mat_needsUpdate := False\<rparr>)\<rparr>"
        by (simp_all add: on_entity_apply)
      with u Some True show ?thesis by (simp add: the_mesh_def)
    qed
  qed
qed

lemma update_geometry_if_needed_result:
  assumes "update_geometry_if_needed T m (e, s) = (r, (e', s'))"
  shows "c_material e' = c_material e \<and> the_mesh e' = the_mesh e
     \<and> mesh_material (meshes s' m) = mesh_material (meshes s m)
     \<and> (\<exists>tr. trace s' = trace s @ tr)
     \<and> (case c_geometry e of
           None \<Rightarrow> e' = e \<and> s' = s
         | Some gc \<Rightarrow>
             if geo_needsUpdate gc then
               (r = None \<longrightarrow>
                  (\<exists>old. mesh_geometry (meshes s m) = Some old
                     \<and> c_geometry e' = Some (gc\<lparr>geo_needsUpdate := False\<rparr>)
                     \<and> mesh_geometry (meshes s' m) = Some (createGeometry (Some gc))
                     \<and> trace s' = trace s @ [New_Geometry (createGeometry (Some gc)),
                          Geometry_dispose old]))
               \<and> (r \<noteq> None \<longrightarrow>
                  c_geometry e' = c_geometry e
                  \<and> mesh_geometry (meshes s' m) = mesh_geometry (meshes s m))
             else e' = e \<and> s' = s)"
proof (cases "c_geometry e")
  case None
  with assms show ?thesis by (simp add: update_geometry_if_needed_def skip_def)
next
  case (Some gc)
  show ?thesis
  proof (cases "geo_needsUpdate gc")
    case False
    with assms Some show ?thesis by (simp add: update_geometry_if_needed_def skip_def)
  next
    case True
    let ?reset = "on_entity (\<lambda>e. e\<lparr>c_geometry :=
        map_option (\<lambda>c. c\<lparr>geo_needsUpdate := False\<rparr>) (c_geometry e)\<rparr>)"
    from assms Some True
    have "seq (updateMeshGeometry T m gc) ?reset (e, s) = (r, (e', s'))"
      by (simp add: update_geometry_if_needed_def seq_skip)
    then show ?thesis
    proof (cases rule: seq_cases)
      case (threw err)
      from updateMeshGeometry_result [OF threw(1)] threw(2) Some True
      have "e' = e" "mesh_geometry (meshes s' m) = mesh_geometry (meshes s m)"
        "mesh_material (meshes s' m) = mesh_material (meshes s m)" by simp_all
      moreover from establishesD [OF local_rel_updateMeshGeometry threw(1)]
      have "\<exists>tr. trace s' = trace s @ tr" by (auto simp: local_rel_def sys_rel_def)
      ultimately show ?thesis using Some True threw(2) by simp
    next
      case (went_on l1)
      obtain e1 s1 where l1: "l1 = (e1, s1)" by (cases l1)
      from updateMeshGeometry_result [OF went_on(1) [unfolded l1]]
      obtain old where u: "e1 = e" "mesh_material (meshes s1 m) = mesh_material (meshes s m)"
        "mesh_geometry (meshes s m) = Some old"
        "mesh_geometry (meshes s1 m) = Some (createGeometry (Some gc))"
        "trace s1 = trace s @ [New_Geometry (createGeometry (Some gc)), Geometry_dispose old]"
        by auto
      from went_on(2) l1 u(1) Some
      have fin: "r = None" "s' = s1"
        "e' = e\<lparr>c_geometry := Some (gc\<lparr>geo_needsUpdate := False\<rparr>)\<rparr>"
        by (simp_all add: on_entity_apply)
      with u Some True show ?thesis by (simp add: the_mesh_def)
    qed
  qed
qed

lemma updateMeshTransform_result:
  "updateMeshTransform T m t (e, s) = (r, (e', s')) \<Longrightarrow>
   e' = e \<and> mesh_material (meshes s' m) = mesh_material (meshes s m)
   \<and> mesh_geometry (meshes s' m) = mesh_geometry (meshes s m)
   \<and> (r = None \<longrightarrow> trace s' = trace s @ [Position_set (MeshObj m) (t_position t),
        Rotation_set (MeshObj m) (radians (t_rotation t)), Scale_set (MeshObj m) (t_scale t)])"
  by (auto simp: updateMeshTransform_def stmt_apply upd_mesh_def split: if_splits)

lemma block3_cases:
  assumes "block [a, b, c] l = (r, l')"
  obtains (first) err where "a l = (Some err, l')" "r = Some err"
        | (second) err l1 where "a l = (None, l1)" "b l1 = (Some err, l')" "r = Some err"
        | (third) l1 l2 where "a l = (None, l1)" "b l1 = (None, l2)" "c l2 = (r, l')"
proof -
  from assms have "seq a (seq b c) l = (r, l')" by (simp add: seq_skip)
  then show ?thesis
  proof (cases rule: seq_cases)
    case (threw err)
    then show ?thesis by (rule first)
  next
    case (went_on l1)
    from went_on(2) show ?thesis
    proof (cases rule: seq_cases)
      case (threw err)
      with went_on(1) show ?thesis by (rule second)
    next
      case inner: (went_on l2)
      with went_on(1) show ?thesis by (rule third)
    qed
  qed
qed



lemma createMesh_trace:
  "createMesh T (e, s) = (r, (e', s')) \<Longrightarrow> the_mesh e = None \<Longrightarrow> \<exists>pre. trace s' = trace s @ pre"
  by (drule local_rel_createMesh [rotated]) (auto simp: local_rel_def sys_rel_def)

text \<open>A completed run of the \<open>try\<close> body, seen from the state the step began in.\<close>

lemma processMeshEntity_try_start:
  assumes "processMeshEntity_try T t (e, s) = (None, l')" and "c_mesh e \<noteq> None"
  obtains m e1 s1 pre where
    "block [updateMeshTransform T m t, update_material_if_needed T m,
            update_geometry_if_needed T m] (e1, s1) = (None, l')"
    "the_mesh e1 = Some m" "c_material e1 = c_material e" "c_geometry e1 = c_geometry e"
    "trace s1 = trace s @ pre"
    "mesh_material (meshes s1 m) = attached_material e s"
    "mesh_geometry (meshes s1 m) = attached_geometry e s"
  using assms
proof (cases rule: processMeshEntity_try_success)
  case (1 m e1 s1)
  from 1(6) show ?thesis
  proof
    assume "the_mesh e = Some m \<and> e1 = e \<and> s1 = s"
    with that [of m e1 s1 "[]"] 1 show ?thesis
      by (simp add: attached_material_def attached_geometry_def)
  next
    assume new: "the_mesh e = None \<and> createMesh T (e, s) = (None, (e1, s1)) \<and> m = object3DId s"
    then obtain pre where "trace s1 = trace s @ pre"
      using createMesh_trace by blast
    with that [of m e1 s1 pre] 1 new createMesh_success [of T e s e1 s1] assms(2)
    show ?thesis
      by (simp add: attached_material_def attached_geometry_def)
  qed
qed





subsection \<open>Every selected entity is dealt with\<close>

lemma synced_mono: "synced r t calls tr \<Longrightarrow> synced r t calls (tr0 @ tr @ tr1)"
  by (auto simp: synced_def list_all_iff split: option.splits)

lemma mesh_handled_mono:
  "mesh_handled e cs tr \<Longrightarrow> mesh_handled e (cs0 @ cs @ cs1) (tr0 @ tr @ tr1)"
  by (auto simp: mesh_handled_def list_ex_iff dest: synced_mono)

lemma light_handled_mono:
  "light_handled e cs tr \<Longrightarrow> light_handled e (cs0 @ cs @ cs1) (tr0 @ tr @ tr1)"
  by (auto simp: light_handled_def list_ex_iff dest: synced_mono)

lemma camera_handled_mono:
  "camera_handled e cs tr \<Longrightarrow> camera_handled e (cs0 @ cs @ cs1) (tr0 @ tr @ tr1)"
  by (auto simp: camera_handled_def list_ex_iff dest: synced_mono)

lemma created_Some: "created n n' (Some m) r' \<Longrightarrow> r' = Some m"
  by (simp add: created_def)

lemma synced_ent_rel:
  "synced r t calls tr \<Longrightarrow> created n n' r r' \<Longrightarrow> synced r' t calls tr"
  by (auto simp: synced_def created_def split: option.splits)

lemma mesh_handled_ent_rel:
  "mesh_handled e cs tr \<Longrightarrow> ent_rel n n' e e' \<Longrightarrow> mesh_handled e' cs tr"
  by (auto simp: mesh_handled_def ent_rel_def dest: synced_ent_rel)

lemma light_handled_ent_rel:
  "light_handled e cs tr \<Longrightarrow> ent_rel n n' e e' \<Longrightarrow> light_handled e' cs tr"
  by (auto simp: light_handled_def ent_rel_def dest: synced_ent_rel)

lemma camera_handled_ent_rel:
  "camera_handled e cs tr \<Longrightarrow> ent_rel n n' e e' \<Longrightarrow> camera_handled e' cs tr"
  by (auto simp: camera_handled_def ent_rel_def dest: synced_ent_rel)

lemma existing_mesh_block_calls:
  assumes "block [updateMeshTransform T m t, update_material_if_needed T m,
             update_geometry_if_needed T m] (e, s) = (None, (e', s'))"
  shows "\<exists>post. trace s' = trace s @ mesh_calls m t @ post"
  using assms
proof (cases rule: block3_cases)
  case (third l1 l2)
  obtain e1 s1 where l1: "l1 = (e1, s1)" by (cases l1)
  obtain e2 s2 where l2: "l2 = (e2, s2)" by (cases l2)
  from updateMeshTransform_result [OF third(1) [unfolded l1]]
  have a: "trace s1 = trace s @ mesh_calls m t" by (simp add: mesh_calls_def)
  from update_material_if_needed_result [OF third(2) [unfolded l1 l2]]
  obtain mid where b: "trace s2 = trace s1 @ mid" by auto
  from update_geometry_if_needed_result [OF third(3) [unfolded l2]]
  obtain post where c: "trace s' = trace s2 @ post" by auto
  from a b c have "trace s' = trace s @ mesh_calls m t @ (mid @ post)" by simp
  then show ?thesis by blast
qed simp_all

lemma processMeshEntity_handled:
  assumes "processMeshEntity T (e, s) = (r, (e', s'))" "c_transform e = Some t" "c_mesh e \<noteq> None"
  shows "mesh_handled e' (new_console s s') (new_trace s s')"
proof -
  from establishesD [OF local_rel_processMeshEntity assms(1)]
  have rel: "ent_id e' = ent_id e" "c_transform e' = c_transform e"
    by (simp_all add: local_rel_def ent_rel_def)
  from processMeshEntity_outcome [OF assms]
  consider (ok) "console s' = console s" "processMeshEntity_try T t (e, s) = (None, (e', s'))"
    | (err) err where "console s' = console s @ [Error_mesh (ent_id e) err]"
    by blast
  then show ?thesis
  proof cases
    case ok
    from ok(2) assms(3) obtain m e1 s1 pre where st:
      "block [updateMeshTransform T m t, update_material_if_needed T m,
              update_geometry_if_needed T m] (e1, s1) = (None, (e', s'))"
      "the_mesh e1 = Some m" "trace s1 = trace s @ pre"
      by (rule processMeshEntity_try_start)
    from existing_mesh_block_calls [OF st(1)] obtain post where
      "trace s' = trace s1 @ mesh_calls m t @ post" ..
    with st(3) have "new_trace s s' = pre @ mesh_calls m t @ post"
      by (simp add: new_trace_def)
    moreover from existing_mesh_block_success [OF st(1,2)] have "the_mesh e' = Some m" by simp
    ultimately show ?thesis
      using rel assms(2) by (auto simp: mesh_handled_def synced_def list_all_iff)
  next
    case (err err)
    then have "new_console s s' = [Error_mesh (ent_id e) err]"
      by (simp add: new_console_def)
    with rel show ?thesis by (simp add: mesh_handled_def)
  qed
qed

lemma local_rel_trace: "local_rel (e, s) (e', s') \<Longrightarrow> \<exists>tr. trace s' = trace s @ tr"
  by (auto simp: local_rel_def sys_rel_def)

lemma existing_light_block_calls:
  assumes "block [updateLightTransform T l t, update_light_if_needed T] (e, s) = (None, (e', s'))"
    and "the_light e = Some l"
  shows "the_light e' = Some l \<and> (\<exists>post. trace s' = trace s @ light_calls l t @ post)"
proof -
  from assms(1) obtain l1 where
    a: "updateLightTransform T l t (e, s) = (None, l1)" and
    b: "update_light_if_needed T l1 = (None, (e', s'))"
    by (auto simp: seq_None seq_skip)
  obtain e1 s1 where l1: "l1 = (e1, s1)" by (cases l1)
  from updateLightTransform_success [OF a [unfolded l1]]
  have t1: "trace s1 = trace s @ light_calls l t" by (simp add: light_calls_def)
  from establishesD [OF local_rel_update_light_if_needed b [unfolded l1]]
  obtain post where "trace s' = trace s1 @ post" by (auto dest: local_rel_trace)
  with t1 existing_light_block_success [OF assms] show ?thesis by simp
qed

lemma processLightEntity_try_calls:
  assumes "processLightEntity_try T t (e, s) = (None, (e', s'))" and "c_light e \<noteq> None"
  shows "\<exists>l pre post. the_light e' = Some l \<and> trace s' = trace s @ pre @ light_calls l t @ post"
proof (cases "the_light e")
  case (Some l)
  with assms(1) existing_light_block_calls [of T l t e s e' s']
  obtain post where "the_light e' = Some l" "trace s' = trace s @ [] @ light_calls l t @ post"
    by (auto simp: processLightEntity_try_existing)
  then show ?thesis by blast
next
  case None
  with assms(2) obtain lc where lc: "c_light e = Some lc" "light lc = None"
    by (auto simp: the_light_def split: option.splits)
  with assms(1) obtain l1 where
    a: "createLight T lc (e, s) = (None, l1)" and
    b: "(\<lambda>(e, s). (case the_light e of
           None \<Rightarrow> skip
         | Some l \<Rightarrow> block [updateLightTransform T l t, update_light_if_needed T]) (e, s)) l1
        = (None, (e', s'))"
    by (auto simp: processLightEntity_try_null seq_None)
  obtain e1 s1 where l1: "l1 = (e1, s1)" by (cases l1)
  from createLight_success [OF a [unfolded l1] assms(2)]
  have c: "the_light e1 = Some (object3DId s)" by simp
  from local_rel_createLight [OF lc(2,1) a [unfolded l1]]
  obtain pre where pre: "trace s1 = trace s @ pre" by (auto dest: local_rel_trace)
  from b l1 c have "block [updateLightTransform T (object3DId s) t, update_light_if_needed T]
      (e1, s1) = (None, (e', s'))" by simp
  from existing_light_block_calls [OF this c] pre show ?thesis by auto
qed

lemma processLightEntity_handled:
  assumes "processLightEntity T (e, s) = (r, (e', s'))" "c_transform e = Some t" "c_light e \<noteq> None"
  shows "light_handled e' (new_console s s') (new_trace s s')"
proof -
  from establishesD [OF local_rel_processLightEntity assms(1)]
  have rel: "ent_id e' = ent_id e" "c_transform e' = c_transform e"
    by (simp_all add: local_rel_def ent_rel_def)
  from processLightEntity_outcome [OF assms]
  consider (ok) "console s' = console s" "processLightEntity_try T t (e, s) = (None, (e', s'))"
    | (err) err where "console s' = console s @ [Error_light (ent_id e) err]"
    by blast
  then show ?thesis
  proof cases
    case ok
    from processLightEntity_try_calls [OF ok(2) assms(3)] obtain l pre post where
      "the_light e' = Some l" "trace s' = trace s @ pre @ light_calls l t @ post" by blast
    then show ?thesis
      using rel assms(2)
      by (auto simp: light_handled_def synced_def list_all_iff new_trace_def)
  next
    case (err err)
    then have "new_console s s' = [Error_light (ent_id e) err]"
      by (simp add: new_console_def)
    with rel show ?thesis by (simp add: light_handled_def)
  qed
qed

lemma existing_camera_block_calls:
  assumes "block [updateCameraTransform T c t, on_state (\<lambda>s. s\<lparr>sys_camera := c\<rparr>)] (e, s)
             = (None, (e', s'))"
  shows "e' = e \<and> sys_camera s' = c \<and> trace s' = trace s @ camera_calls c t"
proof -
  from assms(1) obtain l1 where
    a: "updateCameraTransform T c t (e, s) = (None, l1)" and
    b: "on_state (\<lambda>s. s\<lparr>sys_camera := c\<rparr>) l1 = (None, (e', s'))"
    by (auto simp: seq_None seq_skip)
  obtain e1 s1 where l1: "l1 = (e1, s1)" by (cases l1)
  from updateCameraTransform_success [OF a [unfolded l1]] b l1
  show ?thesis by (auto simp: on_state_apply camera_calls_def)
qed

lemma processCameraEntity_try_calls:
  assumes "processCameraEntity_try T t (e, s) = (None, (e', s'))" and "c_camera e \<noteq> None"
  shows "\<exists>c pre. the_camera e' = Some c \<and> sys_camera s' = c
           \<and> trace s' = trace s @ pre @ camera_calls c t"
proof (cases "the_camera e")
  case (Some c)
  with assms(1) existing_camera_block_calls [of T c t e s e' s']
  have "the_camera e' = Some c" "sys_camera s' = c" "trace s' = trace s @ [] @ camera_calls c t"
    by (auto simp: processCameraEntity_try_existing)
  then show ?thesis by blast
next
  case None
  with assms(2) obtain cc where cc: "c_camera e = Some cc" "camera cc = None"
    by (auto simp: the_camera_def split: option.splits)
  with assms(1) obtain l1 where
    a: "createCamera T cc (e, s) = (None, l1)" and
    b: "(\<lambda>(e, s). (case the_camera e of
           None \<Rightarrow> skip
         | Some c \<Rightarrow> block [updateCameraTransform T c t, on_state (\<lambda>s. s\<lparr>sys_camera := c\<rparr>)])
          (e, s)) l1 = (None, (e', s'))"
    by (auto simp: processCameraEntity_try_null seq_None)
  obtain e1 s1 where l1: "l1 = (e1, s1)" by (cases l1)
  from createCamera_success [OF a [unfolded l1] assms(2)]
  have c: "the_camera e1 = Some (object3DId s)" by simp
  from local_rel_createCamera [OF cc(2,1) a [unfolded l1]]
  obtain pre where pre: "trace s1 = trace s @ pre" by (auto dest: local_rel_trace)
  from b l1 c have "block [updateCameraTransform T (object3DId s) t,
      on_state (\<lambda>x. x\<lparr>sys_camera := object3DId s\<rparr>)] (e1, s1) = (None, (e', s'))" by simp
  from existing_camera_block_calls [OF this] c pre show ?thesis by auto
qed

lemma processCameraEntity_handled:
  assumes "processCameraEntity T (e, s) = (r, (e', s'))" "c_transform e = Some t"
    "c_camera e \<noteq> None"
  shows "camera_handled e' (new_console s s') (new_trace s s')
     \<and> (list_ex (is_camera_error (ent_id e')) (new_console s s')
          \<or> (\<exists>c. the_camera e' = Some c \<and> sys_camera s' = c))"
proof -
  from establishesD [OF local_rel_processCameraEntity assms(1)]
  have rel: "ent_id e' = ent_id e" "c_transform e' = c_transform e"
    by (simp_all add: local_rel_def ent_rel_def)
  from processCameraEntity_outcome [OF assms]
  consider (ok) "console s' = console s" "processCameraEntity_try T t (e, s) = (None, (e', s'))"
    | (err) err where "console s' = console s @ [Error_camera (ent_id e) err]"
    by blast
  then show ?thesis
  proof cases
    case ok
    from processCameraEntity_try_calls [OF ok(2) assms(3)] obtain c pre where
      "the_camera e' = Some c" "sys_camera s' = c" "trace s' = trace s @ pre @ camera_calls c t"
      by blast
    then show ?thesis
      using rel assms(2)
      by (auto simp: camera_handled_def synced_def list_all_iff new_trace_def)
  next
    case (err err)
    then have "new_console s s' = [Error_camera (ent_id e) err]"
      by (simp add: new_console_def)
    with rel show ?thesis by (simp add: camera_handled_def)
  qed
qed

subsection \<open>Walks and passes\<close>

lemma sys_rel_new:
  assumes "sys_rel s s1" "sys_rel s1 s'"
  shows "new_console s s' = new_console s s1 @ new_console s1 s'"
    and "new_trace s s' = new_trace s s1 @ new_trace s1 s'"
  using assms by (auto simp: sys_rel_def new_console_def new_trace_def)

lemma walk_each:
  assumes rel: "establishes local_rel f" and nt: "never_throws f"
    and step: "\<And>e s r e' s'. f (e, s) = (r, (e', s')) \<Longrightarrow> p e \<Longrightarrow>
                 H e' (new_console s s') (new_trace s s')"
    and mono: "\<And>e cs tr cs0 cs1 tr0 tr1. H e cs tr \<Longrightarrow> H e (cs0 @ cs @ cs1) (tr0 @ tr @ tr1)"
  shows "distinct is \<Longrightarrow> \<forall>i\<in>set is. i < length es \<and> p (es ! i) \<Longrightarrow>
         walk f is (es, s) = (r, (es', s')) \<Longrightarrow>
         \<forall>i\<in>set is. H (es' ! i) (new_console s s') (new_trace s s')"
proof (induction "is" arbitrary: es s)
  case Nil
  then show ?case by simp
next
  case (Cons i "is")
  obtain r1 e1 s1 where f: "f (es ! i, s) = (r1, (e1, s1))"
    by (metis prod.exhaust)
  from nt f have "r1 = None" by (metis fst_conv never_throws_def)
  with f Cons.prems(3) have w: "walk f is (es[i := e1], s1) = (r, (es', s'))" by simp
  from establishesD [OF rel f] have s1: "sys_rel s s1" by (simp add: local_rel_def)
  from walk_rel [OF rel w] have s2: "sys_rel s1 s'" by simp
  note split = sys_rel_new [OF s1 s2]
  from Cons.prems have i: "i < length es" "p (es ! i)" "i \<notin> set is" "distinct is" by auto
  have here: "H (es' ! i) (new_console s s') (new_trace s s')"
  proof -
    from walk_untouched [OF w i(3)] i(1) have "es' ! i = e1" by simp
    moreover from step [OF f i(2)] have "H e1 (new_console s s1) (new_trace s s1)" .
    from mono [OF this, of "[]" "new_console s1 s'" "[]" "new_trace s1 s'"]
    have "H e1 (new_console s s') (new_trace s s')" by (simp add: split)
    ultimately show ?thesis by simp
  qed
  have "\<forall>j\<in>set is. j < length (es[i := e1]) \<and> p (es[i := e1] ! j)"
    using Cons.prems(2) i(3) by (auto simp: nth_list_update)
  from Cons.IH [OF i(4) this w]
  have "\<forall>j\<in>set is. H (es' ! j) (new_console s1 s') (new_trace s1 s')" .
  then have there: "\<forall>j\<in>set is. H (es' ! j) (new_console s s') (new_trace s s')"
    using mono [of _ "new_console s1 s'" "new_trace s1 s'" "new_console s s1" "[]"
        "new_trace s s1" "[]"]
    by (simp add: split)
  from here there show ?case by simp
qed

lemma walk_keeps:
  assumes "establishes (keeps (\<lambda>l. sel (fst l))) f"
  shows "walk f is (es, s) = (r, (es', s')) \<Longrightarrow> sel (es' ! j) = sel (es ! j)"
proof (induction "is" arbitrary: es s)
  case Nil
  then show ?case by simp
next
  case (Cons i "is")
  obtain r1 e1 s1 where f: "f (es ! i, s) = (r1, (e1, s1))"
    by (metis prod.exhaust)
  from keepsD [OF assms f] have e1: "sel e1 = sel (es ! i)" by simp
  have one: "sel (es[i := e1] ! j) = sel (es ! j)"
    using e1 by (cases "j = i"; cases "i < length es") (auto simp: list_update_beyond)
  show ?case
  proof (cases r1)
    case None
    with f Cons.prems have "walk f is (es[i := e1], s1) = (r, (es', s'))" by simp
    from Cons.IH [OF this] one show ?thesis by simp
  next
    case (Some err)
    with f Cons.prems have "es' = es[i := e1]" by auto
    with one show ?thesis by simp
  qed
qed

text \<open>A pass over the world, seen from outside: it returns no error, keeps the entities
  in place, relates each to what it was, and leaves alone those it did not select.\<close>

lemma in_world_run:
  assumes "in_world f s = (r, s')" "world s = Some w"
  obtains es' s1 where "f (entities w, s) = (r, (es', s1))"
    "s' = s1\<lparr>world := Some (w\<lparr>entities := es'\<rparr>)\<rparr>"
  using assms by (auto simp: in_world_def split: prod.splits)

lemma world_update_new [simp]:
  "new_console s (s1\<lparr>world := w\<rparr>) = new_console s s1"
  "new_trace s (s1\<lparr>world := w\<rparr>) = new_trace s s1"
  by (simp_all add: new_console_def new_trace_def)

lemma keeps_others_processMeshEntity:
  "establishes (keeps (\<lambda>l. (c_light (fst l), c_camera (fst l)))) (processMeshEntity T)"
  unfolding processMeshEntity_def processMeshEntity_try_def createMesh_def
    updateMeshTransform_def update_material_if_needed_def
    update_geometry_if_needed_def updateMeshMaterial_def updateMeshGeometry_def
    dispose_material_def dispose_geometry_def console_error_def Let_def
  by (auto split: option.splits mesh_material.splits
        intro!: keeps_seq keeps_skip keeps_throw keeps_call keeps_on_state keeps_on_entity
          keeps_block keeps_try_catch establishes_choice2)

lemma keeps_others_processLightEntity:
  "establishes (keeps (\<lambda>l. (c_mesh (fst l), c_material (fst l), c_geometry (fst l),
      c_camera (fst l)))) (processLightEntity T)"
  unfolding processLightEntity_def processLightEntity_try_def createLight_def
    updateLightTransform_def update_light_if_needed_def updateLightProperties_def
    console_error_def Let_def
  by (auto split: option.splits
        intro!: keeps_seq keeps_skip keeps_throw keeps_call keeps_on_state keeps_on_entity
          keeps_try_catch establishes_choice2)

lemma processMeshEntities_run:
  assumes "processMeshEntities T s = (r, s')" "world s = Some w"
  shows "r = None \<and> frame_rel s s'
     \<and> (\<exists>w'. world s' = Some w'
          \<and> (\<forall>i < length (entities w).
                (is_mesh_entity (entities w ! i) \<longrightarrow>
                   mesh_handled (entities w' ! i) (new_console s s') (new_trace s s'))
              \<and> (\<not> is_mesh_entity (entities w ! i) \<longrightarrow> entities w' ! i = entities w ! i)
              \<and> c_light (entities w' ! i) = c_light (entities w ! i)
              \<and> c_camera (entities w' ! i) = c_camera (entities w ! i)))"
proof -
  let ?is = "select is_mesh_entity (entities w)"
  from assms obtain es' s1 where
    w: "walk (processMeshEntity T) ?is (entities w, s) = (r, (es', s1))" and
    s': "s' = s1\<lparr>world := Some (w\<lparr>entities := es'\<rparr>)\<rparr>"
    unfolding processMeshEntities_def by (rule in_world_run) auto
  from walk_never_throws [OF never_throws_processMeshEntity, of T ?is "entities w" s] w
  have r: "r = None" by simp
  have fr: "frame_rel s s'"
    using establishesD [OF frame_rel_processMeshEntities assms(1)] .
  have step: "mesh_handled e' (new_console s s') (new_trace s s')"
    if "processMeshEntity T (e, s) = (r, (e', s'))" "is_mesh_entity e" for e s r e' s'
    using that processMeshEntity_handled [of T e s r e' s']
    by (auto simp: is_mesh_entity_def)
  have "\<forall>i\<in>set ?is. mesh_handled (es' ! i) (new_console s s1) (new_trace s s1)"
    by (rule walk_each [OF local_rel_processMeshEntity never_throws_processMeshEntity
          step mesh_handled_mono distinct_select _ w])
       (auto simp: select_iff)
  then have handled: "mesh_handled (es' ! i) (new_console s s') (new_trace s s')"
    if "i < length (entities w)" "is_mesh_entity (entities w ! i)" for i
    using that by (simp add: select_iff s')
  have untouched: "es' ! i = entities w ! i" if "\<not> is_mesh_entity (entities w ! i)" for i
    using walk_untouched [OF w, of i] that by (simp add: select_iff)
  from walk_keeps [OF keeps_others_processMeshEntity w]
  have kept: "c_light (es' ! i) = c_light (entities w ! i)
      \<and> c_camera (es' ! i) = c_camera (entities w ! i)" for i
    by simp
  show ?thesis
    using r fr handled untouched kept by (simp add: s')
qed

lemma processLightEntities_run:
  assumes "processLightEntities T s = (r, s')" "world s = Some w"
  shows "r = None \<and> frame_rel s s'
     \<and> (\<exists>w'. world s' = Some w'
          \<and> (\<forall>i < length (entities w).
                (is_light_entity (entities w ! i) \<longrightarrow>
                   light_handled (entities w' ! i) (new_console s s') (new_trace s s'))
              \<and> (\<not> is_light_entity (entities w ! i) \<longrightarrow> entities w' ! i = entities w ! i)
              \<and> c_mesh (entities w' ! i) = c_mesh (entities w ! i)
              \<and> c_camera (entities w' ! i) = c_camera (entities w ! i)))"
proof -
  let ?is = "select is_light_entity (entities w)"
  from assms obtain es' s1 where
    w: "walk (processLightEntity T) ?is (entities w, s) = (r, (es', s1))" and
    s': "s' = s1\<lparr>world := Some (w\<lparr>entities := es'\<rparr>)\<rparr>"
    unfolding processLightEntities_def by (rule in_world_run) auto
  from walk_never_throws [OF never_throws_processLightEntity, of T ?is "entities w" s] w
  have r: "r = None" by simp
  have fr: "frame_rel s s'"
    using establishesD [OF frame_rel_processLightEntities assms(1)] .
  have step: "light_handled e' (new_console s s') (new_trace s s')"
    if "processLightEntity T (e, s) = (r, (e', s'))" "is_light_entity e" for e s r e' s'
    using that processLightEntity_handled [of T e s r e' s']
    by (auto simp: is_light_entity_def)
  have "\<forall>i\<in>set ?is. light_handled (es' ! i) (new_console s s1) (new_trace s s1)"
    by (rule walk_each [OF local_rel_processLightEntity never_throws_processLightEntity
          step light_handled_mono distinct_select _ w])
       (auto simp: select_iff)
  then have handled: "light_handled (es' ! i) (new_console s s') (new_trace s s')"
    if "i < length (entities w)" "is_light_entity (entities w ! i)" for i
    using that by (simp add: select_iff s')
  have untouched: "es' ! i = entities w ! i" if "\<not> is_light_entity (entities w ! i)" for i
    using walk_untouched [OF w, of i] that by (simp add: select_iff)
  from walk_keeps [OF keeps_others_processLightEntity w]
  have kept: "c_mesh (es' ! i) = c_mesh (entities w ! i)
      \<and> c_camera (es' ! i) = c_camera (entities w ! i)" for i
    by simp
  show ?thesis
    using r fr handled untouched kept by (simp add: s')
qed

lemma first_camera_Some:
  "first_camera es = Some i \<Longrightarrow> i < length es \<and> is_camera_entity (es ! i)"
proof -
  assume "first_camera es = Some i"
  then obtain rest where "select is_camera_entity es = i # rest"
    by (auto simp: first_camera_def split: list.splits)
  then have "i \<in> set (select is_camera_entity es)" by simp
  then show ?thesis by (simp add: select_iff)
qed

lemma processCameraEntities_run:
  assumes "processCameraEntities T s = (r, s')" "world s = Some w"
  shows "r = None \<and> frame_rel s s'
     \<and> (\<exists>w'. world s' = Some w'
          \<and> (\<forall>i. first_camera (entities w) \<noteq> Some i \<longrightarrow> entities w' ! i = entities w ! i)
          \<and> (\<forall>i. first_camera (entities w) = Some i \<longrightarrow>
                camera_handled (entities w' ! i) (new_console s s') (new_trace s s')
                \<and> (list_ex (is_camera_error (ent_id (entities w' ! i))) (new_console s s')
                     \<or> (\<exists>c. the_camera (entities w' ! i) = Some c \<and> sys_camera s' = c))))"
proof -
  have fr: "frame_rel s s'"
    using establishesD [OF frame_rel_processCameraEntities assms(1)] .
  show ?thesis
  proof (cases "select is_camera_entity (entities w)")
    case Nil
    with assms have "r = None" "s' = s\<lparr>world := Some (w\<lparr>entities := entities w\<rparr>)\<rparr>"
      by (auto simp: processCameraEntities_def in_world_def)
    with Nil fr show ?thesis by (simp add: first_camera_def)
  next
    case (Cons i rest)
    then have fc: "first_camera (entities w) = Some i" by (simp add: first_camera_def)
    from first_camera_Some [OF fc] have i: "i < length (entities w)"
      "is_camera_entity (entities w ! i)" by simp_all
    from assms(1) [unfolded processCameraEntities_def] assms(2) obtain es' s1 where
      "(\<lambda>(es, s). case select is_camera_entity es of
            [] \<Rightarrow> (None, (es, s))
          | i # _ \<Rightarrow> walk (processCameraEntity T) [i] (es, s)) (entities w, s)
         = (r, (es', s1))" and
      s': "s' = s1\<lparr>world := Some (w\<lparr>entities := es'\<rparr>)\<rparr>"
      by (rule in_world_run)
    with Cons have w: "walk (processCameraEntity T) [i] (entities w, s) = (r, (es', s1))"
      by simp
    from walk_never_throws [OF never_throws_processCameraEntity, of T "[i]" "entities w" s] w
    have r: "r = None" by simp
    obtain r1 e1 s2 where f: "processCameraEntity T (entities w ! i, s) = (r1, (e1, s2))"
      by (metis prod.exhaust)
    with w have res: "es' = (entities w)[i := e1]" "s1 = s2"
      by (auto split: option.splits)
    from i(2) obtain t where t: "c_transform (entities w ! i) = Some t"
      "c_camera (entities w ! i) \<noteq> None"
      by (auto simp: is_camera_entity_def)
    from processCameraEntity_handled [OF f t] res i(1)
    have h: "camera_handled (es' ! i) (new_console s s') (new_trace s s')"
      "list_ex (is_camera_error (ent_id (es' ! i))) (new_console s s')
         \<or> (\<exists>c. the_camera (es' ! i) = Some c \<and> sys_camera s' = c)"
      by (simp_all add: s')
    have "es' ! j = entities w ! j" if "j \<noteq> i" for j
      using that res by simp
    with r fr h fc show ?thesis by (simp add: s')
  qed
qed

lemma ent_rel_selected:
  assumes "ent_rel n n' e e'"
  shows "is_mesh_entity e' = is_mesh_entity e" "is_light_entity e' = is_light_entity e"
    "is_camera_entity e' = is_camera_entity e"
  using assms by (auto simp: ent_rel_def is_mesh_entity_def is_light_entity_def
      is_camera_entity_def)

lemma select_cong:
  "length es' = length es \<Longrightarrow> (\<And>i. i < length es \<Longrightarrow> p (es' ! i) = p (es ! i)) \<Longrightarrow>
   select p es' = select p es"
  unfolding select_def by (auto intro: filter_cong)

lemma frame_rel_world:
  assumes "frame_rel s s'" "world s = Some w"
  obtains w' where "world s' = Some w'" "length (entities w') = length (entities w)"
    "\<And>j. ent_rel (object3DId s) (object3DId s') (entities w ! j) (entities w' ! j)"
    "first_camera (entities w') = first_camera (entities w)"
proof -
  from assms obtain w' where w': "world s' = Some w'"
    "length (entities w') = length (entities w)"
    "\<And>j. ent_rel (object3DId s) (object3DId s') (entities w ! j) (entities w' ! j)"
    by (auto simp: frame_rel_def)
  have "select is_camera_entity (entities w') = select is_camera_entity (entities w)"
    by (rule select_cong [OF w'(2)]) (rule ent_rel_selected [OF w'(3)])
  then have "first_camera (entities w') = first_camera (entities w)"
    by (simp add: first_camera_def)
  with w' that show ?thesis by blast
qed

lemma frame_rel_sys: "frame_rel s s' \<Longrightarrow> sys_rel s s'"
  by (simp add: frame_rel_def)

text \<open>The course of a frame: the counter, the three passes, none of which lets an error
  out, and the rendering, whose error, if it throws, is logged and thrown on.\<close>

lemma update_run:
  assumes "update T s = (r, s')" "isInitialized s" "world s \<noteq> None"
  obtains s2 s3 s4 s5 where
    "processMeshEntities T (s\<lparr>frameCount := frameCount s + 1\<rparr>) = (None, s2)"
    "processLightEntities T s2 = (None, s3)"
    "processCameraEntities T s3 = (None, s4)"
    "render T s4 = (r, s5)"
    "r = None \<and> s' = s5 \<or> (\<exists>err. r = Some err \<and> s' = s5\<lparr>console := console s5 @ [Error_update err]\<rparr>)"
proof -
  let ?s1 = "s\<lparr>frameCount := frameCount s + 1\<rparr>"
  from assms(3) obtain w where w: "world s = Some w" by auto
  obtain r2 s2 where m: "processMeshEntities T ?s1 = (r2, s2)" by (metis prod.exhaust)
  from processMeshEntities_run [OF m] w have r2: "r2 = None" and f2: "frame_rel ?s1 s2" by simp_all
  from f2 w obtain w2 where w2: "world s2 = Some w2" by (auto simp: frame_rel_def)
  obtain r3 s3 where l: "processLightEntities T s2 = (r3, s3)" by (metis prod.exhaust)
  from processLightEntities_run [OF l w2] have r3: "r3 = None" and f3: "frame_rel s2 s3"
    by simp_all
  from f3 w2 obtain w3 where w3: "world s3 = Some w3" by (auto simp: frame_rel_def)
  obtain r4 s4 where c: "processCameraEntities T s3 = (r4, s4)" by (metis prod.exhaust)
  from processCameraEntities_run [OF c w3] have r4: "r4 = None" by simp
  obtain r5 s5 where rn: "render T s4 = (r5, s5)" by (metis prod.exhaust)
  have body: "update_try T s = (r5, s5)"
    using m l c rn r2 r3 r4
    by (simp add: update_try_def seq_def assign_def skip_def split: option.splits)
  from assms body have "r = r5"
    "r5 = None \<and> s' = s5 \<or> (\<exists>err. r5 = Some err \<and> s' = s5\<lparr>console := console s5 @ [Error_update err]\<rparr>)"
    by (auto simp: update_def try_catch_def seq_def assign_def throw_def split: option.splits)
  with that [of s2 s3 s4 s5] m l c rn r2 r3 r4 show ?thesis by simp
qed

lemma handled_in_frame:
  assumes mono: "\<And>e cs tr cs0 cs1 tr0 tr1. H e cs tr \<Longrightarrow> H e (cs0 @ cs @ cs1) (tr0 @ tr @ tr1)"
    and "sys_rel s sa" "sys_rel sa sb" "sys_rel sb s'"
    and "H e (new_console sa sb) (new_trace sa sb)"
  shows "H e (new_console s s') (new_trace s s')"
proof -
  from assms(2,3) have "sys_rel s sb" by (rule sys_rel_trans)
  from sys_rel_new [OF this assms(4)] sys_rel_new [OF assms(2,3)]
  have "new_console s s' = new_console s sa @ new_console sa sb @ new_console sb s'"
    "new_trace s s' = new_trace s sa @ new_trace sa sb @ new_trace sb s'"
    by simp_all
  with mono [OF assms(5)] show ?thesis by simp
qed

lemma mesh_handled_in_frame:
  "sys_rel s sa \<Longrightarrow> sys_rel sa sb \<Longrightarrow> sys_rel sb s' \<Longrightarrow>
   mesh_handled e (new_console sa sb) (new_trace sa sb) \<Longrightarrow>
   mesh_handled e (new_console s s') (new_trace s s')"
  using handled_in_frame [where H = mesh_handled] mesh_handled_mono by blast

lemma light_handled_in_frame:
  "sys_rel s sa \<Longrightarrow> sys_rel sa sb \<Longrightarrow> sys_rel sb s' \<Longrightarrow>
   light_handled e (new_console sa sb) (new_trace sa sb) \<Longrightarrow>
   light_handled e (new_console s s') (new_trace s s')"
  using handled_in_frame [where H = light_handled] light_handled_mono by blast

lemma camera_handled_in_frame:
  "sys_rel s sa \<Longrightarrow> sys_rel sa sb \<Longrightarrow> sys_rel sb s' \<Longrightarrow>
   camera_handled e (new_console sa sb) (new_trace sa sb) \<Longrightarrow>
   camera_handled e (new_console s s') (new_trace s s')"
  using handled_in_frame [where H = camera_handled] camera_handled_mono by blast

lemma list_ex_in_frame:
  assumes "sys_rel s sa" "sys_rel sa sb" "sys_rel sb s'" "list_ex P (new_console sa sb)"
  shows "list_ex P (new_console s s')"
proof -
  from assms(1,2) have "sys_rel s sb" by (rule sys_rel_trans)
  from sys_rel_new(1) [OF this assms(3)] sys_rel_new(1) [OF assms(1,2)] assms(4)
  show ?thesis by (auto simp: list_ex_iff)
qed

lemma render_run:
  "render T s = (r, s') \<Longrightarrow>
   s' = s\<lparr>trace := trace s @ [Renderer_render (scene s) (sys_camera s)]\<rparr>
   \<and> (r = None \<or> r = Some (Thrown (Renderer_render (scene s) (sys_camera s))))"
  by (auto simp: render_def three_def split: if_splits)

lemma sys_rel_frameCount: "sys_rel s (s\<lparr>frameCount := n\<rparr>)"
  by (simp add: sys_rel_def fresh_adds_def)

lemma sys_rel_console: "sys_rel s (s\<lparr>console := console s @ cs\<rparr>)"
  by (simp add: sys_rel_def fresh_adds_def)

text \<open>What a frame does to the world it runs on.\<close>

lemma update_frame:
  assumes run: "update T s = (r, s')" and init: "isInitialized s" and w: "world s = Some w"
  shows "\<exists>w'. world s' = Some w' \<and> length (entities w') = length (entities w)
     \<and> (\<forall>i < length (entities w).
           (is_mesh_entity (entities w ! i) \<longrightarrow>
              mesh_handled (entities w' ! i) (new_console s s') (new_trace s s'))
         \<and> (is_light_entity (entities w ! i) \<longrightarrow>
              light_handled (entities w' ! i) (new_console s s') (new_trace s s'))
         \<and> (first_camera (entities w) = Some i \<longrightarrow>
              camera_handled (entities w' ! i) (new_console s s') (new_trace s s')
              \<and> (list_ex (is_camera_error (ent_id (entities w' ! i))) (new_console s s')
                   \<or> (\<exists>c. the_camera (entities w' ! i) = Some c \<and> sys_camera s' = c)))
         \<and> (first_camera (entities w) \<noteq> Some i \<longrightarrow>
              c_camera (entities w' ! i) = c_camera (entities w ! i))
         \<and> (\<not> is_mesh_entity (entities w ! i) \<and> \<not> is_light_entity (entities w ! i)
              \<and> first_camera (entities w) \<noteq> Some i \<longrightarrow>
              entities w' ! i = entities w ! i))
     \<and> (r = None \<or> r = Some (Thrown (Renderer_render (scene s') (sys_camera s'))))"
proof -
  let ?s1 = "s\<lparr>frameCount := frameCount s + 1\<rparr>"
  from w have "world s \<noteq> None" by simp
  from run init this obtain s2 s3 s4 s5 where
    pm: "processMeshEntities T ?s1 = (None, s2)" and
    pl: "processLightEntities T s2 = (None, s3)" and
    pc: "processCameraEntities T s3 = (None, s4)" and
    rn: "render T s4 = (r, s5)" and
    fin: "r = None \<and> s' = s5
          \<or> (\<exists>err. r = Some err \<and> s' = s5\<lparr>console := console s5 @ [Error_update err]\<rparr>)"
    by (rule update_run)
  have w1: "world ?s1 = Some w" using w by simp
  note M = processMeshEntities_run [OF pm w1]
  then have f12: "frame_rel ?s1 s2" by simp
  from f12 w1 obtain w2 where w2: "world s2 = Some w2"
    "length (entities w2) = length (entities w)"
    "\<And>j. ent_rel (object3DId ?s1) (object3DId s2) (entities w ! j) (entities w2 ! j)"
    "first_camera (entities w2) = first_camera (entities w)"
    by (rule frame_rel_world) blast
  note L = processLightEntities_run [OF pl w2(1)]
  then have f23: "frame_rel s2 s3" by simp
  from f23 w2(1) obtain w3 where w3: "world s3 = Some w3"
    "length (entities w3) = length (entities w2)"
    "\<And>j. ent_rel (object3DId s2) (object3DId s3) (entities w2 ! j) (entities w3 ! j)"
    "first_camera (entities w3) = first_camera (entities w2)"
    by (rule frame_rel_world) blast
  note C = processCameraEntities_run [OF pc w3(1)]
  then have f34: "frame_rel s3 s4" by simp
  from f34 w3(1) obtain w4 where w4: "world s4 = Some w4"
    "length (entities w4) = length (entities w3)"
    "\<And>j. ent_rel (object3DId s3) (object3DId s4) (entities w3 ! j) (entities w4 ! j)"
    by (rule frame_rel_world) blast
  note R = render_run [OF rn]
  have rel01: "sys_rel s ?s1" by (rule sys_rel_frameCount)
  have rel12: "sys_rel ?s1 s2" and rel23: "sys_rel s2 s3" and rel34: "sys_rel s3 s4"
    using f12 f23 f34 by (simp_all add: frame_rel_sys)
  have rel45: "sys_rel s4 s5"
    using establishesD [OF frame_rel_render rn] by (rule frame_rel_sys)
  have rel5: "sys_rel s5 s'"
    using fin sys_rel_refl sys_rel_console by auto
  have rel4: "sys_rel s4 s'" using rel45 rel5 by (rule sys_rel_trans)
  have rel3: "sys_rel s3 s'" using rel34 rel4 by (rule sys_rel_trans)
  have rel2: "sys_rel s2 s'" using rel23 rel3 by (rule sys_rel_trans)
  have rel02: "sys_rel s s2" using rel01 rel12 by (rule sys_rel_trans)
  have rel03: "sys_rel s s3" using rel02 rel23 by (rule sys_rel_trans)
  have final: "world s' = Some w4" "sys_camera s' = sys_camera s4" "scene s' = scene s4"
    using fin R w4(1) by auto
  have len: "length (entities w4) = length (entities w)"
    using w2(2) w3(2) w4(2) by simp
  have e24: "ent_rel (object3DId s2) (object3DId s4) (entities w2 ! j) (entities w4 ! j)" for j
    using ent_rel_trans [OF w3(3) w4(3) sys_rel_mono [OF rel23] order_refl sys_rel_mono [OF rel34]] .
  have res: "r = None \<or> r = Some (Thrown (Renderer_render (scene s') (sys_camera s')))"
    using R final by auto
  have per: "(is_mesh_entity (entities w ! i) \<longrightarrow>
              mesh_handled (entities w4 ! i) (new_console s s') (new_trace s s'))
         \<and> (is_light_entity (entities w ! i) \<longrightarrow>
              light_handled (entities w4 ! i) (new_console s s') (new_trace s s'))
         \<and> (first_camera (entities w) = Some i \<longrightarrow>
              camera_handled (entities w4 ! i) (new_console s s') (new_trace s s')
              \<and> (list_ex (is_camera_error (ent_id (entities w4 ! i))) (new_console s s')
                   \<or> (\<exists>c. the_camera (entities w4 ! i) = Some c \<and> sys_camera s' = c)))
         \<and> (first_camera (entities w) \<noteq> Some i \<longrightarrow>
              c_camera (entities w4 ! i) = c_camera (entities w ! i))
         \<and> (\<not> is_mesh_entity (entities w ! i) \<and> \<not> is_light_entity (entities w ! i)
              \<and> first_camera (entities w) \<noteq> Some i \<longrightarrow>
              entities w4 ! i = entities w ! i)"
    if i: "i < length (entities w)" for i
  proof (intro conjI impI)
    assume sel: "is_mesh_entity (entities w ! i)"
    with M w2(1) i have "mesh_handled (entities w2 ! i) (new_console ?s1 s2) (new_trace ?s1 s2)"
      by auto
    then have "mesh_handled (entities w4 ! i) (new_console ?s1 s2) (new_trace ?s1 s2)"
      using e24 by (rule mesh_handled_ent_rel)
    then show "mesh_handled (entities w4 ! i) (new_console s s') (new_trace s s')"
      by (rule mesh_handled_in_frame [OF rel01 rel12 rel2])
  next
    assume sel: "is_light_entity (entities w ! i)"
    then have "is_light_entity (entities w2 ! i)"
      using ent_rel_selected(2) [OF w2(3)] by simp
    with L w3(1) i w2(2)
    have "light_handled (entities w3 ! i) (new_console s2 s3) (new_trace s2 s3)"
      by auto
    then have "light_handled (entities w4 ! i) (new_console s2 s3) (new_trace s2 s3)"
      using w4(3) by (rule light_handled_ent_rel)
    then show "light_handled (entities w4 ! i) (new_console s s') (new_trace s s')"
      by (rule light_handled_in_frame [OF rel02 rel23 rel3])
  next
    assume fc: "first_camera (entities w) = Some i"
    then have "first_camera (entities w3) = Some i" using w2(4) w3(4) by simp
    with C w4(1) have c: "camera_handled (entities w4 ! i) (new_console s3 s4) (new_trace s3 s4)"
      "list_ex (is_camera_error (ent_id (entities w4 ! i))) (new_console s3 s4)
         \<or> (\<exists>c. the_camera (entities w4 ! i) = Some c \<and> sys_camera s4 = c)"
      by auto
    from c(1)
    show "camera_handled (entities w4 ! i) (new_console s s') (new_trace s s')"
      by (rule camera_handled_in_frame [OF rel03 rel34 rel4])
    from c(2)
    show "list_ex (is_camera_error (ent_id (entities w4 ! i))) (new_console s s')
         \<or> (\<exists>c. the_camera (entities w4 ! i) = Some c \<and> sys_camera s' = c)"
      using list_ex_in_frame [OF rel03 rel34 rel4] final(2) by auto
  next
    assume fc: "first_camera (entities w) \<noteq> Some i"
    then have "first_camera (entities w3) \<noteq> Some i" using w2(4) w3(4) by simp
    with C w4(1) have "entities w4 ! i = entities w3 ! i" by auto
    moreover from L w3(1) i w2(2)
    have "c_camera (entities w3 ! i) = c_camera (entities w2 ! i)" by auto
    moreover from M w2(1) i
    have "c_camera (entities w2 ! i) = c_camera (entities w ! i)" by auto
    ultimately show "c_camera (entities w4 ! i) = c_camera (entities w ! i)" by simp
  next
    assume none: "\<not> is_mesh_entity (entities w ! i) \<and> \<not> is_light_entity (entities w ! i)
        \<and> first_camera (entities w) \<noteq> Some i"
    with M w2(1) i have a: "entities w2 ! i = entities w ! i" by auto
    with none have "\<not> is_light_entity (entities w2 ! i)" by simp
    with L w3(1) i w2(2) have b: "entities w3 ! i = entities w2 ! i" by auto
    from none have "first_camera (entities w3) \<noteq> Some i" using w2(4) w3(4) by simp
    with C w4(1) have "entities w4 ! i = entities w3 ! i" by auto
    with a b show "entities w4 ! i = entities w ! i" by simp
  qed
  show ?thesis
    using final(1) len per res by blast
qed

subsection \<open>Errors, selection and the camera of a frame\<close>

lemma processMeshEntity_caught:
  "c_transform e = Some t \<Longrightarrow> c_mesh e \<noteq> None \<Longrightarrow>
   processMeshEntity_try T t (e, s) = (Some err, (e1, s1)) \<Longrightarrow>
   processMeshEntity T (e, s)
     = (None, (e1, s1\<lparr>console := console s1 @ [Error_mesh (ent_id e) err]\<rparr>))"
  by (auto simp: processMeshEntity_apply try_catch_def console_error_apply)

lemma processLightEntity_caught:
  "c_transform e = Some t \<Longrightarrow> c_light e \<noteq> None \<Longrightarrow>
   processLightEntity_try T t (e, s) = (Some err, (e1, s1)) \<Longrightarrow>
   processLightEntity T (e, s)
     = (None, (e1, s1\<lparr>console := console s1 @ [Error_light (ent_id e) err]\<rparr>))"
  by (auto simp: processLightEntity_apply try_catch_def console_error_apply)

lemma processCameraEntity_caught:
  "c_transform e = Some t \<Longrightarrow> c_camera e \<noteq> None \<Longrightarrow>
   processCameraEntity_try T t (e, s) = (Some err, (e1, s1)) \<Longrightarrow>
   processCameraEntity T (e, s)
     = (None, (e1, s1\<lparr>console := console s1 @ [Error_camera (ent_id e) err]\<rparr>))"
  by (auto simp: processCameraEntity_apply try_catch_def console_error_apply)

text \<open>
  C3. Whatever the calls into Three.js throw: the step for one entity never lets an
  error out, and an error thrown in its \<open>try\<close> body is logged with the entity's
  identifier. So the walk of a frame is never cut short: after \<open>update\<close> every mesh
  entity and every light entity of the world, and the first camera entity, has either
  its error in the console entries of this frame or its transform calls among the calls
  of this frame. The only error \<open>update\<close> lets out is one thrown by the final
  \<open>renderer.render\<close>.
\<close>

theorem errors_contained_per_entity:
  assumes "update T s = (r, s')" and "isInitialized s" and "world s = Some w"
  shows "\<exists>w'. world s' = Some w' \<and> length (entities w') = length (entities w)
     \<and> (\<forall>i < length (entities w).
           (is_mesh_entity (entities w ! i) \<longrightarrow>
              mesh_handled (entities w' ! i) (new_console s s') (new_trace s s'))
         \<and> (is_light_entity (entities w ! i) \<longrightarrow>
              light_handled (entities w' ! i) (new_console s s') (new_trace s s'))
         \<and> (first_camera (entities w) = Some i \<longrightarrow>
              camera_handled (entities w' ! i) (new_console s s') (new_trace s s')))
     \<and> (r = None \<or> r = Some (Thrown (Renderer_render (scene s') (sys_camera s'))))
     \<and> never_throws (processMeshEntity T) \<and> never_throws (processLightEntity T)
     \<and> never_throws (processCameraEntity T)
     \<and> (\<forall>e st t err e1 s1.
           c_transform e = Some t \<and> c_mesh e \<noteq> None
           \<and> processMeshEntity_try T t (e, st) = (Some err, (e1, s1)) \<longrightarrow>
           processMeshEntity T (e, st)
             = (None, (e1, s1\<lparr>console := console s1 @ [Error_mesh (ent_id e) err]\<rparr>)))
     \<and> (\<forall>e st t err e1 s1.
           c_transform e = Some t \<and> c_light e \<noteq> None
           \<and> processLightEntity_try T t (e, st) = (Some err, (e1, s1)) \<longrightarrow>
           processLightEntity T (e, st)
             = (None, (e1, s1\<lparr>console := console s1 @ [Error_light (ent_id e) err]\<rparr>)))
     \<and> (\<forall>e st t err e1 s1.
           c_transform e = Some t \<and> c_camera e \<noteq> None
           \<and> processCameraEntity_try T t (e, st) = (Some err, (e1, s1)) \<longrightarrow>
           processCameraEntity T (e, st)
             = (None, (e1, s1\<lparr>console := console s1 @ [Error_camera (ent_id e) err]\<rparr>)))"
proof -
  from update_frame [OF assms] obtain w' where fr: "world s' = Some w'"
    "length (entities w') = length (entities w)"
    "\<forall>i < length (entities w).
           (is_mesh_entity (entities w ! i) \<longrightarrow>
              mesh_handled (entities w' ! i) (new_console s s') (new_trace s s'))
         \<and> (is_light_entity (entities w ! i) \<longrightarrow>
              light_handled (entities w' ! i) (new_console s s') (new_trace s s'))
         \<and> (first_camera (entities w) = Some i \<longrightarrow>
              camera_handled (entities w' ! i) (new_console s s') (new_trace s s'))"
    "r = None \<or> r = Some (Thrown (Renderer_render (scene s') (sys_camera s')))"
    by blast
  have caught: "\<forall>e st t err e1 s1.
           c_transform e = Some t \<and> c_mesh e \<noteq> None
           \<and> processMeshEntity_try T t (e, st) = (Some err, (e1, s1)) \<longrightarrow>
           processMeshEntity T (e, st)
             = (None, (e1, s1\<lparr>console := console s1 @ [Error_mesh (ent_id e) err]\<rparr>))"
    "\<forall>e st t err e1 s1.
           c_transform e = Some t \<and> c_light e \<noteq> None
           \<and> processLightEntity_try T t (e, st) = (Some err, (e1, s1)) \<longrightarrow>
           processLightEntity T (e, st)
             = (None, (e1, s1\<lparr>console := console s1 @ [Error_light (ent_id e) err]\<rparr>))"
    "\<forall>e st t err e1 s1.
           c_transform e = Some t \<and> c_camera e \<noteq> None
           \<and> processCameraEntity_try T t (e, st) = (Some err, (e1, s1)) \<longrightarrow>
           processCameraEntity T (e, st)
             = (None, (e1, s1\<lparr>console := console s1 @ [Error_camera (ent_id e) err]\<rparr>))"
    by (intro allI impI, elim conjE, erule (2) processMeshEntity_caught,
        intro allI impI, elim conjE, erule (2) processLightEntity_caught,
        intro allI impI, elim conjE, erule (2) processCameraEntity_caught)
  show ?thesis
    apply (rule exI [of _ w'])
    apply (intro conjI)
            apply (rule fr(1))
           apply (rule fr(2))
          apply (rule fr(3))
         apply (rule fr(4))
        apply (rule never_throws_processMeshEntity)
       apply (rule never_throws_processLightEntity)
      apply (rule never_throws_processCameraEntity)
     apply (rule caught(1))
    apply (rule caught(2))
    apply (rule caught(3))
    done
qed

text \<open>
  C5, as amended. A frame deals with exactly these entities: in the mesh pass and in
  the light pass, every entity that is active and holds a TransformComponent and a
  ThreeMeshComponent, respectively a ThreeLightComponent; in the camera pass, of the
  entities that are active and hold a TransformComponent and a ThreeCameraComponent, the
  first in the order of the world only. Every other entity is after the frame exactly
  what it was before.
\<close>

theorem frame_processes_selected_entities:
  assumes "update T s = (r, s')" and "isInitialized s" and "world s = Some w"
  shows "\<exists>w'. world s' = Some w' \<and> length (entities w') = length (entities w)
     \<and> (\<forall>i < length (entities w).
           (is_mesh_entity (entities w ! i) \<longrightarrow>
              mesh_handled (entities w' ! i) (new_console s s') (new_trace s s'))
         \<and> (is_light_entity (entities w ! i) \<longrightarrow>
              light_handled (entities w' ! i) (new_console s s') (new_trace s s'))
         \<and> (first_camera (entities w) = Some i \<longrightarrow>
              camera_handled (entities w' ! i) (new_console s s') (new_trace s s'))
         \<and> (\<not> is_mesh_entity (entities w ! i) \<and> \<not> is_light_entity (entities w ! i)
              \<and> first_camera (entities w) \<noteq> Some i \<longrightarrow>
              entities w' ! i = entities w ! i))"
  using update_frame [OF assms] by blast

text \<open>
  C8, as amended. Of the active entities that hold a TransformComponent and a
  ThreeCameraComponent, the camera pass of a frame processes the first in the order of
  the world only: unless an error is caught while it is processed, its camera exists
  after the frame, made in this frame if the reference was null, and is the camera
  the system renders with. The ThreeCameraComponent of every other entity is after the
  frame what it was before (a null camera reference stays null), and such an entity is
  changed by the frame only if it is a mesh entity or a light entity as well.
\<close>

theorem first_camera_entity_is_used:
  assumes "update T s = (r, s')" and "isInitialized s" and "world s = Some w"
    and "first_camera (entities w) = Some i"
  shows "\<exists>w'. world s' = Some w'
     \<and> camera_handled (entities w' ! i) (new_console s s') (new_trace s s')
     \<and> (\<not> list_ex (is_camera_error (ent_id (entities w' ! i))) (new_console s s') \<longrightarrow>
          (\<exists>c. the_camera (entities w' ! i) = Some c \<and> sys_camera s' = c
             \<and> created (object3DId s) (object3DId s') (the_camera (entities w ! i)) (Some c)))
     \<and> (\<forall>j < length (entities w). j \<noteq> i \<longrightarrow>
           c_camera (entities w' ! j) = c_camera (entities w ! j)
           \<and> (\<not> is_mesh_entity (entities w ! j) \<and> \<not> is_light_entity (entities w ! j) \<longrightarrow>
                entities w' ! j = entities w ! j))"
proof -
  from first_camera_Some [OF assms(4)] have i: "i < length (entities w)" by simp
  from update_frame [OF assms(1-3)] obtain w' where fr: "world s' = Some w'"
    "\<forall>i < length (entities w).
           (first_camera (entities w) = Some i \<longrightarrow>
              camera_handled (entities w' ! i) (new_console s s') (new_trace s s')
              \<and> (list_ex (is_camera_error (ent_id (entities w' ! i))) (new_console s s')
                   \<or> (\<exists>c. the_camera (entities w' ! i) = Some c \<and> sys_camera s' = c)))
         \<and> (first_camera (entities w) \<noteq> Some i \<longrightarrow>
              c_camera (entities w' ! i) = c_camera (entities w ! i))
         \<and> (\<not> is_mesh_entity (entities w ! i) \<and> \<not> is_light_entity (entities w ! i)
              \<and> first_camera (entities w) \<noteq> Some i \<longrightarrow>
              entities w' ! i = entities w ! i)"
    by blast
  from establishesD [OF frame_rel_update assms(1)] assms(3) fr(1)
  have cr: "created (object3DId s) (object3DId s')
      (the_camera (entities w ! i)) (the_camera (entities w' ! i))"
    by (auto simp: frame_rel_def ent_rel_def)
  from fr(2) i assms(4)
  have first: "camera_handled (entities w' ! i) (new_console s s') (new_trace s s')"
    "list_ex (is_camera_error (ent_id (entities w' ! i))) (new_console s s')
       \<or> (\<exists>c. the_camera (entities w' ! i) = Some c \<and> sys_camera s' = c)"
    by auto
  have others: "\<forall>j < length (entities w). j \<noteq> i \<longrightarrow>
           c_camera (entities w' ! j) = c_camera (entities w ! j)
           \<and> (\<not> is_mesh_entity (entities w ! j) \<and> \<not> is_light_entity (entities w ! j) \<longrightarrow>
                entities w' ! j = entities w ! j)"
    using fr(2) assms(4) by auto
  from first(2) cr
  have used: "\<not> list_ex (is_camera_error (ent_id (entities w' ! i))) (new_console s s') \<longrightarrow>
          (\<exists>c. the_camera (entities w' ! i) = Some c \<and> sys_camera s' = c
             \<and> created (object3DId s) (object3DId s') (the_camera (entities w ! i)) (Some c))"
    by auto
  show ?thesis
    using fr(1) first(1) used others by blast
qed

subsection \<open>Frames on given worlds\<close>

lemmas frame_eval = update_def update_try_def processMeshEntities_def
  processLightEntities_def processCameraEntities_def in_world_def render_def select_def
  is_mesh_entity_def is_light_entity_def is_camera_entity_def new_trace_def new_console_def
  first_camera_def

lemmas world_eval = two_camera_world_def two_camera_start_def camera_light_world_def
  camera_light_start_def two_mesh_world_def two_mesh_start_def mixed_world_def
  mixed_start_def

lemma demo_two_cameras:
  "entities (the (world (snd (update nothrow two_camera_start)))) ! 1
     = entities two_camera_world ! 1"
  "new_console two_camera_start (snd (update nothrow two_camera_start)) = []"
  "the_camera (entities two_camera_world ! 1) = None"
  "is_camera_entity (entities two_camera_world ! 1)"
  "first_camera (entities two_camera_world) = Some 0"
  "isInitialized two_camera_start"
  "world two_camera_start = Some two_camera_world"
  "the_camera (entities two_camera_world ! 0) = None"
  by (simp_all add: world_eval frame_eval stmt_eval entity_eval camera_eval)

text \<open>
  C5, as stated, fails: of two camera entities the frame processes the first only. The
  second is active and holds both components, yet after the frame it is what it was,
  its camera reference still null, and the frame has neither logged an error for it nor
  made a call for it.
\<close>

theorem second_camera_entity_not_processed:
  "is_camera_entity (entities two_camera_world ! 1)
   \<and> entities (the (world (snd (update nothrow two_camera_start)))) ! 1
       = entities two_camera_world ! 1
   \<and> the_camera (entities (the (world (snd (update nothrow two_camera_start)))) ! 1) = None
   \<and> \<not> camera_handled (entities (the (world (snd (update nothrow two_camera_start)))) ! 1)
         (new_console two_camera_start (snd (update nothrow two_camera_start)))
         (new_trace two_camera_start (snd (update nothrow two_camera_start)))"
  using demo_two_cameras(1-4) by (simp add: camera_handled_def synced_def)

lemma demo_camera_light:
  "first_camera (entities camera_light_world) = Some 0"
  "is_camera_entity (entities camera_light_world ! 1)"
  "the_light (entities camera_light_world ! 1) = None"
  "the_light (entities (the (world (snd (update nothrow camera_light_start)))) ! 1) = Some 1"
  by (simp_all add: world_eval frame_eval stmt_eval entity_eval camera_eval light_eval)

text \<open>
  C8, as stated, fails: a later camera entity that holds a ThreeLightComponent as well is
  processed by the light pass of the frame, which makes its light. The entity is not
  what it was before the frame.
\<close>

theorem later_camera_entity_touched_by_light_pass:
  "first_camera (entities camera_light_world) = Some 0
   \<and> is_camera_entity (entities camera_light_world ! 1)
   \<and> the_light (entities camera_light_world ! 1) = None
   \<and> the_light (entities (the (world (snd (update nothrow camera_light_start)))) ! 1) = Some 1
   \<and> entities (the (world (snd (update nothrow camera_light_start)))) ! 1
       \<noteq> entities camera_light_world ! 1"
proof -
  have "entities (the (world (snd (update nothrow camera_light_start)))) ! 1
       \<noteq> entities camera_light_world ! 1"
    using demo_camera_light(3,4) by auto
  with demo_camera_light show ?thesis by simp
qed

lemma demo_failing_mesh:
  "isInitialized two_mesh_start"
  "world two_mesh_start = Some two_mesh_world"
  "fst (update first_mesh_fails two_mesh_start) = None"
  "new_console two_mesh_start (snd (update first_mesh_fails two_mesh_start))
     = [Error_mesh 7 (Thrown (Position_set (MeshObj 1) (Vec3 1 2 3)))]"
  "the_mesh (entities (the (world (snd (update first_mesh_fails two_mesh_start)))) ! 1)
     = Some 2"
  "Position_set (MeshObj 2) (Vec3 4 5 6)
     \<in> set (new_trace two_mesh_start (snd (update first_mesh_fails two_mesh_start)))"
  "is_mesh_entity (entities two_mesh_world ! 0)"
  "is_mesh_entity (entities two_mesh_world ! 1)"
  by (simp_all add: world_eval frame_eval stmt_eval entity_eval mesh_eval first_mesh_fails_def
        createGeometry_def createMaterial_def)

theorem errors_contained_per_entity_witness:
  "isInitialized two_mesh_start \<and> world two_mesh_start = Some two_mesh_world
   \<and> fst (update first_mesh_fails two_mesh_start) = None
   \<and> new_console two_mesh_start (snd (update first_mesh_fails two_mesh_start))
       = [Error_mesh 7 (Thrown (Position_set (MeshObj 1) (Vec3 1 2 3)))]
   \<and> mesh_handled (entities (the (world (snd (update first_mesh_fails two_mesh_start)))) ! 0)
        (new_console two_mesh_start (snd (update first_mesh_fails two_mesh_start)))
        (new_trace two_mesh_start (snd (update first_mesh_fails two_mesh_start)))
   \<and> mesh_handled (entities (the (world (snd (update first_mesh_fails two_mesh_start)))) ! 1)
        (new_console two_mesh_start (snd (update first_mesh_fails two_mesh_start)))
        (new_trace two_mesh_start (snd (update first_mesh_fails two_mesh_start)))
   \<and> the_mesh (entities (the (world (snd (update first_mesh_fails two_mesh_start)))) ! 1)
       = Some 2
   \<and> Position_set (MeshObj 2) (Vec3 4 5 6)
       \<in> set (new_trace two_mesh_start (snd (update first_mesh_fails two_mesh_start)))"
proof -
  let ?s' = "snd (update first_mesh_fails two_mesh_start)"
  have run: "update first_mesh_fails two_mesh_start
      = (fst (update first_mesh_fails two_mesh_start), ?s')"
    by simp
  have len: "length (entities two_mesh_world) = 2"
    by (simp add: two_mesh_world_def)
  from errors_contained_per_entity [OF run demo_failing_mesh(1,2)]
  obtain w' where w': "world ?s' = Some w'"
    and each: "\<forall>i < length (entities two_mesh_world).
           (is_mesh_entity (entities two_mesh_world ! i) \<longrightarrow>
              mesh_handled (entities w' ! i) (new_console two_mesh_start ?s')
                (new_trace two_mesh_start ?s'))
         \<and> (is_light_entity (entities two_mesh_world ! i) \<longrightarrow>
              light_handled (entities w' ! i) (new_console two_mesh_start ?s')
                (new_trace two_mesh_start ?s'))
         \<and> (first_camera (entities two_mesh_world) = Some i \<longrightarrow>
              camera_handled (entities w' ! i) (new_console two_mesh_start ?s')
                (new_trace two_mesh_start ?s'))"
    apply (elim exE conjE)
    apply (rule that)
    apply assumption
    apply assumption
    done
  from w' have the: "the (world ?s') = w'" by simp
  from each [THEN spec, of 0] len demo_failing_mesh(7)
  have h0: "mesh_handled (entities w' ! 0) (new_console two_mesh_start ?s')
      (new_trace two_mesh_start ?s')"
    by simp
  from each [THEN spec, of 1] len demo_failing_mesh(8)
  have h1: "mesh_handled (entities w' ! 1) (new_console two_mesh_start ?s')
      (new_trace two_mesh_start ?s')"
    by simp
  show ?thesis
    unfolding the
    using h0 h1 demo_failing_mesh(1-6) [unfolded the]
    by (intro conjI)
qed

lemma demo_mixed:
  "isInitialized mixed_start"
  "world mixed_start = Some mixed_world"
  "is_mesh_entity (entities mixed_world ! 0)"
  "\<not> is_mesh_entity (entities mixed_world ! 1)"
  "\<not> is_light_entity (entities mixed_world ! 1)"
  "first_camera (entities mixed_world) = Some 2"
  "\<not> is_mesh_entity (entities mixed_world ! 3)"
  "\<not> is_light_entity (entities mixed_world ! 3)"
  "length (entities mixed_world) = 4"
  by (simp_all add: world_eval frame_eval entity_eval)

theorem frame_processes_selected_entities_witness:
  "isInitialized mixed_start \<and> world mixed_start = Some mixed_world
   \<and> mesh_handled (entities (the (world (snd (update nothrow mixed_start)))) ! 0)
        (new_console mixed_start (snd (update nothrow mixed_start)))
        (new_trace mixed_start (snd (update nothrow mixed_start)))
   \<and> entities (the (world (snd (update nothrow mixed_start)))) ! 1 = entities mixed_world ! 1
   \<and> camera_handled (entities (the (world (snd (update nothrow mixed_start)))) ! 2)
        (new_console mixed_start (snd (update nothrow mixed_start)))
        (new_trace mixed_start (snd (update nothrow mixed_start)))
   \<and> entities (the (world (snd (update nothrow mixed_start)))) ! 3 = entities mixed_world ! 3"
proof -
  let ?s' = "snd (update nothrow mixed_start)"
  have run: "update nothrow mixed_start = (fst (update nothrow mixed_start), ?s')"
    by simp
  from frame_processes_selected_entities [OF run demo_mixed(1,2)]
  obtain w' where w': "world ?s' = Some w'"
    and each: "\<forall>i < length (entities mixed_world).
           (is_mesh_entity (entities mixed_world ! i) \<longrightarrow>
              mesh_handled (entities w' ! i) (new_console mixed_start ?s')
                (new_trace mixed_start ?s'))
         \<and> (is_light_entity (entities mixed_world ! i) \<longrightarrow>
              light_handled (entities w' ! i) (new_console mixed_start ?s')
                (new_trace mixed_start ?s'))
         \<and> (first_camera (entities mixed_world) = Some i \<longrightarrow>
              camera_handled (entities w' ! i) (new_console mixed_start ?s')
                (new_trace mixed_start ?s'))
         \<and> (\<not> is_mesh_entity (entities mixed_world ! i)
              \<and> \<not> is_light_entity (entities mixed_world ! i)
              \<and> first_camera (entities mixed_world) \<noteq> Some i \<longrightarrow>
              entities w' ! i = entities mixed_world ! i)"
    apply (elim exE conjE)
    apply (rule that)
     apply assumption+
    done
  from w' have the: "the (world ?s') = w'" by simp
  from each [THEN spec, of 0] demo_mixed(3,9)
  have h0: "mesh_handled (entities w' ! 0) (new_console mixed_start ?s')
      (new_trace mixed_start ?s')"
    by simp
  from each [THEN spec, of 1] demo_mixed(4,5,6,9)
  have h1: "entities w' ! 1 = entities mixed_world ! 1"
    by simp
  from each [THEN spec, of 2] demo_mixed(6,9)
  have h2: "camera_handled (entities w' ! 2) (new_console mixed_start ?s')
      (new_trace mixed_start ?s')"
    by simp
  from each [THEN spec, of 3] demo_mixed(6,7,8,9)
  have h3: "entities w' ! 3 = entities mixed_world ! 3"
    by simp
  show ?thesis
    unfolding the
    using demo_mixed(1,2) h0 h1 h2 h3
    by (intro conjI)
qed

theorem first_camera_entity_is_used_witness:
  "isInitialized two_camera_start \<and> world two_camera_start = Some two_camera_world
   \<and> first_camera (entities two_camera_world) = Some 0
   \<and> camera_handled (entities (the (world (snd (update nothrow two_camera_start)))) ! 0)
        (new_console two_camera_start (snd (update nothrow two_camera_start)))
        (new_trace two_camera_start (snd (update nothrow two_camera_start)))
   \<and> the_camera (entities (the (world (snd (update nothrow two_camera_start)))) ! 0)
       = Some (sys_camera (snd (update nothrow two_camera_start)))
   \<and> object3DId two_camera_start
       \<le> sys_camera (snd (update nothrow two_camera_start))
   \<and> entities (the (world (snd (update nothrow two_camera_start)))) ! 1
       = entities two_camera_world ! 1"
proof -
  let ?s' = "snd (update nothrow two_camera_start)"
  have run: "update nothrow two_camera_start = (fst (update nothrow two_camera_start), ?s')"
    by simp
  have len: "length (entities two_camera_world) = 2"
    by (simp add: two_camera_world_def)
  have sel: "\<not> is_mesh_entity (entities two_camera_world ! 1)"
    "\<not> is_light_entity (entities two_camera_world ! 1)"
    by (simp_all add: world_eval frame_eval entity_eval)
  from first_camera_entity_is_used [OF run demo_two_cameras(6,7,5)]
  obtain w' where w': "world ?s' = Some w'"
    and first: "camera_handled (entities w' ! 0) (new_console two_camera_start ?s')
        (new_trace two_camera_start ?s')"
    and used: "\<not> list_ex (is_camera_error (ent_id (entities w' ! 0)))
          (new_console two_camera_start ?s') \<longrightarrow>
          (\<exists>c. the_camera (entities w' ! 0) = Some c \<and> sys_camera ?s' = c
             \<and> created (object3DId two_camera_start) (object3DId ?s')
                  (the_camera (entities two_camera_world ! 0)) (Some c))"
    and others: "\<forall>j < length (entities two_camera_world). j \<noteq> 0 \<longrightarrow>
           c_camera (entities w' ! j) = c_camera (entities two_camera_world ! j)
           \<and> (\<not> is_mesh_entity (entities two_camera_world ! j)
                \<and> \<not> is_light_entity (entities two_camera_world ! j) \<longrightarrow>
                entities w' ! j = entities two_camera_world ! j)"
    apply (elim exE conjE)
    apply (rule that)
     apply assumption+
    done
  from w' have the: "the (world ?s') = w'" by simp
  from used demo_two_cameras(2,8)
  have cam: "the_camera (entities w' ! 0) = Some (sys_camera ?s')"
    "object3DId two_camera_start \<le> sys_camera ?s'"
    by (auto simp: created_def)
  from others [THEN spec, of 1] len sel
  have h1: "entities w' ! 1 = entities two_camera_world ! 1"
    by simp
  show ?thesis
    unfolding the
    using demo_two_cameras(6,7,5) first cam h1
    by (intro conjI)
qed

section \<open>Components and factories\<close>

lemmas member_eval = TransformComponent_members_def ThreeMeshComponent_members_def
  ThreeMaterialComponent_members_def ThreeGeometryComponent_members_def
  ThreeLightComponent_members_def ThreeCameraComponent_members_def has_dirty_flag_def
  methods_def only_data_fields_def

text \<open>
  C7, as stated, fails: \<open>TransformComponent\<close> declares \<open>position\<close>, \<open>rotation\<close> and
  \<open>scale\<close> and nothing else, so it has no \<open>needsUpdate\<close> field.
\<close>

theorem transform_component_has_no_dirty_flag:
  "map fst TransformComponent_members = [''position'', ''rotation'', ''scale'']
   \<and> map_of TransformComponent_members ''needsUpdate'' = None
   \<and> \<not> has_dirty_flag TransformComponent_members"
  by (simp add: member_eval)

text \<open>
  C7, as amended. Each of the five components that wrap Three.js, that is
  \<open>ThreeMeshComponent\<close>, \<open>ThreeMaterialComponent\<close>, \<open>ThreeGeometryComponent\<close>,
  \<open>ThreeLightComponent\<close> and \<open>ThreeCameraComponent\<close>, declares a boolean field
  \<open>needsUpdate\<close>, which its constructor leaves \<open>false\<close>. \<open>TransformComponent\<close>
  declares its three vectors only and has no dirty flag. No component declares a
  method, except \<open>ThreeMeshComponent\<close>, which declares \<open>dispose\<close>.
\<close>

theorem three_components_carry_dirty_flag:
  "has_dirty_flag ThreeMeshComponent_members
   \<and> has_dirty_flag ThreeMaterialComponent_members
   \<and> has_dirty_flag ThreeGeometryComponent_members
   \<and> has_dirty_flag ThreeLightComponent_members
   \<and> has_dirty_flag ThreeCameraComponent_members
   \<and> mesh_needsUpdate (ThreeMeshComponent_new m) = False
   \<and> mat_needsUpdate (ThreeMaterialComponent_new mcfg) = False
   \<and> geo_needsUpdate (ThreeGeometryComponent_new ty ps) = False
   \<and> light_needsUpdate (ThreeLightComponent_new lcfg) = False
   \<and> cam_needsUpdate (ThreeCameraComponent_new ccfg) = False
   \<and> map fst TransformComponent_members = [''position'', ''rotation'', ''scale'']
   \<and> only_data_fields TransformComponent_members
   \<and> only_data_fields ThreeMaterialComponent_members
   \<and> only_data_fields ThreeGeometryComponent_members
   \<and> only_data_fields ThreeLightComponent_members
   \<and> only_data_fields ThreeCameraComponent_members
   \<and> methods ThreeMeshComponent_members = [''dispose'']"
  by (simp add: member_eval ThreeMeshComponent_new_def ThreeMaterialComponent_new_def
        ThreeGeometryComponent_new_def ThreeLightComponent_new_def
        ThreeCameraComponent_new_def)





end
